theory Spec2Isabelle
  imports Complex_Main
begin

section \<open>Floating-point values as the analysis code sees them\<close>

text \<open>
  The analysis code (src/app.py) works on pandas/numpy float64 columns. A float is a
  finite real, an infinity or NaN; the finite ones that occur are binary64 numbers,
  because every operation rounds its exact result to the nearest binary64 number, ties
  to even, as IEEE 754 prescribes and numpy does. The sign of zero is outside the
  model.
\<close>

datatype pyfloat = Fin real | PInf | NInf | NaN

fun is_fin :: "pyfloat \<Rightarrow> bool" where
  "is_fin (Fin _) = True"
| "is_fin _ = False"

subsection \<open>Rounding to binary64\<close>

text \<open>The nearest integer, a tie going to the even one.\<close>

definition arred_par :: "real \<Rightarrow> int" where
  "arred_par x =
     (let f = \<lfloor>x\<rfloor>; r = x - of_int f
      in if r < 1 / 2 then f else if 1 / 2 < r then f + 1 else if even f then f else f + 1)"

text \<open>The power of two with an integer exponent.\<close>

definition dois_a :: "int \<Rightarrow> real" where
  "dois_a k = (if 0 \<le> k then 2 ^ nat k else 1 / 2 ^ nat (- k))"

text \<open>
  The binary exponent of a nonzero number, not below that of the smallest normal
  number: below it the binary64 numbers are equally spaced.
\<close>

definition expoente :: "real \<Rightarrow> int" where
  "expoente x = max \<lfloor>log 2 \<bar>x\<bar>\<rfloor> (- 1022)"

text \<open>
  The multiple of the spacing at \<open>x\<close> (53 significant bits) that is nearest to \<open>x\<close>,
  with the exponent range unbounded above.
\<close>

definition arred64 :: "real \<Rightarrow> real" where
  "arred64 x =
     (if x = 0 then 0
      else dois_a (expoente x - 52) * of_int (arred_par (x / dois_a (expoente x - 52))))"

text \<open>The binary64 result for an exact result \<open>x\<close>: a rounded value of \<open>2^1024\<close> or more is an infinity.\<close>

definition f64 :: "real \<Rightarrow> pyfloat" where
  "f64 x = (let y = arred64 x
            in if 2 ^ 1024 \<le> \<bar>y\<bar> then (if 0 < x then PInf else NInf) else Fin y)"

subsection \<open>The operations\<close>

fun fneg :: "pyfloat \<Rightarrow> pyfloat" where
  "fneg (Fin a) = Fin (- a)"
| "fneg PInf = NInf"
| "fneg NInf = PInf"
| "fneg NaN = NaN"

fun fadd :: "pyfloat \<Rightarrow> pyfloat \<Rightarrow> pyfloat" where
  "fadd NaN _ = NaN"
| "fadd _ NaN = NaN"
| "fadd (Fin a) (Fin b) = f64 (a + b)"
| "fadd PInf NInf = NaN"
| "fadd NInf PInf = NaN"
| "fadd PInf _ = PInf"
| "fadd _ PInf = PInf"
| "fadd NInf _ = NInf"
| "fadd _ NInf = NInf"

definition fsub :: "pyfloat \<Rightarrow> pyfloat \<Rightarrow> pyfloat" where
  "fsub a b = fadd a (fneg b)"

text \<open>The sign of a value that is not NaN, as \<open>-1\<close>, \<open>0\<close> or \<open>1\<close>.\<close>

fun fsgn :: "pyfloat \<Rightarrow> int" where
  "fsgn (Fin a) = (if a < 0 then - 1 else if a = 0 then 0 else 1)"
| "fsgn PInf = 1"
| "fsgn NInf = - 1"
| "fsgn NaN = 0"

definition inf_of_sign :: "int \<Rightarrow> pyfloat" where
  "inf_of_sign s = (if s = 0 then NaN else if 0 < s then PInf else NInf)"

fun fmul :: "pyfloat \<Rightarrow> pyfloat \<Rightarrow> pyfloat" where
  "fmul NaN _ = NaN"
| "fmul _ NaN = NaN"
| "fmul (Fin a) (Fin b) = f64 (a * b)"
| "fmul a b = inf_of_sign (fsgn a * fsgn b)"

text \<open>
  Division as numpy does it on float64: a nonzero finite value over zero is an infinity
  of the dividend's sign, zero over zero is NaN, and nothing is raised.
\<close>

fun fdiv :: "pyfloat \<Rightarrow> pyfloat \<Rightarrow> pyfloat" where
  "fdiv NaN _ = NaN"
| "fdiv _ NaN = NaN"
| "fdiv (Fin a) (Fin b) = (if b = 0 then inf_of_sign (fsgn (Fin a)) else f64 (a / b))"
| "fdiv (Fin a) _ = Fin 0"
| "fdiv a (Fin b) = inf_of_sign (fsgn a * (if b < 0 then - 1 else 1))"
| "fdiv _ _ = NaN"

fun fabs :: "pyfloat \<Rightarrow> pyfloat" where
  "fabs (Fin a) = Fin \<bar>a\<bar>"
| "fabs PInf = PInf"
| "fabs NInf = PInf"
| "fabs NaN = NaN"

fun fsqrt :: "pyfloat \<Rightarrow> pyfloat" where
  "fsqrt (Fin a) = (if a < 0 then NaN else f64 (sqrt a))"
| "fsqrt PInf = PInf"
| "fsqrt NInf = NaN"
| "fsqrt NaN = NaN"

text \<open>Comparison: every comparison with NaN is false.\<close>

fun flt :: "pyfloat \<Rightarrow> pyfloat \<Rightarrow> bool" where
  "flt NaN _ = False"
| "flt _ NaN = False"
| "flt (Fin a) (Fin b) = (a < b)"
| "flt _ NInf = False"
| "flt PInf _ = False"
| "flt _ _ = True"

definition fgt :: "pyfloat \<Rightarrow> pyfloat \<Rightarrow> bool" where
  "fgt a b = flt b a"

fun fle :: "pyfloat \<Rightarrow> pyfloat \<Rightarrow> bool" where
  "fle NaN _ = False"
| "fle _ NaN = False"
| "fle a b = (\<not> flt b a)"

definition fge :: "pyfloat \<Rightarrow> pyfloat \<Rightarrow> bool" where
  "fge a b = fle b a"

section \<open>The pandas aggregates used by the metrics\<close>

text \<open>
  \<open>Series.sum\<close>, \<open>Series.mean\<close> and \<open>Series.std\<close> with their defaults: NaN entries are
  skipped (\<open>skipna=True\<close>), infinities are not; the mean of no value is NaN; the
  standard deviation is the sample one (\<open>ddof=1\<close>), NaN when fewer than two values
  remain. The sum starts at 0 and adds the entries from left to right, each addition
  rounded: this is the order of numpy for an array of fewer than 8 entries; for a longer
  one numpy groups the additions otherwise, and the last bits of a sum can differ.
\<close>

definition validos :: "pyfloat list \<Rightarrow> pyfloat list" where
  "validos xs = filter (\<lambda>x. x \<noteq> NaN) xs"

definition fsoma :: "pyfloat list \<Rightarrow> pyfloat" where
  "fsoma xs = foldl fadd (Fin 0) xs"

definition media :: "pyfloat list \<Rightarrow> pyfloat" where
  "media xs =
     (let v = validos xs
      in if v = [] then NaN else fdiv (fsoma v) (Fin (real (length v))))"

definition desvio_padrao :: "pyfloat list \<Rightarrow> pyfloat" where
  "desvio_padrao xs =
     (let v = validos xs; n = length v
      in if n \<le> 1 then NaN
         else (let avg = fdiv (fsoma v) (Fin (real n));
                   sqr = map (\<lambda>x. fmul (fsub avg x) (fsub avg x)) v
               in fsqrt (fdiv (fsoma sqr) (Fin (real (n - 1))))))"

section \<open>Segment metrics: \<open>AnalisadorInvestimentos.calcular_metricas_segmento\<close>\<close>

text \<open>
  A row of the result of \<open>obter_dados_segmento\<close>: the eight selected columns, in the
  order of the SELECT. The numeric columns are nullable in the schema.
\<close>

type_synonym data = int

record linha_consulta =
  q_Ticker :: string
  q_Descricao :: string
  q_DataQuotacao :: data
  q_Fechamento :: "real option"
  q_FechamentoAjustado :: "real option"
  q_Volume :: "int option"
  q_Alta :: "real option"
  q_Baixa :: "real option"

text \<open>A row of the DataFrame built from the query result.\<close>

record df_linha =
  df_Ticker :: string
  df_DataQuotacao :: data
  df_Fechamento :: real
  df_Volume :: "int option"

text \<open>
  \<open>float(row[3]) if row[3] else 0\<close>: a NULL close and a zero close both give 0, and
  \<open>float\<close> gives the binary64 number nearest to the decimal (a NUMERIC(18,4) is far
  below the largest one).
\<close>

definition fechamento_float :: "real option \<Rightarrow> real" where
  "fechamento_float c =
     (case c of None \<Rightarrow> 0 | Some v \<Rightarrow> if v \<noteq> 0 then arred64 v else 0)"

definition monta_df :: "linha_consulta list \<Rightarrow> df_linha list" where
  "monta_df dados =
     map (\<lambda>row. \<lparr>df_Ticker = q_Ticker row, df_DataQuotacao = q_DataQuotacao row,
                 df_Fechamento = fechamento_float (q_Fechamento row),
                 df_Volume = q_Volume row\<rparr>) dados"

text \<open>
  \<open>df.groupby('Ticker')['Fechamento'].pct_change()\<close>: within the rows of one ticker,
  in the order of the frame, each close over the previous close of the same ticker,
  minus one; the first row of each ticker has no previous close and gets NaN. The
  close column holds no NaN (see \<open>fechamento_float\<close>), so the forward fill that
  \<open>pct_change\<close> applies first changes nothing.
\<close>

definition anteriores :: "df_linha list \<Rightarrow> nat \<Rightarrow> df_linha list" where
  "anteriores df i = filter (\<lambda>r. df_Ticker r = df_Ticker (df ! i)) (take i df)"

definition pct_change :: "df_linha list \<Rightarrow> nat \<Rightarrow> pyfloat" where
  "pct_change df i =
     (case rev (anteriores df i) of
        [] \<Rightarrow> NaN
      | p # _ \<Rightarrow> fsub (fdiv (Fin (df_Fechamento (df ! i))) (Fin (df_Fechamento p))) (Fin 1))"

definition retornos :: "df_linha list \<Rightarrow> pyfloat list" where
  "retornos df = map (\<lambda>i. fmul (pct_change df i) (Fin 100)) [0..<length df]"

text \<open>
  What \<open>df['Volume'].sum()\<close> can be: an integer, or a float when the column is one.
\<close>

datatype numero = Inteiro int | Flutuante pyfloat

record metricas =
  RetornoMedio :: pyfloat
  VolatilidadeMedia :: pyfloat
  PrecoMaximo :: real
  PrecoMinimo :: real
  VolumeTotal :: numero

definition volume_ou_zero :: "int option \<Rightarrow> int" where
  "volume_ou_zero v = (case v of None \<Rightarrow> 0 | Some n \<Rightarrow> n)"

text \<open>A sum of 64-bit integers keeps the low 64 bits of the exact sum, read as a signed number.\<close>

definition wrap64 :: "int \<Rightarrow> int" where
  "wrap64 x = (x + 2 ^ 63) mod 2 ^ 64 - 2 ^ 63"

text \<open>
  The column \<open>Volume\<close> of the frame holds the BIGINT volumes of the query. When none is
  NULL the column is int64, and its sum wraps around. When some are NULL and some are
  not, the column is float64 with NaN for the NULLs: each volume is the nearest binary64
  number and the sum skips the NaNs. When all are NULL the column holds objects, and its
  sum is the integer 0.
\<close>

definition soma_volume :: "int option list \<Rightarrow> numero" where
  "soma_volume vs =
     (if \<forall>v\<in>set vs. v \<noteq> None then Inteiro (wrap64 (sum_list (map volume_ou_zero vs)))
      else if \<forall>v\<in>set vs. v = None then Inteiro 0
      else Flutuante (fsoma (validos (map (\<lambda>v. case v of None \<Rightarrow> NaN
                                                  | Some n \<Rightarrow> f64 (of_int n)) vs))))"

text \<open>
  The function takes the rows that \<open>obter_dados_segmento\<close> returned for the segment
  (the store's answer to the query) and gives \<open>None\<close> where the code returns \<open>None\<close>.
\<close>

definition calcular_metricas_segmento :: "linha_consulta list \<Rightarrow> metricas option" where
  "calcular_metricas_segmento dados =
     (if dados = [] then None
      else (let df = monta_df dados
            in if df = [] then None
               else (let ret = retornos df; fech = map df_Fechamento df
                     in Some \<lparr>RetornoMedio = media ret,
                              VolatilidadeMedia = desvio_padrao ret,
                              PrecoMaximo = fold max (tl fech) (hd fech),
                              PrecoMinimo = fold min (tl fech) (hd fech),
                              VolumeTotal = soma_volume (map df_Volume df)\<rparr>)))"

section \<open>Signal generator: \<open>AnalisadorInvestimentos.gerar_oportunidades\<close>\<close>

datatype tipo_oportunidade = COMPRA | VENDA | HOLD

datatype nivel_risco = BAIXO | MEDIO | ALTO

record oportunidade =
  id_segmento :: int
  titulo :: string
  descricao :: string
  tipo :: tipo_oportunidade
  potencial_retorno :: pyfloat
  risco :: nivel_risco
  confianca :: real
  metricas_op :: metricas

text \<open>
  The body of \<open>gerar_oportunidades\<close> after its first line, as a function of the
  metrics it has just computed. A metrics dictionary always has its five keys, so
  \<open>not metricas\<close> holds for \<open>None\<close> only.
  The two texts of the record are written without their accents. The literals 2, -1,
  1.5, 2 and 5 are binary64 numbers as they stand; \<open>0.8\<close> is not, and the code
  multiplies by the binary64 number nearest to it.
\<close>

definition oportunidades_de :: "int \<Rightarrow> metricas option \<Rightarrow> oportunidade list" where
  "oportunidades_de seg mo =
     (case mo of
        None \<Rightarrow> []
      | Some m \<Rightarrow>
          (let retorno_medio = RetornoMedio m;
               volatilidade = VolatilidadeMedia m;
               (tp, potencial) =
                 (if fgt retorno_medio (Fin 2) then (COMPRA, fmul retorno_medio (Fin 1.5))
                  else if flt retorno_medio (Fin (- 1)) then (VENDA, fmul (fabs retorno_medio) (f64 0.8))
                  else (HOLD, retorno_medio));
               (rs, conf) =
                 (if flt volatilidade (Fin 2) then (BAIXO, 0.85)
                  else if flt volatilidade (Fin 5) then (MEDIO, 0.70)
                  else (ALTO, 0.55))
           in [\<lparr>id_segmento = seg,
                titulo = ''Oportunidade em Segmento'',
                descricao = ''Analise baseada em 365 dias de dados historicos'',
                tipo = tp, potencial_retorno = potencial,
                risco = rs, confianca = conf, metricas_op = m\<rparr>]))"

definition gerar_oportunidades :: "int \<Rightarrow> linha_consulta list \<Rightarrow> oportunidade list" where
  "gerar_oportunidades seg dados = oportunidades_de seg (calcular_metricas_segmento dados)"

section \<open>The store and the collector's view of it\<close>

text \<open>
  The exceptions the collector's code can meet: Python's own, raised while a row's
  values are converted; \<open>ErroDado\<close>, the store rejecting a value when a statement runs;
  and \<open>ErroBanco\<close>, the connection to the store failing.
\<close>

datatype erro = KeyError | ValueError | TypeError | AttributeError | OverflowError
  | ErroDado | ErroBanco

definition bind_erro :: "erro + 'a \<Rightarrow> ('a \<Rightarrow> erro + 'b) \<Rightarrow> erro + 'b" where
  "bind_erro r f = (case r of Inl e \<Rightarrow> Inl e | Inr v \<Rightarrow> f v)"

text \<open>Table \<open>Indices\<close> (alias \<open>i\<close> in the queries).\<close>

record indice =
  i_IdIndice :: int
  i_Ticker :: string
  i_Descricao :: string
  i_Pais :: string
  i_DataCriacao :: data
  i_Ativo :: bool

text \<open>
  Table \<open>HistoricoPrecos\<close> (alias \<open>hp\<close> in the queries). The generated key
  \<open>IdHistorico\<close> is the position of the row in the table.
\<close>

record preco =
  hp_IdIndice :: int
  hp_DataQuotacao :: data
  hp_Abertura :: "real option"
  hp_Alta :: "real option"
  hp_Baixa :: "real option"
  hp_Fechamento :: "real option"
  hp_FechamentoAjustado :: "real option"
  hp_Volume :: "int option"
  hp_DataInsercao :: data

text \<open>
  The store as the collector reaches it through its engine: the two tables, and the
  outcome of the coming calls to the store (\<open>True\<close>: the call fails with a connection
  error). Once the list is used up every call succeeds, so \<open>falhas = []\<close> is a store
  that stays reachable.
\<close>

record banco =
  Indices :: "indice list"
  HistoricoPrecos :: "preco list"
  falhas :: "bool list"

text \<open>One call to the store (connect, execute or commit): whether it went through, and the store after it.\<close>

definition chamada :: "banco \<Rightarrow> bool \<times> banco" where
  "chamada b = (case falhas b of [] \<Rightarrow> (True, b) | f # fs \<Rightarrow> (\<not> f, b\<lparr>falhas := fs\<rparr>))"

text \<open>
  A cell of the downloaded DataFrame: a timestamp or a number (float64, possibly NaN
  or infinite). A row maps the column names to cells. The missing timestamp \<open>NaT\<close> is
  not a cell of the model: \<open>NaT.date()\<close> is \<open>NaT\<close> again, and what the database driver
  makes of it as a parameter is not in the source; the \<open>Date\<close> column of a download is
  the index of the price history, which holds none.
\<close>

datatype celula = CData data | CNum pyfloat

type_synonym linha_df = "string \<rightharpoonup> celula"

text \<open>\<open>row[c]\<close>\<close>

definition coluna :: "linha_df \<Rightarrow> string \<Rightarrow> erro + celula" where
  "coluna row c = (case row c of None \<Rightarrow> Inl KeyError | Some v \<Rightarrow> Inr v)"

text \<open>\<open>pd.notna\<close>\<close>

fun notna :: "celula \<Rightarrow> bool" where
  "notna (CNum NaN) = False"
| "notna _ = True"

text \<open>\<open>.date()\<close>: a number has no such method.\<close>

fun py_date :: "celula \<Rightarrow> erro + data" where
  "py_date (CData d) = Inr d"
| "py_date (CNum _) = Inl AttributeError"

text \<open>\<open>float(.)\<close>\<close>

fun py_float :: "celula \<Rightarrow> erro + pyfloat" where
  "py_float (CNum x) = Inr x"
| "py_float _ = Inl TypeError"

text \<open>\<open>int(.)\<close>: truncation towards zero; NaN and the infinities have no integer.\<close>

fun py_int :: "celula \<Rightarrow> erro + int" where
  "py_int (CNum (Fin x)) = Inr (if 0 \<le> x then \<lfloor>x\<rfloor> else \<lceil>x\<rceil>)"
| "py_int (CNum NaN) = Inl ValueError"
| "py_int (CNum _) = Inl OverflowError"
| "py_int _ = Inl TypeError"

text \<open>\<open>float(row[c]) if pd.notna(row[c]) else None\<close>\<close>

definition float_ou_none :: "linha_df \<Rightarrow> string \<Rightarrow> erro + pyfloat option" where
  "float_ou_none row c =
     bind_erro (coluna row c) (\<lambda>v.
       if notna v then bind_erro (py_float v) (\<lambda>x. Inr (Some x)) else Inr None)"

text \<open>\<open>int(row[c]) if pd.notna(row[c]) else 0\<close>\<close>

definition int_ou_zero :: "linha_df \<Rightarrow> string \<Rightarrow> erro + int" where
  "int_ou_zero row c =
     bind_erro (coluna row c) (\<lambda>v. if notna v then py_int v else Inr 0)"

text \<open>\<open>row['Date'].date()\<close>\<close>

definition data_da_linha :: "linha_df \<Rightarrow> erro + data" where
  "data_da_linha row = bind_erro (coluna row ''Date'') py_date"

text \<open>The parameter dictionary of the INSERT, with the keys of the source.\<close>

record parametros =
  id_indice :: int
  data_quotacao :: data
  abertura :: "pyfloat option"
  alta :: "pyfloat option"
  baixa :: "pyfloat option"
  fechamento :: "pyfloat option"
  fechamento_ajustado :: "pyfloat option"
  volume :: int
  data_insercao :: data

text \<open>
  The dictionary is built entry by entry, in the order written; the first conversion
  that raises ends it. \<open>agora\<close> stands for \<open>datetime.now()\<close>.
\<close>

definition monta_parametros :: "int \<Rightarrow> linha_df \<Rightarrow> data \<Rightarrow> erro + parametros" where
  "monta_parametros idi row agora =
     bind_erro (data_da_linha row) (\<lambda>d.
     bind_erro (float_ou_none row ''Open'') (\<lambda>ab.
     bind_erro (float_ou_none row ''High'') (\<lambda>al.
     bind_erro (float_ou_none row ''Low'') (\<lambda>ba.
     bind_erro (float_ou_none row ''Close'') (\<lambda>fe.
     bind_erro (float_ou_none row ''Close'') (\<lambda>fa.
     bind_erro (int_ou_zero row ''Volume'') (\<lambda>vo.
       Inr \<lparr>id_indice = idi, data_quotacao = d, abertura = ab, alta = al, baixa = ba,
            fechamento = fe, fechamento_ajustado = fa, volume = vo,
            data_insercao = agora\<rparr>)))))))"

text \<open>
  What the store makes of a float bound to a NUMERIC column: NULL for \<open>None\<close>, the
  number for a finite value; it rejects anything else.
\<close>

fun numerico :: "pyfloat option \<Rightarrow> erro + real option" where
  "numerico None = Inr None"
| "numerico (Some (Fin x)) = Inr (Some x)"
| "numerico (Some _) = Inl ErroDado"

text \<open>What the store makes of an integer bound to the BIGINT column: it takes a 64-bit one.\<close>

definition bigint :: "int \<Rightarrow> erro + int" where
  "bigint v = (if - (2 ^ 63) \<le> v \<and> v < 2 ^ 63 then Inr v else Inl ErroDado)"

text \<open>The row that the INSERT statement writes for a parameter dictionary.\<close>

definition insert_preco :: "parametros \<Rightarrow> erro + preco" where
  "insert_preco p =
     bind_erro (numerico (abertura p)) (\<lambda>ab.
     bind_erro (numerico (alta p)) (\<lambda>al.
     bind_erro (numerico (baixa p)) (\<lambda>ba.
     bind_erro (numerico (fechamento p)) (\<lambda>fe.
     bind_erro (numerico (fechamento_ajustado p)) (\<lambda>fa.
     bind_erro (bigint (volume p)) (\<lambda>vo.
       Inr \<lparr>hp_IdIndice = id_indice p, hp_DataQuotacao = data_quotacao p,
            hp_Abertura = ab, hp_Alta = al, hp_Baixa = ba, hp_Fechamento = fe,
            hp_FechamentoAjustado = fa, hp_Volume = Some vo,
            hp_DataInsercao = data_insercao p\<rparr>))))))"

text \<open>The check query: the number of rows of \<open>HistoricoPrecos\<close> with \<open>IdIndice = :id_indice AND DataQuotacao = :data\<close>.\<close>

definition existe :: "banco \<Rightarrow> int \<Rightarrow> data \<Rightarrow> nat" where
  "existe b idi d =
     length (filter (\<lambda>p. hp_IdIndice p = idi \<and> hp_DataQuotacao p = d) (HistoricoPrecos b))"

section \<open>\<open>YahooFinanceCollector.salvar_historico_precos\<close>\<close>

text \<open>
  The body of the loop for one row, on the store as the open transaction sees it and
  the two counters \<open>registros_inseridos\<close> and \<open>registros_duplicados\<close>. Whatever is
  raised inside the row's \<open>try\<close> (a conversion, or the store) is logged, and the loop
  goes on with the next row.
\<close>

definition processa_linha ::
  "int \<Rightarrow> data \<Rightarrow> banco \<times> nat \<times> nat \<Rightarrow> linha_df \<Rightarrow> banco \<times> nat \<times> nat" where
  "processa_linha idi agora st row =
     (case st of (b, inseridos, duplicados) \<Rightarrow>
       (case data_da_linha row of
          Inl e \<Rightarrow> (b, inseridos, duplicados)
        | Inr d \<Rightarrow>
            (let (ok, b1) = chamada b
             in if \<not> ok then (b1, inseridos, duplicados)
                else if 0 < existe b1 idi d then (b1, inseridos, duplicados + 1)
                else (case monta_parametros idi row agora of
                        Inl e \<Rightarrow> (b1, inseridos, duplicados)
                      | Inr p \<Rightarrow>
                          (let (ok2, b2) = chamada b1
                           in if \<not> ok2 then (b2, inseridos, duplicados)
                              else (case insert_preco p of
                                      Inl e \<Rightarrow> (b2, inseridos, duplicados)
                                    | Inr r \<Rightarrow>
                                        (b2\<lparr>HistoricoPrecos := HistoricoPrecos b2 @ [r]\<rparr>,
                                         inseridos + 1, duplicados)))))))"

text \<open>
  The whole function. An empty frame returns at once. Otherwise: connect, run the
  loop, commit. A failure to connect or to commit reaches the outer \<open>except\<close>, which
  logs and re-raises; the transaction is then lost, so the table is the one the call
  started with. The result carries the two counters the function logs at its end.
\<close>

definition salvar_historico_precos ::
  "int \<Rightarrow> string \<Rightarrow> linha_df list \<Rightarrow> data \<Rightarrow> banco \<Rightarrow> (erro + (nat \<times> nat) option) \<times> banco" where
  "salvar_historico_precos idi ticker df agora b =
     (if df = [] then (Inr None, b)
      else (let (ok, b1) = chamada b
            in if \<not> ok then (Inl ErroBanco, b1)
               else (case foldl (processa_linha idi agora) (b1, 0, 0) df of
                       (b2, inseridos, duplicados) \<Rightarrow>
                         (let (ok3, b3) = chamada b2
                          in if \<not> ok3
                             then (Inl ErroBanco, b3\<lparr>HistoricoPrecos := HistoricoPrecos b\<rparr>)
                             else (Inr (Some (inseridos, duplicados)), b3)))))"

section \<open>\<open>YahooFinanceCollector.adicionar_indice\<close>\<close>

text \<open>The identity column gives the next number after the largest in use.\<close>

definition proximo_id :: "indice list \<Rightarrow> int" where
  "proximo_id is = fold max (map i_IdIndice is) 0 + 1"

definition adicionar_indice ::
  "string \<Rightarrow> string \<Rightarrow> string \<Rightarrow> data \<Rightarrow> banco \<Rightarrow> (erro + int) \<times> banco" where
  "adicionar_indice ticker descr pais agora b =
     (let (ok, b1) = chamada b
      in if \<not> ok then (Inl ErroBanco, b1)
         else (let (ok2, b2) = chamada b1
               in if \<not> ok2 then (Inl ErroBanco, b2)
                  else (case filter (\<lambda>i. i_Ticker i = ticker) (Indices b2) of
                          i # _ \<Rightarrow> (Inr (i_IdIndice i), b2)
                        | [] \<Rightarrow>
                            (let (ok3, b3) = chamada b2
                             in if \<not> ok3 then (Inl ErroBanco, b3)
                                else (let novo = \<lparr>i_IdIndice = proximo_id (Indices b3),
                                                  i_Ticker = ticker, i_Descricao = descr,
                                                  i_Pais = pais, i_DataCriacao = agora,
                                                  i_Ativo = True\<rparr>;
                                          (ok4, b4) = chamada b3
                                      in if \<not> ok4 then (Inl ErroBanco, b4)
                                         else (Inr (i_IdIndice novo),
                                               b4\<lparr>Indices := Indices b4 @ [novo]\<rparr>))))))"

section \<open>\<open>YahooFinanceCollector.coletar_indice_completo\<close>\<close>

text \<open>
  \<open>df\<close> is what \<open>baixar_dados_historicos\<close> returned for the ticker (the provider's
  answer, empty when the download failed). The whole body sits in one \<open>try\<close> whose
  handler logs and does not re-raise.
\<close>

definition coletar_indice_completo ::
  "string \<Rightarrow> string \<Rightarrow> string \<Rightarrow> linha_df list \<Rightarrow> data \<Rightarrow> banco \<Rightarrow> (erro + unit) \<times> banco" where
  "coletar_indice_completo ticker descr pais df agora b =
     (case adicionar_indice ticker descr pais agora b of
        (Inl e, b1) \<Rightarrow> (Inr (), b1)
      | (Inr idi, b1) \<Rightarrow>
          if df \<noteq> [] then
            (case salvar_historico_precos idi ticker df agora b1 of
               (Inl e, b2) \<Rightarrow> (Inr (), b2)
             | (Inr r, b2) \<Rightarrow> (Inr (), b2))
          else (Inr (), b1))"

section \<open>\<open>RepositorioSQLServer.insere_historico_precos\<close> (src/data_loader.py)\<close>

text \<open>
  A row of the loader's frame: the \<open>Ticker\<close> column, which \<open>baixar_dados_indices\<close>
  always sets, and the cells of the other columns under their SQL names.
\<close>

record linha_carga =
  c_Ticker :: string
  c_celulas :: linha_df

text \<open>
  \<open>indices_map\<close>: the dictionary from ticker to id built from
  \<open>SELECT IdIndice, Ticker FROM Indices\<close>; a later row of the table replaces an
  earlier one with the same ticker.
\<close>

definition indices_map :: "banco \<Rightarrow> string \<rightharpoonup> int" where
  "indices_map b = map_of (rev (map (\<lambda>i. (i_Ticker i, i_IdIndice i)) (Indices b)))"

text \<open>
  The loader passes the cells as they are: the store takes a number (and rejects NaN
  and the infinities, see \<open>numerico\<close>), and rejects a timestamp bound to a NUMERIC
  column.
\<close>

fun valor_bruto :: "celula \<Rightarrow> erro + pyfloat option" where
  "valor_bruto (CNum x) = Inr (Some x)"
| "valor_bruto _ = Inl ErroDado"

text \<open>
  The arguments of the loader's INSERT as Python evaluates them, in the order written:
  \<open>row['Abertura'], row['Alta'], row['Baixa'], row['Fechamento'],
  row['FechamentoAjustado'], int(row['Volume'])\<close>.
\<close>

record valores_carga =
  v_abertura :: celula
  v_alta :: celula
  v_baixa :: celula
  v_fechamento :: celula
  v_fechamento_ajustado :: celula
  v_volume :: int

definition argumentos_carga :: "linha_df \<Rightarrow> erro + valores_carga" where
  "argumentos_carga row =
     bind_erro (coluna row ''Abertura'') (\<lambda>ab.
     bind_erro (coluna row ''Alta'') (\<lambda>al.
     bind_erro (coluna row ''Baixa'') (\<lambda>ba.
     bind_erro (coluna row ''Fechamento'') (\<lambda>fe.
     bind_erro (coluna row ''FechamentoAjustado'') (\<lambda>fa.
     bind_erro (bind_erro (coluna row ''Volume'') py_int) (\<lambda>vo.
       Inr \<lparr>v_abertura = ab, v_alta = al, v_baixa = ba, v_fechamento = fe,
            v_fechamento_ajustado = fa, v_volume = vo\<rparr>))))))"

text \<open>The statement's parameters as the store receives them, when it takes the values.\<close>

definition parametros_carga :: "int \<Rightarrow> data \<Rightarrow> data \<Rightarrow> valores_carga \<Rightarrow> erro + parametros" where
  "parametros_carga idi d agora a =
     bind_erro (valor_bruto (v_abertura a)) (\<lambda>ab.
     bind_erro (valor_bruto (v_alta a)) (\<lambda>al.
     bind_erro (valor_bruto (v_baixa a)) (\<lambda>ba.
     bind_erro (valor_bruto (v_fechamento a)) (\<lambda>fe.
     bind_erro (valor_bruto (v_fechamento_ajustado a)) (\<lambda>fa.
       Inr \<lparr>id_indice = idi, data_quotacao = d, abertura = ab, alta = al, baixa = ba,
            fechamento = fe, fechamento_ajustado = fa, volume = v_volume a,
            data_insercao = agora\<rparr>)))))"

text \<open>
  \<open>pd.to_datetime(row['DataQuotacao']).date()\<close>, with \<open>para_data\<close> for
  \<open>pd.to_datetime(.).date()\<close>, the parser of pandas.
\<close>

definition data_carga :: "(celula \<Rightarrow> erro + data) \<Rightarrow> linha_df \<Rightarrow> erro + data" where
  "data_carga para_data row = bind_erro (coluna row ''DataQuotacao'') para_data"

text \<open>
  The body of the loader's loop for one row. A ticker that the dictionary does
  not know, or whose id is 0, is skipped with a warning. The statement is
  \<open>IF NOT EXISTS (...) BEGIN INSERT ... END\<close>: the store takes the parameters, and
  the row count tells an insertion from a date that was there. \<open>agora\<close> stands for
  the default of the column \<open>DataInsercao\<close>, which the statement does not set.
\<close>

definition processa_linha_carga ::
  "(celula \<Rightarrow> erro + data) \<Rightarrow> (string \<rightharpoonup> int) \<Rightarrow> data \<Rightarrow> banco \<times> nat \<times> nat \<Rightarrow> linha_carga
     \<Rightarrow> banco \<times> nat \<times> nat" where
  "processa_linha_carga para_data mapa agora st row =
     (case st of (b, inseridos, duplicados) \<Rightarrow>
       (case mapa (c_Ticker row) of
          None \<Rightarrow> (b, inseridos, duplicados)
        | Some idi \<Rightarrow>
            if idi = 0 then (b, inseridos, duplicados)
            else (case data_carga para_data (c_celulas row) of
                    Inl e \<Rightarrow> (b, inseridos, duplicados)
                  | Inr d \<Rightarrow>
                      (case argumentos_carga (c_celulas row) of
                         Inl e \<Rightarrow> (b, inseridos, duplicados)
                       | Inr a \<Rightarrow>
                           (let (ok, b1) = chamada b
                            in if \<not> ok then (b1, inseridos, duplicados)
                               else (case bind_erro (parametros_carga idi d agora a) insert_preco of
                                       Inl e \<Rightarrow> (b1, inseridos, duplicados)
                                     | Inr r \<Rightarrow>
                                         if 0 < existe b1 idi d
                                         then (b1, inseridos, duplicados + 1)
                                         else (b1\<lparr>HistoricoPrecos := HistoricoPrecos b1 @ [r]\<rparr>,
                                               inseridos + 1, duplicados)))))))"

text \<open>
  The whole function: connect, read the ids, run the loop, commit. Only the loop body
  has a \<open>try\<close>: a failure of one of the other three calls leaves the function as an
  exception, and the uncommitted rows are lost.
\<close>

definition insere_historico_precos ::
  "(celula \<Rightarrow> erro + data) \<Rightarrow> linha_carga list \<Rightarrow> data \<Rightarrow> banco \<Rightarrow> (erro + nat \<times> nat) \<times> banco" where
  "insere_historico_precos para_data df agora b =
     (let (ok, b1) = chamada b
      in if \<not> ok then (Inl ErroBanco, b1)
         else (let (ok2, b2) = chamada b1
               in if \<not> ok2 then (Inl ErroBanco, b2)
                  else (case foldl (processa_linha_carga para_data (indices_map b2) agora)
                               (b2, 0, 0) df of
                          (b3, inseridos, duplicados) \<Rightarrow>
                            (let (ok4, b4) = chamada b3
                             in if \<not> ok4
                                then (Inl ErroBanco, b4\<lparr>HistoricoPrecos := HistoricoPrecos b\<rparr>)
                                else (Inr (inseridos, duplicados), b4)))))"

section \<open>The adjusted close in \<open>IndiceManager.baixar_dados_indices\<close>\<close>

text \<open>
  What the loader does to the column names of a downloaded frame, between the download
  and the selection of the columns it keeps. \<open>str.lower\<close> is the ASCII one here, and
  \<open>sub in s\<close> on strings is the substring test.
\<close>

definition minuscula :: "char \<Rightarrow> char" where
  "minuscula c =
     (let n = (of_char c :: nat) in if 65 \<le> n \<and> n \<le> 90 then char_of (n + 32) else c)"

definition lower :: "string \<Rightarrow> string" where
  "lower s = map minuscula s"

fun contem :: "string \<Rightarrow> string \<Rightarrow> bool" where
  "contem sub [] = (sub = [])"
| "contem sub (c # s) = (take (length sub) (c # s) = sub \<or> contem sub s)"

definition parece_adj_close :: "string \<Rightarrow> bool" where
  "parece_adj_close col = (contem ''adj'' (lower col) \<and> contem ''close'' (lower col))"

text \<open>
  \<open>if 'Adj Close' not in df.columns\<close>: the first column that looks like an adjusted
  close is renamed to \<open>Adj Close\<close>, and the search stops.
\<close>

definition renomeia_adj_close :: "string list \<Rightarrow> string list" where
  "renomeia_adj_close cols =
     (if ''Adj Close'' \<in> set cols then cols
      else (case List.find parece_adj_close cols of
              None \<Rightarrow> cols
            | Some col \<Rightarrow> map (\<lambda>c. if c = col then ''Adj Close'' else c) cols))"

text \<open>\<open>df[c] = ...\<close>: the column is replaced where it is, or added at the end.\<close>

definition atribui_coluna :: "string \<Rightarrow> string list \<Rightarrow> string list" where
  "atribui_coluna c cols = (if c \<in> set cols then cols else cols @ [c])"

text \<open>The renaming to the SQL names.\<close>

definition nome_sql :: "string \<Rightarrow> string" where
  "nome_sql c =
     (if c = ''Date'' then ''DataQuotacao''
      else if c = ''Open'' then ''Abertura''
      else if c = ''High'' then ''Alta''
      else if c = ''Low'' then ''Baixa''
      else if c = ''Close'' then ''Fechamento''
      else if c = ''Adj Close'' then ''FechamentoAjustado''
      else c)"

definition colunas_mantidas :: "string list" where
  "colunas_mantidas =
     [''Ticker'', ''Descricao'', ''Pais'', ''DataQuotacao'', ''Abertura'', ''Alta'', ''Baixa'',
      ''Fechamento'', ''FechamentoAjustado'', ''Volume'']"

text \<open>
  The columns of the frame that the loader keeps for a ticker, from the columns of the
  download; \<open>df[colunas_mantidas]\<close> raises \<open>KeyError\<close> when one of them is missing, and the
  handler around the ticker's download logs it and goes on without the ticker.
\<close>

definition colunas_carga :: "string list \<Rightarrow> erro + string list" where
  "colunas_carga cols =
     (let cs = map nome_sql
                 (atribui_coluna ''Pais'' (atribui_coluna ''Descricao''
                    (atribui_coluna ''Ticker'' (renomeia_adj_close cols))))
      in if set colunas_mantidas \<subseteq> set cs then Inr colunas_mantidas else Inl KeyError)"

section \<open>Notions used to state the properties of the store\<close>

text \<open>The pair that the table \<open>HistoricoPrecos\<close> must hold once at most.\<close>

definition chave :: "preco \<Rightarrow> int \<times> data" where
  "chave p = (hp_IdIndice p, hp_DataQuotacao p)"

definition chave_unica :: "banco \<Rightarrow> bool" where
  "chave_unica b = distinct (map chave (HistoricoPrecos b))"

text \<open>The row that the collector's loop writes for a row of the frame, when it writes one.\<close>

definition registro :: "int \<Rightarrow> linha_df \<Rightarrow> data \<Rightarrow> erro + preco" where
  "registro idi row agora = bind_erro (monta_parametros idi row agora) insert_preco"

text \<open>The row's date can be read and the table holds a bar of the instrument for it.\<close>

definition ja_gravada :: "banco \<Rightarrow> int \<Rightarrow> linha_df \<Rightarrow> bool" where
  "ja_gravada b idi row =
     (case data_da_linha row of Inl e \<Rightarrow> False | Inr d \<Rightarrow> 0 < existe b idi d)"

text \<open>A sequence of ingestion runs, by the collector or by the loader, each on the store the previous one left.\<close>

datatype ingestao =
  Coleta int string "linha_df list" data
| Carga "celula \<Rightarrow> erro + data" "linha_carga list" data

fun ingestoes :: "banco \<Rightarrow> ingestao list \<Rightarrow> banco" where
  "ingestoes b [] = b"
| "ingestoes b (Coleta idi ticker df agora # ops) =
     ingestoes (snd (salvar_historico_precos idi ticker df agora b)) ops"
| "ingestoes b (Carga para_data df agora # ops) =
     ingestoes (snd (insere_historico_precos para_data df agora b)) ops"

section \<open>Facts about the rounding, the aggregates and the returns\<close>

lemma dois_a_powr: "dois_a k = 2 powr of_int k"
proof (cases "0 \<le> k")
  case True
  then show ?thesis by (simp add: dois_a_def powr_realpow [symmetric])
next
  case False
  have "(2::real) powr of_int k = inverse (2 powr (- of_int k))"
    by (simp add: powr_minus)
  also have "(2::real) powr (- of_int k) = 2 powr real (nat (- k))"
    using False by simp
  also have "\<dots> = 2 ^ nat (- k)"
    by (simp add: powr_realpow)
  finally show ?thesis using False by (simp add: dois_a_def divide_inverse)
qed

lemma expoente_eq:
  assumes "x \<noteq> 0" and "dois_a e \<le> \<bar>x\<bar>" and "\<bar>x\<bar> < dois_a (e + 1)" and "- 1022 \<le> e"
  shows "expoente x = e"
proof -
  have "\<lfloor>log 2 \<bar>x\<bar>\<rfloor> = e"
    using assms by (subst floor_log_eq_powr_iff) (auto simp: dois_a_powr)
  then show ?thesis using assms(4) by (simp add: expoente_def)
qed

text \<open>The rounding of a number whose binary exponent is known: how concrete values are computed.\<close>

lemma arred64_eq:
  assumes "x \<noteq> 0" and "dois_a e \<le> \<bar>x\<bar>" and "\<bar>x\<bar> < dois_a (e + 1)" and "- 1022 \<le> e"
  shows "arred64 x = dois_a (e - 52) * of_int (arred_par (x / dois_a (e - 52)))"
  using assms(1) expoente_eq [OF assms] by (simp add: arred64_def)

lemma fadd_NaN_right [simp]: "fadd x NaN = NaN"
  by (cases x) simp_all

lemma fsoma_Nil [simp]: "fsoma [] = Fin 0"
  by (simp add: fsoma_def)

lemma soma_NaN: "a = NaN \<or> NaN \<in> set xs \<Longrightarrow> foldl fadd a xs = NaN"
proof (induction xs arbitrary: a)
  case Nil
  then show ?case by simp
next
  case (Cons y xs)
  have "fadd a y = NaN \<or> NaN \<in> set xs" using Cons.prems by auto
  then show ?case using Cons.IH by simp
qed

lemma fsoma_NaN: "NaN \<in> set xs \<Longrightarrow> fsoma xs = NaN"
  by (simp add: fsoma_def soma_NaN)

lemma fadd_inf:
  assumes "x = PInf \<or> x = NInf"
  shows "fadd a x = x \<or> fadd a x = NaN" and "fadd x a = x \<or> fadd x a = NaN"
  using assms by (cases a; auto)+

lemma soma_inf:
  assumes "x = PInf \<or> x = NInf" and "a = x \<or> a = NaN \<or> x \<in> set v"
  shows "foldl fadd a v = x \<or> foldl fadd a v = NaN"
  using assms(2)
proof (induction v arbitrary: a)
  case Nil
  then show ?case by simp
next
  case (Cons y v)
  have "fadd a y = x \<or> fadd a y = NaN \<or> x \<in> set v"
  proof (cases "a = x \<or> a = NaN")
    case True
    then show ?thesis using fadd_inf(2) [OF assms(1), of y] by auto
  next
    case False
    then have "y = x \<or> x \<in> set v" using Cons.prems by auto
    then show ?thesis using fadd_inf(1) [OF assms(1), of a] by auto
  qed
  then show ?case using Cons.IH by simp
qed

lemma fsoma_inf:
  "x \<in> set v \<Longrightarrow> x = PInf \<or> x = NInf \<Longrightarrow> fsoma v = x \<or> fsoma v = NaN"
  using soma_inf [of x "Fin 0" v] by (simp add: fsoma_def)

lemma media_inf:
  assumes "x \<in> set xs" and "x = PInf \<or> x = NInf"
  shows "\<not> is_fin (media xs)"
proof -
  have m: "x \<in> set (validos xs)" using assms by (auto simp: validos_def)
  then have ne: "validos xs \<noteq> []" by auto
  then have n: "0 < real (length (validos xs))" by simp
  from fsoma_inf [OF m assms(2)] have "fsoma (validos xs) = x \<or> fsoma (validos xs) = NaN" .
  then show ?thesis using ne n assms(2) by (auto simp: media_def Let_def inf_of_sign_def)
qed

lemma desvio_inf:
  assumes "x \<in> set xs" and "x = PInf \<or> x = NInf"
  shows "desvio_padrao xs = NaN"
proof (cases "length (validos xs) \<le> 1")
  case True
  then show ?thesis by (simp add: desvio_padrao_def Let_def)
next
  case False
  let ?v = "validos xs"
  let ?avg = "fdiv (fsoma ?v) (Fin (real (length ?v)))"
  have m: "x \<in> set ?v" using assms by (auto simp: validos_def)
  have n: "0 < real (length ?v)" using False by auto
  from fsoma_inf [OF m assms(2)] have "fsoma ?v = x \<or> fsoma ?v = NaN" .
  then have "?avg = x \<or> ?avg = NaN" using n assms(2) by (auto simp: inf_of_sign_def)
  then have "fmul (fsub ?avg x) (fsub ?avg x) = NaN" using assms(2) by (auto simp: fsub_def)
  then have "NaN \<in> set (map (\<lambda>y. fmul (fsub ?avg y) (fsub ?avg y)) ?v)"
    using m by force
  then have "fsoma (map (\<lambda>y. fmul (fsub ?avg y) (fsub ?avg y)) ?v) = NaN"
    by (rule fsoma_NaN)
  then show ?thesis using False by (simp add: desvio_padrao_def Let_def)
qed

lemma validos_validos [simp]: "validos (validos xs) = validos xs"
  by (simp add: validos_def)


lemma retornos_nth:
  "i < length df \<Longrightarrow> retornos df ! i = fmul (pct_change df i) (Fin 100)"
  by (simp add: retornos_def)

lemma length_retornos [simp]: "length (retornos df) = length df"
  by (simp add: retornos_def)


lemma pct_change_seguinte:
  "anteriores df i \<noteq> [] \<Longrightarrow>
   pct_change df i = fsub (fdiv (Fin (df_Fechamento (df ! i))) (Fin (df_Fechamento (last (anteriores df i))))) (Fin 1)"
  by (cases "anteriores df i" rule: rev_cases) (simp_all add: pct_change_def)



lemma calcular_Some:
  "dados \<noteq> [] \<Longrightarrow> \<exists>m. calcular_metricas_segmento dados = Some m \<and>
      RetornoMedio m = media (retornos (monta_df dados)) \<and>
      VolatilidadeMedia m = desvio_padrao (retornos (monta_df dados)) \<and>
      VolumeTotal m = soma_volume (map q_Volume dados)"
  by (simp add: calcular_metricas_segmento_def Let_def monta_df_def comp_def)

text \<open>
  The roundings that the examples below need, each computed from the binary exponent of
  its argument.
\<close>

lemma arred64_caso_1: "arred64 (- 5) = - 5"
  by (subst arred64_eq [where e = "2"]) (simp_all add: arred_par_def Let_def dois_a_def)

lemma arred64_caso_2: "arred64 5 = 5"
  by (subst arred64_eq [where e = "2"]) (simp_all add: arred_par_def Let_def dois_a_def)

lemma arred64_caso_3: "arred64 10 = 10"
  by (subst arred64_eq [where e = "3"]) (simp_all add: arred_par_def Let_def dois_a_def)

lemma arred64_caso_4: "arred64 50 = 50"
  by (subst arred64_eq [where e = "5"]) (simp_all add: arred_par_def Let_def dois_a_def)

lemma arred64_caso_5: "arred64 55 = 55"
  by (subst arred64_eq [where e = "5"]) (simp_all add: arred_par_def Let_def dois_a_def)

lemma arred64_caso_6: "arred64 99 = 99"
  by (subst arred64_eq [where e = "6"]) (simp_all add: arred_par_def Let_def dois_a_def)

lemma arred64_caso_7: "arred64 100 = 100"
  by (subst arred64_eq [where e = "6"]) (simp_all add: arred_par_def Let_def dois_a_def)

lemma arred64_caso_8: "arred64 110 = 110"
  by (subst arred64_eq [where e = "6"]) (simp_all add: arred_par_def Let_def dois_a_def)

lemma f64_caso_1: "f64 (- 11) = Fin (- 11)"
  unfolding f64_def
  by (subst arred64_eq [where e = "3"]) (simp_all add: arred_par_def Let_def dois_a_def)

lemma f64_caso_2: "f64 (- (90071992547409925 / 9007199254740992)) = Fin (- 10)"
  unfolding f64_def
  by (subst arred64_eq [where e = "3"]) (simp_all add: arred_par_def Let_def dois_a_def)

lemma f64_caso_3: "f64 (- (22517998136852475 / 2251799813685248)) = Fin (- (5629499534213119 / 562949953421312))"
  unfolding f64_def
  by (subst arred64_eq [where e = "3"]) (simp_all add: arred_par_def Let_def dois_a_def)

lemma f64_caso_4: "f64 (- (1 / 10)) = Fin (- (3602879701896397 / 36028797018963968))"
  unfolding f64_def
  by (subst arred64_eq [where e = "-4"]) (simp_all add: arred_par_def Let_def dois_a_def)

lemma f64_caso_5: "f64 (- (900719925474099 / 9007199254740992)) = Fin (- (900719925474099 / 9007199254740992))"
  unfolding f64_def
  by (subst arred64_eq [where e = "-4"]) (simp_all add: arred_par_def Let_def dois_a_def)

lemma f64_caso_6: "f64 (3 / 562949953421312) = Fin (3 / 562949953421312)"
  unfolding f64_def
  by (subst arred64_eq [where e = "-48"]) (simp_all add: arred_par_def Let_def dois_a_def)

lemma f64_caso_7: "f64 (3 / 281474976710656) = Fin (3 / 281474976710656)"
  unfolding f64_def
  by (subst arred64_eq [where e = "-47"]) (simp_all add: arred_par_def Let_def dois_a_def)

lemma f64_caso_8: "f64 (1 / 10) = Fin (3602879701896397 / 36028797018963968)"
  unfolding f64_def
  by (subst arred64_eq [where e = "-4"]) (simp_all add: arred_par_def Let_def dois_a_def)

lemma f64_caso_9: "f64 (225179981368525 / 2251799813685248) = Fin (225179981368525 / 2251799813685248)"
  unfolding f64_def
  by (subst arred64_eq [where e = "-4"]) (simp_all add: arred_par_def Let_def dois_a_def)

lemma f64_caso_10: "f64 (4 / 5) = Fin (3602879701896397 / 4503599627370496)"
  unfolding f64_def
  by (subst arred64_eq [where e = "-1"]) (simp_all add: arred_par_def Let_def dois_a_def)

lemma f64_caso_11: "f64 (9 / 10) = Fin (8106479329266893 / 9007199254740992)"
  unfolding f64_def
  by (subst arred64_eq [where e = "-1"]) (simp_all add: arred_par_def Let_def dois_a_def)

lemma f64_caso_12: "f64 (11 / 10) = Fin (2476979795053773 / 2251799813685248)"
  unfolding f64_def
  by (subst arred64_eq [where e = "0"]) (simp_all add: arred_par_def Let_def dois_a_def)

lemma f64_caso_13: "f64 (10808639105689191 / 4503599627370496) = Fin (1351079888211149 / 562949953421312)"
  unfolding f64_def
  by (subst arred64_eq [where e = "1"]) (simp_all add: arred_par_def Let_def dois_a_def)

lemma f64_caso_14: "f64 7 = Fin 7"
  unfolding f64_def
  by (subst arred64_eq [where e = "2"]) (simp_all add: arred_par_def Let_def dois_a_def)

lemma f64_caso_15: "f64 10 = Fin 10"
  unfolding f64_def
  by (subst arred64_eq [where e = "3"]) (simp_all add: arred_par_def Let_def dois_a_def)

lemma f64_caso_16: "f64 (90071992547409925 / 9007199254740992) = Fin 10"
  unfolding f64_def
  by (subst arred64_eq [where e = "3"]) (simp_all add: arred_par_def Let_def dois_a_def)

lemma f64_caso_17: "f64 (5629499534213125 / 562949953421312) = Fin (5629499534213125 / 562949953421312)"
  unfolding f64_def
  by (subst arred64_eq [where e = "3"]) (simp_all add: arred_par_def Let_def dois_a_def)

lemma f64_caso_18: "f64 (5629499534213125 / 281474976710656) = Fin (5629499534213125 / 281474976710656)"
  unfolding f64_def
  by (subst arred64_eq [where e = "4"]) (simp_all add: arred_par_def Let_def dois_a_def)

lemma f64_zero: "f64 0 = Fin 0"
  by (simp add: f64_def arred64_def)

lemmas arredondamentos =
  f64_zero arred64_caso_1 arred64_caso_2 arred64_caso_3 arred64_caso_4 arred64_caso_5 arred64_caso_6
  arred64_caso_7 arred64_caso_8 f64_caso_1 f64_caso_2 f64_caso_3 f64_caso_4
  f64_caso_5 f64_caso_6 f64_caso_7 f64_caso_8 f64_caso_9 f64_caso_10
  f64_caso_11 f64_caso_12 f64_caso_13 f64_caso_14 f64_caso_15 f64_caso_16
  f64_caso_17 f64_caso_18

section \<open>The metrics and the signal generator: claims C1, C2 and C8\<close>

text \<open>
  C1, counterexample. One instrument with two bars, the first with a NULL close and the
  second closing at 5. Nothing is raised, but the second day's return is not left out:
  it is \<open>+infinity\<close>, and it enters the aggregates. The mean return of the segment is
  \<open>+infinity\<close> and the volatility is NaN. (One volume is NULL, so the total volume is a
  float.)
\<close>

theorem fechamento_anterior_nulo_media_infinita:
  "calcular_metricas_segmento
     [\<lparr>q_Ticker = ''AAA'', q_Descricao = ''A'', q_DataQuotacao = 1, q_Fechamento = None,
       q_FechamentoAjustado = None, q_Volume = None, q_Alta = None, q_Baixa = None\<rparr>,
      \<lparr>q_Ticker = ''AAA'', q_Descricao = ''A'', q_DataQuotacao = 2, q_Fechamento = Some 5,
       q_FechamentoAjustado = Some 5, q_Volume = Some 7, q_Alta = Some 6, q_Baixa = Some 4\<rparr>]
   = Some \<lparr>RetornoMedio = PInf, VolatilidadeMedia = NaN, PrecoMaximo = 5, PrecoMinimo = 0,
            VolumeTotal = Flutuante (Fin 7)\<rparr>"
  by (simp add: calcular_metricas_segmento_def monta_df_def retornos_def pct_change_def
      anteriores_def fechamento_float_def fsub_def media_def desvio_padrao_def validos_def
      fsoma_def soma_volume_def inf_of_sign_def Let_def upt_rec arredondamentos)

text \<open>
  C1, as the code has it. A NULL close is read as 0. When the previous close of the same
  instrument is 0, the day's return is NaN (undefined, skipped by the aggregates) only
  if the day's own close is 0 as well; otherwise it is \<open>+infinity\<close> or \<open>-infinity\<close>
  after the sign of the day's close, it is not skipped, and the metrics are still
  returned: with a mean return that is not finite and a volatility that is NaN.
\<close>

theorem retorno_fechamento_anterior_zero:
  assumes "i < length (monta_df dados)"
    and "anteriores (monta_df dados) i \<noteq> []"
    and "df_Fechamento (last (anteriores (monta_df dados) i)) = 0"
  shows "retornos (monta_df dados) ! i =
           (if df_Fechamento (monta_df dados ! i) = 0 then NaN
            else if 0 < df_Fechamento (monta_df dados ! i) then PInf else NInf) \<and>
         (df_Fechamento (monta_df dados ! i) \<noteq> 0 \<longrightarrow>
            (\<exists>m. calcular_metricas_segmento dados = Some m \<and>
                 \<not> is_fin (RetornoMedio m) \<and> VolatilidadeMedia m = NaN))"
proof -
  let ?df = "monta_df dados"
  let ?x = "retornos ?df ! i"
  have r: "?x = (if df_Fechamento (?df ! i) = 0 then NaN
            else if 0 < df_Fechamento (?df ! i) then PInf else NInf)"
    using assms(3)
    by (simp add: retornos_nth [OF assms(1)] pct_change_seguinte [OF assms(2)] fsub_def inf_of_sign_def)
  have d: "dados \<noteq> []" using assms(1) by (auto simp: monta_df_def)
  have "\<exists>m. calcular_metricas_segmento dados = Some m \<and>
                 \<not> is_fin (RetornoMedio m) \<and> VolatilidadeMedia m = NaN"
    if nz: "df_Fechamento (?df ! i) \<noteq> 0"
  proof -
    have inf: "?x = PInf \<or> ?x = NInf" using r nz by simp
    have mem: "?x \<in> set (retornos ?df)" using assms(1) by simp
    from calcular_Some [OF d] obtain m where
      m: "calcular_metricas_segmento dados = Some m"
         "RetornoMedio m = media (retornos ?df)"
         "VolatilidadeMedia m = desvio_padrao (retornos ?df)"
      by blast
    show ?thesis using m media_inf [OF mem inf] desvio_inf [OF mem inf] by simp
  qed
  then show ?thesis using r by blast
qed

text \<open>
  C1, witness: closes 0 then -5 for one instrument give the return \<open>-infinity\<close> on the
  second day, a mean that is not finite and a NaN volatility.
\<close>

theorem retorno_fechamento_anterior_zero_witness:
  "retornos (monta_df
     [\<lparr>q_Ticker = ''AAA'', q_Descricao = ''A'', q_DataQuotacao = 1, q_Fechamento = Some 0,
       q_FechamentoAjustado = None, q_Volume = None, q_Alta = None, q_Baixa = None\<rparr>,
      \<lparr>q_Ticker = ''AAA'', q_Descricao = ''A'', q_DataQuotacao = 2, q_Fechamento = Some (- 5),
       q_FechamentoAjustado = Some 5, q_Volume = Some 7, q_Alta = Some 6, q_Baixa = Some 4\<rparr>]) ! 1
     = NInf \<and>
   (\<exists>m. calcular_metricas_segmento
     [\<lparr>q_Ticker = ''AAA'', q_Descricao = ''A'', q_DataQuotacao = 1, q_Fechamento = Some 0,
       q_FechamentoAjustado = None, q_Volume = None, q_Alta = None, q_Baixa = None\<rparr>,
      \<lparr>q_Ticker = ''AAA'', q_Descricao = ''A'', q_DataQuotacao = 2, q_Fechamento = Some (- 5),
       q_FechamentoAjustado = Some 5, q_Volume = Some 7, q_Alta = Some 6, q_Baixa = Some 4\<rparr>]
      = Some m \<and> \<not> is_fin (RetornoMedio m) \<and> VolatilidadeMedia m = NaN)"
proof -
  let ?dados = "[\<lparr>q_Ticker = ''AAA'', q_Descricao = ''A'', q_DataQuotacao = 1, q_Fechamento = Some 0,
       q_FechamentoAjustado = None, q_Volume = None, q_Alta = None, q_Baixa = None\<rparr>,
      \<lparr>q_Ticker = ''AAA'', q_Descricao = ''A'', q_DataQuotacao = 2, q_Fechamento = Some (- 5),
       q_FechamentoAjustado = Some 5, q_Volume = Some 7, q_Alta = Some 6, q_Baixa = Some 4\<rparr>]"
  have h1: "1 < length (monta_df ?dados)" by (simp add: monta_df_def)
  have h2: "anteriores (monta_df ?dados) 1 \<noteq> []" by (simp add: monta_df_def anteriores_def)
  have h3: "df_Fechamento (last (anteriores (monta_df ?dados) 1)) = 0"
    by (simp add: monta_df_def anteriores_def fechamento_float_def)
  have c: "df_Fechamento (monta_df ?dados ! 1) = - 5"
    by (simp add: monta_df_def fechamento_float_def arredondamentos)
  show ?thesis
    using retorno_fechamento_anterior_zero [OF h1 h2 h3] c by simp
qed

text \<open>
  C2, counterexample. A segment whose only bar is one close of 10 has metrics, not
  \<open>None\<close>: no return is defined, so the mean return and the volatility are NaN. The
  generator returns one record with risk ALTO and confidence 0.55, although the
  volatility is not \<open>\<ge> 5\<close>: ALTO is the \<open>else\<close> branch, taken whenever the volatility
  is not below 5, and every comparison with NaN is false.
\<close>

theorem volatilidade_indefinida_risco_alto:
  "calcular_metricas_segmento
     [\<lparr>q_Ticker = ''AAA'', q_Descricao = ''A'', q_DataQuotacao = 1, q_Fechamento = Some 10,
       q_FechamentoAjustado = Some 10, q_Volume = Some 7, q_Alta = Some 11, q_Baixa = Some 9\<rparr>]
   = Some \<lparr>RetornoMedio = NaN, VolatilidadeMedia = NaN, PrecoMaximo = 10, PrecoMinimo = 10,
            VolumeTotal = Inteiro 7\<rparr>
   \<and> gerar_oportunidades 3
     [\<lparr>q_Ticker = ''AAA'', q_Descricao = ''A'', q_DataQuotacao = 1, q_Fechamento = Some 10,
       q_FechamentoAjustado = Some 10, q_Volume = Some 7, q_Alta = Some 11, q_Baixa = Some 9\<rparr>]
     = [\<lparr>id_segmento = 3, titulo = ''Oportunidade em Segmento'',
         descricao = ''Analise baseada em 365 dias de dados historicos'',
         tipo = HOLD, potencial_retorno = NaN, risco = ALTO, confianca = 0.55,
         metricas_op = \<lparr>RetornoMedio = NaN, VolatilidadeMedia = NaN, PrecoMaximo = 10,
                         PrecoMinimo = 10, VolumeTotal = Inteiro 7\<rparr>\<rparr>]
   \<and> \<not> fge NaN (Fin 5)"
  by (simp add: gerar_oportunidades_def oportunidades_de_def calcular_metricas_segmento_def
      monta_df_def retornos_def pct_change_def anteriores_def fechamento_float_def
      media_def desvio_padrao_def validos_def soma_volume_def volume_ou_zero_def wrap64_def
      Let_def fge_def fgt_def arredondamentos)

text \<open>
  C2, as the code has it. Without metrics the result is empty. With metrics it is exactly
  one record, carrying the metrics: COMPRA with potential \<open>mean_return * 1.5\<close> iff
  \<open>mean_return > 2\<close>; VENDA with potential \<open>|mean_return| * 0.8\<close> iff
  \<open>mean_return < -1\<close>; HOLD with potential \<open>mean_return\<close> otherwise; risk BAIXO (0.85)
  iff \<open>volatility < 2\<close>, MEDIO (0.70) iff \<open>2 \<le> volatility < 5\<close>, and ALTO (0.55) iff
  \<open>volatility \<ge> 5\<close> or the volatility is NaN. The two products are binary64 products,
  and 0.8 stands for the binary64 number nearest to it.
\<close>

theorem gerar_oportunidades_classifica:
  "oportunidades_de seg None = [] \<and>
   (\<exists>op. oportunidades_de seg (Some m) = [op] \<and> metricas_op op = m \<and> id_segmento op = seg \<and>
      (tipo op = COMPRA \<longleftrightarrow> fgt (RetornoMedio m) (Fin 2)) \<and>
      (tipo op = VENDA \<longleftrightarrow> flt (RetornoMedio m) (Fin (- 1))) \<and>
      (tipo op = HOLD \<longleftrightarrow> \<not> fgt (RetornoMedio m) (Fin 2) \<and> \<not> flt (RetornoMedio m) (Fin (- 1))) \<and>
      potencial_retorno op =
        (case tipo op of COMPRA \<Rightarrow> fmul (RetornoMedio m) (Fin 1.5)
         | VENDA \<Rightarrow> fmul (fabs (RetornoMedio m)) (f64 0.8)
         | HOLD \<Rightarrow> RetornoMedio m) \<and>
      (risco op = BAIXO \<longleftrightarrow> flt (VolatilidadeMedia m) (Fin 2)) \<and>
      (risco op = MEDIO \<longleftrightarrow> fle (Fin 2) (VolatilidadeMedia m) \<and> flt (VolatilidadeMedia m) (Fin 5)) \<and>
      (risco op = ALTO \<longleftrightarrow> fge (VolatilidadeMedia m) (Fin 5) \<or> VolatilidadeMedia m = NaN) \<and>
      confianca op = (case risco op of BAIXO \<Rightarrow> 0.85 | MEDIO \<Rightarrow> 0.70 | ALTO \<Rightarrow> 0.55))"
proof -
  have r: "flt (RetornoMedio m) (Fin (- 1)) \<Longrightarrow> \<not> fgt (RetornoMedio m) (Fin 2)"
    by (cases "RetornoMedio m") (auto simp: fgt_def)
  have v1: "flt (VolatilidadeMedia m) (Fin 2) \<Longrightarrow> flt (VolatilidadeMedia m) (Fin 5)"
    by (cases "VolatilidadeMedia m") auto
  have v2: "fle (Fin 2) (VolatilidadeMedia m) \<longleftrightarrow> VolatilidadeMedia m \<noteq> NaN \<and> \<not> flt (VolatilidadeMedia m) (Fin 2)"
    by (cases "VolatilidadeMedia m") auto
  have v3: "fge (VolatilidadeMedia m) (Fin 5) \<longleftrightarrow> VolatilidadeMedia m \<noteq> NaN \<and> \<not> flt (VolatilidadeMedia m) (Fin 5)"
    by (cases "VolatilidadeMedia m") (auto simp: fge_def)
  have v4: "VolatilidadeMedia m = NaN \<Longrightarrow> \<not> flt (VolatilidadeMedia m) (Fin 5)"
    by simp
  show ?thesis
    using r v1 v2 v3 v4 by (auto simp: oportunidades_de_def Let_def)
qed

text \<open>
  C2, witness, at the two boundaries: a mean return of exactly 2 is HOLD with potential
  2, and a volatility of exactly 5 is ALTO with confidence 0.55.
\<close>

theorem gerar_oportunidades_classifica_witness:
  "oportunidades_de 3 None = [] \<and>
   map tipo (oportunidades_de 3 (Some \<lparr>RetornoMedio = Fin 2, VolatilidadeMedia = Fin 5,
       PrecoMaximo = 10, PrecoMinimo = 1, VolumeTotal = Inteiro 0\<rparr>)) = [HOLD] \<and>
   map potencial_retorno (oportunidades_de 3 (Some \<lparr>RetornoMedio = Fin 2, VolatilidadeMedia = Fin 5,
       PrecoMaximo = 10, PrecoMinimo = 1, VolumeTotal = Inteiro 0\<rparr>)) = [Fin 2] \<and>
   map risco (oportunidades_de 3 (Some \<lparr>RetornoMedio = Fin 2, VolatilidadeMedia = Fin 5,
       PrecoMaximo = 10, PrecoMinimo = 1, VolumeTotal = Inteiro 0\<rparr>)) = [ALTO] \<and>
   map confianca (oportunidades_de 3 (Some \<lparr>RetornoMedio = Fin 2, VolatilidadeMedia = Fin 5,
       PrecoMaximo = 10, PrecoMinimo = 1, VolumeTotal = Inteiro 0\<rparr>)) = [0.55]"
  using gerar_oportunidades_classifica [of 3 "\<lparr>RetornoMedio = Fin 2, VolatilidadeMedia = Fin 5,
       PrecoMaximo = 10, PrecoMinimo = 1, VolumeTotal = Inteiro 0\<rparr>"]
  by (auto simp: fgt_def fge_def)




section \<open>Facts about the store, the collector and the loader\<close>

lemma bind_erro_Inr [simp]: "bind_erro r f = Inr v \<longleftrightarrow> (\<exists>x. r = Inr x \<and> f x = Inr v)"
  by (cases r) (simp_all add: bind_erro_def)

lemma chamada_saudavel: "falhas b = [] \<Longrightarrow> chamada b = (True, b)"
  by (simp add: chamada_def)

lemma chamada_tabelas:
  "chamada b = (ok, b') \<Longrightarrow> HistoricoPrecos b' = HistoricoPrecos b \<and> Indices b' = Indices b"
  by (auto simp: chamada_def split: list.splits)

lemma existe_chave: "0 < existe b idi d \<longleftrightarrow> (idi, d) \<in> chave ` set (HistoricoPrecos b)"
  by (auto simp: existe_def chave_def filter_empty_conv image_iff)

lemma existe_tabela:
  "HistoricoPrecos b' = HistoricoPrecos b \<Longrightarrow> existe b' idi d = existe b idi d"
  by (simp add: existe_def)

lemma monta_parametros_campos:
  "monta_parametros idi row agora = Inr p \<Longrightarrow>
     data_da_linha row = Inr (data_quotacao p) \<and> id_indice p = idi \<and>
     fechamento_ajustado p = fechamento p \<and>
     float_ou_none row ''Close'' = Inr (fechamento p) \<and>
     int_ou_zero row ''Volume'' = Inr (volume p) \<and> data_insercao p = agora"
  by (auto simp: monta_parametros_def)

lemma bigint_Inr [simp]: "bigint v = Inr x \<longleftrightarrow> x = v \<and> - (2 ^ 63) \<le> v \<and> v < 2 ^ 63"
  by (auto simp: bigint_def)

lemma insert_preco_campos:
  "insert_preco p = Inr r \<Longrightarrow>
     hp_IdIndice r = id_indice p \<and> hp_DataQuotacao r = data_quotacao p \<and>
     hp_Volume r = Some (volume p) \<and>
     numerico (fechamento p) = Inr (hp_Fechamento r) \<and>
     numerico (fechamento_ajustado p) = Inr (hp_FechamentoAjustado r)"
  by (auto simp: insert_preco_def)

lemma registro_campos:
  assumes "registro idi row agora = Inr r"
  shows "data_da_linha row = Inr (hp_DataQuotacao r)" and "hp_IdIndice r = idi"
    and "hp_FechamentoAjustado r = hp_Fechamento r" and "hp_Volume r \<noteq> None"
    and "chave r = (idi, hp_DataQuotacao r)"
proof -
  from assms obtain p where p: "monta_parametros idi row agora = Inr p" "insert_preco p = Inr r"
    by (auto simp: registro_def)
  note m = monta_parametros_campos [OF p(1)] and i = insert_preco_campos [OF p(2)]
  show "data_da_linha row = Inr (hp_DataQuotacao r)" using m i by simp
  show "hp_IdIndice r = idi" using m i by simp
  have "Inr (hp_FechamentoAjustado r) = (Inr (hp_Fechamento r) :: erro + real option)"
    using m i by metis
  then show "hp_FechamentoAjustado r = hp_Fechamento r" by simp
  show "hp_Volume r \<noteq> None" using i by simp
  show "chave r = (idi, hp_DataQuotacao r)" using m i by (simp add: chave_def)
qed

text \<open>What one row can do to the tables, whatever the store's calls do.\<close>

lemma processa_linha_efeito:
  assumes "processa_linha idi agora (b, i, d) row = (b', i', d')"
  shows "Indices b' = Indices b \<and>
         ((HistoricoPrecos b' = HistoricoPrecos b \<and> i' = i \<and> (d' = d \<or> d' = d + 1)) \<or>
          (\<exists>r. HistoricoPrecos b' = HistoricoPrecos b @ [r] \<and> registro idi row agora = Inr r \<and>
               existe b idi (hp_DataQuotacao r) = 0 \<and> i' = i + 1 \<and> d' = d))"
proof (cases "data_da_linha row")
  case (Inl e)
  then have "processa_linha idi agora (b, i, d) row = (b, i, d)"
    by (simp add: processa_linha_def)
  then show ?thesis using assms by simp
next
  case (Inr dt)
  obtain ok b1 where c1: "chamada b = (ok, b1)" by (cases "chamada b")
  note t1 = chamada_tabelas [OF c1]
  show ?thesis
  proof (cases ok)
    case False
    then have "processa_linha idi agora (b, i, d) row = (b1, i, d)"
      using Inr c1 by (simp add: processa_linha_def)
    then show ?thesis using assms t1 by simp
  next
    case True
    show ?thesis
    proof (cases "0 < existe b1 idi dt")
      case e: True
      then have "processa_linha idi agora (b, i, d) row = (b1, i, d + 1)"
        using Inr c1 True by (simp add: processa_linha_def)
      then show ?thesis using assms t1 by simp
    next
      case e: False
      then have e0: "existe b idi dt = 0" using t1 existe_tabela [of b1 b idi dt] by simp
      show ?thesis
      proof (cases "monta_parametros idi row agora")
        case (Inl e')
        then have "processa_linha idi agora (b, i, d) row = (b1, i, d)"
          using Inr c1 True e by (simp add: processa_linha_def)
        then show ?thesis using assms t1 by simp
      next
        case p: (Inr p)
        obtain ok2 b2 where c2: "chamada b1 = (ok2, b2)" by (cases "chamada b1")
        note t2 = chamada_tabelas [OF c2]
        show ?thesis
        proof (cases "ok2")
          case False
          then have "processa_linha idi agora (b, i, d) row = (b2, i, d)"
            using Inr c1 True e p c2 by (simp add: processa_linha_def)
          then show ?thesis using assms t1 t2 by simp
        next
          case ok2: True
          show ?thesis
          proof (cases "insert_preco p")
            case (Inl e')
            then have "processa_linha idi agora (b, i, d) row = (b2, i, d)"
              using Inr c1 True e p c2 ok2 by (simp add: processa_linha_def)
            then show ?thesis using assms t1 t2 by simp
          next
            case r: (Inr r)
            have reg: "registro idi row agora = Inr r" using p r by (simp add: registro_def)
            have dr: "hp_DataQuotacao r = dt" using registro_campos(1) [OF reg] Inr by simp
            have "processa_linha idi agora (b, i, d) row =
                    (b2\<lparr>HistoricoPrecos := HistoricoPrecos b2 @ [r]\<rparr>, i + 1, d)"
              using Inr c1 True e p c2 ok2 r by (simp add: processa_linha_def)
            then have "b' = b2\<lparr>HistoricoPrecos := HistoricoPrecos b2 @ [r]\<rparr>" "i' = i + 1" "d' = d"
              using assms by simp_all
            then show ?thesis using t1 t2 reg dr e0 by simp
          qed
        qed
      qed
    qed
  qed
qed

lemma processa_linha_chave_unica:
  assumes "processa_linha idi agora (b, i, d) row = (b', i', d')" and "chave_unica b"
  shows "chave_unica b'"
proof -
  from processa_linha_efeito [OF assms(1)]
  consider "HistoricoPrecos b' = HistoricoPrecos b"
    | r where "HistoricoPrecos b' = HistoricoPrecos b @ [r]" "registro idi row agora = Inr r"
        "existe b idi (hp_DataQuotacao r) = 0"
    by blast
  then show ?thesis
  proof cases
    case 1
    then show ?thesis using assms(2) by (simp add: chave_unica_def)
  next
    case 2
    have "chave r \<notin> chave ` set (HistoricoPrecos b)"
      using 2(3) existe_chave [of b idi "hp_DataQuotacao r"] registro_campos(5) [OF 2(2)] by simp
    then show ?thesis using assms(2) 2(1) by (simp add: chave_unica_def)
  qed
qed

lemma laco_chave_unica:
  "chave_unica (fst st) \<Longrightarrow> chave_unica (fst (foldl (processa_linha idi agora) st df))"
proof (induction df arbitrary: st)
  case Nil
  then show ?case by simp
next
  case (Cons row df)
  obtain b i d where st: "st = (b, i, d)" by (cases st)
  obtain b' i' d' where s: "processa_linha idi agora (b, i, d) row = (b', i', d')"
    by (cases "processa_linha idi agora (b, i, d) row")
  have "chave_unica b'" using processa_linha_chave_unica [OF s] Cons.prems st by simp
  then show ?case using Cons.IH [of "(b', i', d')"] st s by simp
qed

lemma salvar_chave_unica:
  assumes "chave_unica b"
  shows "chave_unica (snd (salvar_historico_precos idi ticker df agora b))"
proof (cases "df = []")
  case True
  then show ?thesis using assms by (simp add: salvar_historico_precos_def)
next
  case False
  obtain ok b1 where c1: "chamada b = (ok, b1)" by (cases "chamada b")
  have u1: "chave_unica b1" using chamada_tabelas [OF c1] assms by (simp add: chave_unica_def)
  obtain b2 i d where l: "foldl (processa_linha idi agora) (b1, 0, 0) df = (b2, i, d)"
    by (cases "foldl (processa_linha idi agora) (b1, 0, 0) df")
  have u2: "chave_unica b2" using laco_chave_unica [of "(b1, 0, 0)" idi agora df] u1 l by simp
  obtain ok3 b3 where c3: "chamada b2 = (ok3, b3)" by (cases "chamada b2")
  have u3: "chave_unica b3" using chamada_tabelas [OF c3] u2 by (simp add: chave_unica_def)
  have u4: "chave_unica (b3\<lparr>HistoricoPrecos := HistoricoPrecos b\<rparr>)"
    using assms by (simp add: chave_unica_def)
  show ?thesis using False c1 u1 l c3 u3 u4
    by (simp add: salvar_historico_precos_def)
qed

lemma processa_linha_saudavel:
  assumes "falhas b = []"
  shows "processa_linha idi agora (b, i, d) row =
     (case data_da_linha row of
        Inl e \<Rightarrow> (b, i, d)
      | Inr dt \<Rightarrow>
          if 0 < existe b idi dt then (b, i, d + 1)
          else (case registro idi row agora of
                  Inl e \<Rightarrow> (b, i, d)
                | Inr r \<Rightarrow> (b\<lparr>HistoricoPrecos := HistoricoPrecos b @ [r]\<rparr>, i + 1, d)))"
  using chamada_saudavel [OF assms]
  by (simp add: processa_linha_def registro_def bind_erro_def split: sum.splits)

lemma processa_linha_falhas:
  assumes "falhas b = []"
  shows "falhas (fst (processa_linha idi agora (b, i, d) row)) = []"
  using assms by (simp add: processa_linha_saudavel split: sum.splits)

lemma laco_falhas:
  "falhas (fst st) = [] \<Longrightarrow> falhas (fst (foldl (processa_linha idi agora) st df)) = []"
proof (induction df arbitrary: st)
  case Nil
  then show ?case by simp
next
  case (Cons row df)
  obtain b i d where st: "st = (b, i, d)" by (cases st)
  have "falhas (fst (processa_linha idi agora st row)) = []"
    using processa_linha_falhas [of b idi agora i d row] Cons.prems st by simp
  then show ?case using Cons.IH by simp
qed

lemma salvar_saudavel:
  assumes "falhas b = []" and "df \<noteq> []"
  shows "salvar_historico_precos idi ticker df agora b =
     (case foldl (processa_linha idi agora) (b, 0, 0) df of
        (b2, i, d) \<Rightarrow> (Inr (Some (i, d)), b2))"
proof -
  obtain b2 i d where l: "foldl (processa_linha idi agora) (b, 0, 0) df = (b2, i, d)"
    by (cases "foldl (processa_linha idi agora) (b, 0, 0) df")
  have "falhas b2 = []" using laco_falhas [of "(b, 0, 0)" idi agora df] assms(1) l by simp
  then show ?thesis
    using assms l chamada_saudavel [of b] chamada_saudavel [of b2]
    by (simp add: salvar_historico_precos_def)
qed

lemma ja_gravada_mono:
  "set (HistoricoPrecos b) \<subseteq> set (HistoricoPrecos b') \<Longrightarrow> ja_gravada b idi row \<Longrightarrow>
   ja_gravada b' idi row"
  by (auto simp: ja_gravada_def existe_chave split: sum.splits)

lemma registro_agora:
  "registro idi row agora = Inr r \<Longrightarrow>
   registro idi row agora2 = Inr (r\<lparr>hp_DataInsercao := agora2\<rparr>)"
  by (auto simp: registro_def monta_parametros_def insert_preco_def)

text \<open>A run over rows whose bars are all in the table already only counts duplicates.\<close>

lemma laco_sem_novidade:
  assumes "falhas B = []"
    and "\<forall>row\<in>set df. \<forall>r. registro idi row agora = Inr r \<longrightarrow> chave r \<in> chave ` set (HistoricoPrecos B)"
  shows "foldl (processa_linha idi agora) (B, i, d) df =
           (B, i, d + length (filter (ja_gravada B idi) df))"
  using assms(2)
proof (induction df arbitrary: d)
  case Nil
  then show ?case by simp
next
  case (Cons row df)
  have step: "processa_linha idi agora (B, i, d) row =
                (B, i, d + (if ja_gravada B idi row then 1 else 0))"
  proof (cases "data_da_linha row")
    case (Inl e)
    then show ?thesis by (simp add: processa_linha_saudavel [OF assms(1)] ja_gravada_def)
  next
    case (Inr dt)
    show ?thesis
    proof (cases "0 < existe B idi dt")
      case True
      then show ?thesis using Inr by (simp add: processa_linha_saudavel [OF assms(1)] ja_gravada_def)
    next
      case False
      have "registro idi row agora \<noteq> Inr r" for r
      proof
        assume reg: "registro idi row agora = Inr r"
        then have "chave r \<in> chave ` set (HistoricoPrecos B)" using Cons.prems by simp
        moreover have "chave r = (idi, dt)"
          using registro_campos(1,5) [OF reg] Inr by simp
        ultimately show False using False by (simp add: existe_chave)
      qed
      then obtain e where "registro idi row agora = Inl e"
        by (cases "registro idi row agora") auto
      then show ?thesis using Inr False
        by (simp add: processa_linha_saudavel [OF assms(1)] ja_gravada_def)
    qed
  qed
  have "\<forall>row\<in>set df. \<forall>r. registro idi row agora = Inr r \<longrightarrow> chave r \<in> chave ` set (HistoricoPrecos B)"
    using Cons.prems by simp
  from Cons.IH [OF this, of "d + (if ja_gravada B idi row then 1 else 0)"]
  show ?case using step by simp
qed

text \<open>A run on a reachable store: what its final table holds and what it counted.\<close>

lemma laco_primeira:
  assumes "falhas b = []"
    and "foldl (processa_linha idi agora) (b, i, d) df = (b', i', d')"
  shows "falhas b' = [] \<and> Indices b' = Indices b \<and>
         set (HistoricoPrecos b) \<subseteq> set (HistoricoPrecos b') \<and>
         (\<forall>row\<in>set df. \<forall>r. registro idi row agora = Inr r \<longrightarrow>
              chave r \<in> chave ` set (HistoricoPrecos b')) \<and>
         i' + d' \<le> i + d + length (filter (ja_gravada b' idi) df)"
  using assms
proof (induction df arbitrary: b i d)
  case Nil
  then show ?case by simp
next
  case (Cons row df)
  obtain b1 i1 d1 where s: "processa_linha idi agora (b, i, d) row = (b1, i1, d1)"
    by (cases "processa_linha idi agora (b, i, d) row")
  have h1: "falhas b1 = []" using processa_linha_falhas [OF Cons.prems(1), of idi agora i d row] s by simp
  have l: "foldl (processa_linha idi agora) (b1, i1, d1) df = (b', i', d')"
    using Cons.prems(2) s by simp
  note ih = Cons.IH [OF h1 l]
  have sub1: "set (HistoricoPrecos b) \<subseteq> set (HistoricoPrecos b1)" and ind1: "Indices b1 = Indices b"
    using processa_linha_efeito [OF s] by auto
  have sub: "set (HistoricoPrecos b) \<subseteq> set (HistoricoPrecos b')" using sub1 ih by blast
  have cnt: "i1 + d1 \<le> i + d + (if ja_gravada b1 idi row then 1 else 0)"
   and cov: "\<forall>r. registro idi row agora = Inr r \<longrightarrow> chave r \<in> chave ` set (HistoricoPrecos b1)"
  proof -
    show "i1 + d1 \<le> i + d + (if ja_gravada b1 idi row then 1 else 0)"
    proof (cases "data_da_linha row")
      case (Inl e)
      then show ?thesis using s by (simp add: processa_linha_saudavel [OF Cons.prems(1)])
    next
      case (Inr dt)
      show ?thesis
      proof (cases "0 < existe b idi dt")
        case True
        then have "ja_gravada b idi row" using Inr by (simp add: ja_gravada_def)
        then have "ja_gravada b1 idi row" using ja_gravada_mono [OF sub1] by simp
        then show ?thesis using s Inr True by (simp add: processa_linha_saudavel [OF Cons.prems(1)])
      next
        case False
        show ?thesis
        proof (cases "registro idi row agora")
          case (Inl e)
          then show ?thesis using s Inr False
            by (simp add: processa_linha_saudavel [OF Cons.prems(1)])
        next
          case r: (Inr r)
          have b1: "b1 = b\<lparr>HistoricoPrecos := HistoricoPrecos b @ [r]\<rparr>" "i1 = i + 1" "d1 = d"
            using s Inr False r by (simp_all add: processa_linha_saudavel [OF Cons.prems(1)])
          have "chave r = (idi, dt)" using registro_campos(1,5) [OF r] Inr by simp
          then have "ja_gravada b1 idi row" using Inr b1(1)
            by (simp add: ja_gravada_def existe_chave)
          then show ?thesis using b1 by simp
        qed
      qed
    qed
    show "\<forall>r. registro idi row agora = Inr r \<longrightarrow> chave r \<in> chave ` set (HistoricoPrecos b1)"
    proof (intro allI impI)
      fix r assume reg: "registro idi row agora = Inr r"
      note c = registro_campos(1,5) [OF reg]
      show "chave r \<in> chave ` set (HistoricoPrecos b1)"
      proof (cases "0 < existe b idi (hp_DataQuotacao r)")
        case True
        then have "chave r \<in> chave ` set (HistoricoPrecos b)" using c by (simp add: existe_chave)
        then show ?thesis using sub1 by blast
      next
        case False
        then have "b1 = b\<lparr>HistoricoPrecos := HistoricoPrecos b @ [r]\<rparr>"
          using s c reg by (simp add: processa_linha_saudavel [OF Cons.prems(1)])
        then show ?thesis by simp
      qed
    qed
  qed
  have g: "ja_gravada b1 idi row \<Longrightarrow> ja_gravada b' idi row"
    using ja_gravada_mono ih by blast
  have "\<forall>r. registro idi row agora = Inr r \<longrightarrow> chave r \<in> chave ` set (HistoricoPrecos b')"
    using cov ih by blast
  moreover have "i' + d' \<le> i + d + length (filter (ja_gravada b' idi) (row # df))"
    using ih cnt g by (auto split: if_splits)
  ultimately show ?case using ih sub ind1 by simp
qed

lemma parametros_carga_campos:
  "parametros_carga idi d agora a = Inr p \<Longrightarrow> id_indice p = idi \<and> data_quotacao p = d"
  by (auto simp: parametros_carga_def)

lemma processa_linha_carga_efeito:
  assumes "processa_linha_carga para_data mapa agora (b, i, d) row = (b', i', d')"
  shows "HistoricoPrecos b' = HistoricoPrecos b \<or>
         (\<exists>r. HistoricoPrecos b' = HistoricoPrecos b @ [r] \<and>
              chave r \<notin> chave ` set (HistoricoPrecos b))"
proof (cases "mapa (c_Ticker row)")
  case None
  then have "processa_linha_carga para_data mapa agora (b, i, d) row = (b, i, d)"
    by (simp add: processa_linha_carga_def)
  then show ?thesis using assms by simp
next
  case (Some idi)
  show ?thesis
  proof (cases "idi = 0")
    case True
    then have "processa_linha_carga para_data mapa agora (b, i, d) row = (b, i, d)"
      using Some by (simp add: processa_linha_carga_def)
    then show ?thesis using assms by simp
  next
    case nz: False
    show ?thesis
    proof (cases "data_carga para_data (c_celulas row)")
      case (Inl e)
      then have "processa_linha_carga para_data mapa agora (b, i, d) row = (b, i, d)"
        using Some nz by (simp add: processa_linha_carga_def)
      then show ?thesis using assms by simp
    next
      case dt: (Inr dt)
      show ?thesis
      proof (cases "argumentos_carga (c_celulas row)")
        case (Inl e)
        then have "processa_linha_carga para_data mapa agora (b, i, d) row = (b, i, d)"
          using Some nz dt by (simp add: processa_linha_carga_def)
        then show ?thesis using assms by simp
      next
        case a: (Inr a)
        obtain ok b1 where c1: "chamada b = (ok, b1)" by (cases "chamada b")
        note t1 = chamada_tabelas [OF c1]
        show ?thesis
        proof (cases ok)
          case False
          then have "processa_linha_carga para_data mapa agora (b, i, d) row = (b1, i, d)"
            using Some nz dt a c1 by (simp add: processa_linha_carga_def)
          then show ?thesis using assms t1 by simp
        next
          case ok: True
          define res where "res = bind_erro (parametros_carga idi dt agora a) insert_preco"
          have step: "processa_linha_carga para_data mapa agora (b, i, d) row =
                        (case res of
                           Inl e \<Rightarrow> (b1, i, d)
                         | Inr r \<Rightarrow>
                             if 0 < existe b1 idi dt then (b1, i, d + 1)
                             else (b1\<lparr>HistoricoPrecos := HistoricoPrecos b1 @ [r]\<rparr>, i + 1, d))"
            unfolding res_def using Some nz dt a c1 ok
            by (simp add: processa_linha_carga_def del: bind_erro_Inr)
          show ?thesis
          proof (cases res)
            case (Inl e)
            then have "processa_linha_carga para_data mapa agora (b, i, d) row = (b1, i, d)"
              using step by simp
            then show ?thesis using assms t1 by simp
          next
            case r: (Inr r)
            show ?thesis
            proof (cases "0 < existe b1 idi dt")
              case True
              then have "processa_linha_carga para_data mapa agora (b, i, d) row = (b1, i, d + 1)"
                using step r by simp
              then show ?thesis using assms t1 by simp
            next
              case False
              then have "processa_linha_carga para_data mapa agora (b, i, d) row =
                           (b1\<lparr>HistoricoPrecos := HistoricoPrecos b1 @ [r]\<rparr>, i + 1, d)"
                using step r by simp
              then have hp: "HistoricoPrecos b' = HistoricoPrecos b @ [r]"
                using assms t1 by auto
              obtain p where p: "parametros_carga idi dt agora a = Inr p" "insert_preco p = Inr r"
                using r unfolding res_def by auto
              have "chave r = (idi, dt)"
                using parametros_carga_campos [OF p(1)] insert_preco_campos [OF p(2)]
                by (simp add: chave_def)
              moreover have "(idi, dt) \<notin> chave ` set (HistoricoPrecos b1)"
                using False existe_chave [of b1 idi dt] by simp
              ultimately show ?thesis using hp t1 by simp
            qed
          qed
        qed
      qed
    qed
  qed
qed

lemma laco_carga_chave_unica:
  "chave_unica (fst st) \<Longrightarrow>
   chave_unica (fst (foldl (processa_linha_carga para_data mapa agora) st df))"
proof (induction df arbitrary: st)
  case Nil
  then show ?case by simp
next
  case (Cons row df)
  obtain b i d where st: "st = (b, i, d)" by (cases st)
  obtain b' i' d' where s: "processa_linha_carga para_data mapa agora (b, i, d) row = (b', i', d')"
    by (cases "processa_linha_carga para_data mapa agora (b, i, d) row")
  have "chave_unica b'"
    using processa_linha_carga_efeito [OF s] Cons.prems st by (auto simp: chave_unica_def)
  then show ?case using Cons.IH [of "(b', i', d')"] st s by simp
qed

lemma insere_chave_unica:
  assumes "chave_unica b"
  shows "chave_unica (snd (insere_historico_precos para_data df agora b))"
proof -
  obtain ok b1 where c1: "chamada b = (ok, b1)" by (cases "chamada b")
  have u1: "chave_unica b1" using chamada_tabelas [OF c1] assms by (simp add: chave_unica_def)
  obtain ok2 b2 where c2: "chamada b1 = (ok2, b2)" by (cases "chamada b1")
  have u2: "chave_unica b2" using chamada_tabelas [OF c2] u1 by (simp add: chave_unica_def)
  obtain b3 i d where
    l: "foldl (processa_linha_carga para_data (indices_map b2) agora) (b2, 0, 0) df = (b3, i, d)"
    by (cases "foldl (processa_linha_carga para_data (indices_map b2) agora) (b2, 0, 0) df")
  have u3: "chave_unica b3"
    using laco_carga_chave_unica [of "(b2, 0, 0)" para_data "indices_map b2" agora df] u2 l by simp
  obtain ok4 b4 where c4: "chamada b3 = (ok4, b4)" by (cases "chamada b3")
  have u4: "chave_unica b4" using chamada_tabelas [OF c4] u3 by (simp add: chave_unica_def)
  have u5: "chave_unica (b4\<lparr>HistoricoPrecos := HistoricoPrecos b\<rparr>)"
    using assms by (simp add: chave_unica_def)
  show ?thesis using c1 u1 c2 u2 l c4 u4 u5
    by (simp add: insere_historico_precos_def)
qed

lemma ingestoes_chave_unica: "chave_unica b \<Longrightarrow> chave_unica (ingestoes b ops)"
proof (induction ops arbitrary: b)
  case Nil
  then show ?case by simp
next
  case (Cons op ops)
  then show ?case
    by (cases op) (simp_all add: salvar_chave_unica insere_chave_unica)
qed

lemma processa_linha_desloca:
  assumes "falhas b = []"
  shows "processa_linha idi agora (b, i, d + k) row =
           (case processa_linha idi agora (b, i, d) row of (b', i', d') \<Rightarrow> (b', i', d' + k))"
  by (simp add: processa_linha_saudavel [OF assms] split: sum.splits)

lemma laco_desloca:
  "falhas b = [] \<Longrightarrow>
   foldl (processa_linha idi agora) (b, i, d + k) ys =
     (case foldl (processa_linha idi agora) (b, i, d) ys of (b', i', d') \<Rightarrow> (b', i', d' + k))"
proof (induction ys arbitrary: b i d)
  case Nil
  then show ?case by simp
next
  case (Cons row ys)
  obtain b1 i1 d1 where s: "processa_linha idi agora (b, i, d) row = (b1, i1, d1)"
    by (cases "processa_linha idi agora (b, i, d) row")
  have h1: "falhas b1 = []"
    using processa_linha_falhas [OF Cons.prems, of idi agora i d row] s by simp
  show ?case
    using Cons.IH [OF h1, of i1 d1] processa_linha_desloca [OF Cons.prems, of idi agora i d k row] s
    by simp
qed

lemma processa_linha_malformada:
  assumes "falhas b = []" and "registro idi row agora = Inl e"
  shows "processa_linha idi agora (b, i, d) row =
           (b, i, d + (if ja_gravada b idi row then 1 else 0))"
  using assms(2)
  by (simp add: processa_linha_saudavel [OF assms(1)] ja_gravada_def split: sum.splits)

lemma laco_novos:
  "set (HistoricoPrecos (fst (foldl (processa_linha idi agora) st df)))
     \<subseteq> set (HistoricoPrecos (fst st)) \<union> {p. \<exists>row\<in>set df. registro idi row agora = Inr p}"
proof (induction df arbitrary: st)
  case Nil
  then show ?case by simp
next
  case (Cons row df)
  obtain b i d where st: "st = (b, i, d)" by (cases st)
  obtain b' i' d' where s: "processa_linha idi agora (b, i, d) row = (b', i', d')"
    by (cases "processa_linha idi agora (b, i, d) row")
  have "set (HistoricoPrecos b') \<subseteq> set (HistoricoPrecos b) \<union> {p. registro idi row agora = Inr p}"
    using processa_linha_efeito [OF s] by auto
  then show ?case using Cons.IH [of "(b', i', d')"] st s by auto
qed

lemma salvar_novos:
  "set (HistoricoPrecos (snd (salvar_historico_precos idi ticker df agora b)))
     \<subseteq> set (HistoricoPrecos b) \<union> {p. \<exists>row\<in>set df. registro idi row agora = Inr p}"
proof (cases "df = []")
  case True
  then show ?thesis by (simp add: salvar_historico_precos_def)
next
  case False
  obtain ok b1 where c1: "chamada b = (ok, b1)" by (cases "chamada b")
  note t1 = chamada_tabelas [OF c1]
  obtain b2 i d where l: "foldl (processa_linha idi agora) (b1, 0, 0) df = (b2, i, d)"
    by (cases "foldl (processa_linha idi agora) (b1, 0, 0) df")
  have n2: "set (HistoricoPrecos b2)
     \<subseteq> set (HistoricoPrecos b) \<union> {p. \<exists>row\<in>set df. registro idi row agora = Inr p}"
    using laco_novos [of idi agora "(b1, 0, 0)" df] l t1 by simp
  obtain ok3 b3 where c3: "chamada b2 = (ok3, b3)" by (cases "chamada b2")
  note t3 = chamada_tabelas [OF c3]
  show ?thesis using False c1 t1 l n2 c3 t3
    by (simp add: salvar_historico_precos_def)
qed

lemma registro_volume:
  assumes "registro idi row agora = Inr r"
  shows "\<exists>v. hp_Volume r = Some v \<and> int_ou_zero row ''Volume'' = Inr v"
proof -
  from assms obtain p where p: "monta_parametros idi row agora = Inr p" "insert_preco p = Inr r"
    by (auto simp: registro_def)
  show ?thesis using monta_parametros_campos [OF p(1)] insert_preco_campos [OF p(2)] by simp
qed

lemma fold_max_ge: "(a::int) \<le> fold max xs a \<and> (\<forall>x\<in>set xs. x \<le> fold max xs a)"
proof (induction xs arbitrary: a)
  case Nil
  then show ?case by simp
next
  case (Cons y ys)
  have "max y a \<le> fold max ys (max y a)" and "\<forall>x\<in>set ys. x \<le> fold max ys (max y a)"
    using Cons.IH [of "max y a"] by simp_all
  then show ?case by auto
qed

lemma proximo_id_novo: "proximo_id is \<notin> i_IdIndice ` set is"
proof
  assume "proximo_id is \<in> i_IdIndice ` set is"
  then have "proximo_id is \<in> set (map i_IdIndice is)" by simp
  then have "proximo_id is \<le> fold max (map i_IdIndice is) 0"
    using fold_max_ge [of 0 "map i_IdIndice is"] by blast
  then show False by (simp add: proximo_id_def)
qed

lemma registro_outra_coluna:
  assumes "c \<notin> {''Date'', ''Open'', ''High'', ''Low'', ''Close'', ''Volume''}"
  shows "registro idi (row(c \<mapsto> v)) agora = registro idi row agora"
proof -
  have "coluna (row(c \<mapsto> v)) k = coluna row k"
    if "k \<in> {''Date'', ''Open'', ''High'', ''Low'', ''Close'', ''Volume''}" for k
    using that assms by (auto simp: coluna_def)
  then show ?thesis
    by (simp add: registro_def monta_parametros_def data_da_linha_def float_ou_none_def
        int_ou_zero_def)
qed

lemma registro_fechamento:
  assumes "registro idi row agora = Inr r"
  shows "hp_FechamentoAjustado r = hp_Fechamento r \<and>
         (\<exists>x. float_ou_none row ''Close'' = Inr x \<and> numerico x = Inr (hp_Fechamento r))"
proof -
  from assms obtain p where p: "monta_parametros idi row agora = Inr p" "insert_preco p = Inr r"
    by (auto simp: registro_def)
  show ?thesis
    using registro_campos(3) [OF assms] monta_parametros_campos [OF p(1)]
      insert_preco_campos [OF p(2)] by simp
qed

lemma renomeia_adj_close_sem:
  assumes "''Adj Close'' \<notin> set cols" and "\<forall>c\<in>set cols. \<not> parece_adj_close c"
  shows "renomeia_adj_close cols = cols"
proof -
  have "List.find parece_adj_close cols = None" using assms(2) by (simp add: find_None_iff)
  then show ?thesis by (simp add: renomeia_adj_close_def)
qed

lemma nome_sql_ajustado:
  "nome_sql c = ''FechamentoAjustado'' \<longleftrightarrow> c = ''Adj Close'' \<or> c = ''FechamentoAjustado''"
  by (simp add: nome_sql_def)

lemma colunas_carga_sem_ajustado:
  assumes "''Adj Close'' \<notin> set cols" and "''FechamentoAjustado'' \<notin> set cols"
    and "\<forall>c\<in>set cols. \<not> parece_adj_close c"
  shows "colunas_carga cols = Inl KeyError"
proof -
  define cs where "cs = atribui_coluna ''Pais'' (atribui_coluna ''Descricao''
               (atribui_coluna ''Ticker'' (renomeia_adj_close cols)))"
  have sub: "set cs \<subseteq> set cols \<union> {''Ticker'', ''Descricao'', ''Pais''}"
    unfolding cs_def renomeia_adj_close_sem [OF assms(1,3)] atribui_coluna_def by auto
  have "c \<noteq> ''Adj Close'' \<and> c \<noteq> ''FechamentoAjustado''" if "c \<in> set cs" for c
  proof -
    from that sub consider "c \<in> set cols" | "c = ''Ticker''" | "c = ''Descricao''" | "c = ''Pais''"
      by blast
    then show ?thesis
    proof cases
      case 1
      then show ?thesis using assms(1,2) by blast
    qed simp_all
  qed
  then have ns: "nome_sql c \<noteq> ''FechamentoAjustado''" if "c \<in> set cs" for c
    using that nome_sql_ajustado [of c] by blast
  have n: "''FechamentoAjustado'' \<notin> set (map nome_sql cs)"
  proof
    assume "''FechamentoAjustado'' \<in> set (map nome_sql cs)"
    then obtain c where "c \<in> set cs" and "nome_sql c = ''FechamentoAjustado''"
      by (auto simp: image_iff)
    then show False using ns by blast
  qed
  have m: "''FechamentoAjustado'' \<in> set colunas_mantidas" by (simp add: colunas_mantidas_def)
  have "\<not> set colunas_mantidas \<subseteq> set (map nome_sql cs)" using n m by blast
  then show ?thesis unfolding colunas_carga_def cs_def [symmetric] by (simp add: Let_def)
qed

lemma laco_indices:
  "Indices (fst (foldl (processa_linha idi agora) st df)) = Indices (fst st)"
proof (induction df arbitrary: st)
  case Nil
  then show ?case by simp
next
  case (Cons row df)
  obtain b i d where st: "st = (b, i, d)" by (cases st)
  obtain b' i' d' where s: "processa_linha idi agora (b, i, d) row = (b', i', d')"
    by (cases "processa_linha idi agora (b, i, d) row")
  have "Indices b' = Indices b" using processa_linha_efeito [OF s] by simp
  then show ?case using Cons.IH [of "(b', i', d')"] st s by simp
qed

text \<open>The keys in the table when the loop has run over the rows \<open>xs\<close> on a reachable store.\<close>

lemma laco_chaves:
  assumes "falhas b = []" and "foldl (processa_linha idi agora) (b, i, d) xs = (bx, ix, dx)"
  shows "chave ` set (HistoricoPrecos bx) =
           chave ` set (HistoricoPrecos b) \<union>
           {k. \<exists>row\<in>set xs. \<exists>r. registro idi row agora = Inr r \<and> chave r = k}"
proof
  have "set (HistoricoPrecos bx)
          \<subseteq> set (HistoricoPrecos b) \<union> {p. \<exists>row\<in>set xs. registro idi row agora = Inr p}"
    using laco_novos [of idi agora "(b, i, d)" xs] assms(2) by simp
  then show "chave ` set (HistoricoPrecos bx)
          \<subseteq> chave ` set (HistoricoPrecos b) \<union>
            {k. \<exists>row\<in>set xs. \<exists>r. registro idi row agora = Inr r \<and> chave r = k}"
    by blast
next
  note p = laco_primeira [OF assms]
  have a: "chave ` set (HistoricoPrecos b) \<subseteq> chave ` set (HistoricoPrecos bx)"
    using p by blast
  have b: "{k. \<exists>row\<in>set xs. \<exists>r. registro idi row agora = Inr r \<and> chave r = k}
             \<subseteq> chave ` set (HistoricoPrecos bx)"
    using p by blast
  show "chave ` set (HistoricoPrecos b) \<union>
          {k. \<exists>row\<in>set xs. \<exists>r. registro idi row agora = Inr r \<and> chave r = k}
        \<subseteq> chave ` set (HistoricoPrecos bx)"
    using a b by blast
qed

text \<open>
  When the loop reaches a row after the rows \<open>xs\<close>, the row's date is in the table if it
  was there before the run, or if an earlier row of the run had that date and was written.
\<close>

lemma ja_gravada_no_laco:
  assumes "falhas b = []" and "foldl (processa_linha idi agora) (b, i, d) xs = (bx, ix, dx)"
  shows "ja_gravada bx idi row \<longleftrightarrow>
           (\<exists>dt. data_da_linha row = Inr dt \<and>
                 (0 < existe b idi dt \<or>
                  (\<exists>row'\<in>set xs. data_da_linha row' = Inr dt \<and>
                       (\<exists>r. registro idi row' agora = Inr r))))"
proof (cases "data_da_linha row")
  case (Inl e)
  then show ?thesis by (simp add: ja_gravada_def)
next
  case (Inr dt)
  have k: "(\<exists>row'\<in>set xs. \<exists>r. registro idi row' agora = Inr r \<and> chave r = (idi, dt)) \<longleftrightarrow>
           (\<exists>row'\<in>set xs. data_da_linha row' = Inr dt \<and> (\<exists>r. registro idi row' agora = Inr r))"
  proof
    assume "\<exists>row'\<in>set xs. \<exists>r. registro idi row' agora = Inr r \<and> chave r = (idi, dt)"
    then obtain row' r where m: "row' \<in> set xs" and reg: "registro idi row' agora = Inr r"
      and c: "chave r = (idi, dt)" by blast
    have "hp_DataQuotacao r = dt" using c by (simp add: chave_def)
    then have "data_da_linha row' = Inr dt" using registro_campos(1) [OF reg] by simp
    then show "\<exists>row'\<in>set xs. data_da_linha row' = Inr dt \<and> (\<exists>r. registro idi row' agora = Inr r)"
      using m reg by blast
  next
    assume "\<exists>row'\<in>set xs. data_da_linha row' = Inr dt \<and> (\<exists>r. registro idi row' agora = Inr r)"
    then obtain row' r where m: "row' \<in> set xs" and dl: "data_da_linha row' = Inr dt"
      and reg: "registro idi row' agora = Inr r" by blast
    have "hp_DataQuotacao r = dt" using registro_campos(1) [OF reg] dl by simp
    then have "chave r = (idi, dt)" using registro_campos(5) [OF reg] by simp
    then show "\<exists>row'\<in>set xs. \<exists>r. registro idi row' agora = Inr r \<and> chave r = (idi, dt)"
      using m reg by blast
  qed
  have "ja_gravada bx idi row \<longleftrightarrow> (idi, dt) \<in> chave ` set (HistoricoPrecos bx)"
    using Inr by (simp add: ja_gravada_def existe_chave)
  also have "\<dots> \<longleftrightarrow> (idi, dt) \<in> chave ` set (HistoricoPrecos b) \<or>
        (\<exists>row'\<in>set xs. \<exists>r. registro idi row' agora = Inr r \<and> chave r = (idi, dt))"
    unfolding laco_chaves [OF assms] by blast
  also have "\<dots> \<longleftrightarrow> 0 < existe b idi dt \<or>
        (\<exists>row'\<in>set xs. data_da_linha row' = Inr dt \<and> (\<exists>r. registro idi row' agora = Inr r))"
    unfolding k by (simp add: existe_chave)
  finally show ?thesis using Inr by simp
qed

text \<open>The search of \<open>renomeia_adj_close\<close> stops at the first column that matches.\<close>

lemma find_primeira:
  "\<forall>c\<in>set pre. \<not> P c \<Longrightarrow> P col \<Longrightarrow> List.find P (pre @ col # post) = Some col"
  by (induction pre) simp_all

lemma renomeia_adj_close_primeira:
  assumes "''Adj Close'' \<notin> set cols" and "cols = pre @ col # post"
    and "\<forall>c\<in>set pre. \<not> parece_adj_close c" and "parece_adj_close col"
  shows "renomeia_adj_close cols = map (\<lambda>c. if c = col then ''Adj Close'' else c) cols"
proof -
  have "List.find parece_adj_close cols = Some col"
    unfolding assms(2) using assms(3,4) by (rule find_primeira)
  then show ?thesis using assms(1) by (simp add: renomeia_adj_close_def)
qed

text \<open>The bar of a row with finite prices and a missing volume.\<close>

lemma registro_volume_ausente:
  assumes "row ''Date'' = Some (CData dt)" and "row ''Open'' = Some (CNum (Fin ab))"
    and "row ''High'' = Some (CNum (Fin al))" and "row ''Low'' = Some (CNum (Fin ba))"
    and "row ''Close'' = Some (CNum (Fin fe))" and "row ''Volume'' = Some (CNum NaN)"
  shows "registro idi row agora =
           Inr \<lparr>hp_IdIndice = idi, hp_DataQuotacao = dt, hp_Abertura = Some ab, hp_Alta = Some al,
                hp_Baixa = Some ba, hp_Fechamento = Some fe, hp_FechamentoAjustado = Some fe,
                hp_Volume = Some 0, hp_DataInsercao = agora\<rparr>"
    and "data_da_linha row = Inr dt"
  using assms
  by (simp_all add: registro_def monta_parametros_def data_da_linha_def coluna_def
      float_ou_none_def int_ou_zero_def insert_preco_def bind_erro_def bigint_def)

lemma wrap64_dentro: "- (2 ^ 63) \<le> x \<Longrightarrow> x < 2 ^ 63 \<Longrightarrow> wrap64 x = x"
  by (simp add: wrap64_def)

lemma soma_volume_inteiros:
  "\<forall>v\<in>set vs. v \<noteq> None \<Longrightarrow>
   soma_volume vs = Inteiro (wrap64 (sum_list (map volume_ou_zero vs)))"
  by (simp add: soma_volume_def)

text \<open>The definitions that evaluate a run of the collector on concrete rows.\<close>

lemmas avalia = salvar_historico_precos_def processa_linha_def chamada_def data_da_linha_def
  coluna_def bind_erro_def monta_parametros_def float_ou_none_def int_ou_zero_def
  insert_preco_def bigint_def existe_def

section \<open>Ingestion: claims C3, C4, C5, C6, C7, C9 and C10\<close>

text \<open>
  C3, counterexample: a refresh. The table holds the bar of day 1 and the frame brings
  days 1 and 2. The first run inserts one bar and counts one duplicate; the second run,
  with the same frame on the store the first one left, inserts nothing, changes nothing
  and counts two duplicates, which is not the one bar the first run inserted.
\<close>

theorem reingestao_diaria_conta_duplicados:
  "salvar_historico_precos 1 ''AAA''
     [[''Date'' \<mapsto> CData 1, ''Open'' \<mapsto> CNum (Fin 10), ''High'' \<mapsto> CNum (Fin 12), ''Low'' \<mapsto> CNum (Fin 9), ''Close'' \<mapsto> CNum (Fin 11), ''Volume'' \<mapsto> CNum (Fin 500)],
      [''Date'' \<mapsto> CData 2, ''Open'' \<mapsto> CNum (Fin 11), ''High'' \<mapsto> CNum (Fin 13), ''Low'' \<mapsto> CNum (Fin 10), ''Close'' \<mapsto> CNum (Fin 12), ''Volume'' \<mapsto> CNum (Fin 600)]] 0
     \<lparr>Indices = [], HistoricoPrecos = [\<lparr>hp_IdIndice = 1, hp_DataQuotacao = 1, hp_Abertura = Some 10, hp_Alta = Some 12, hp_Baixa = Some 9, hp_Fechamento = Some 11, hp_FechamentoAjustado = Some 11, hp_Volume = Some 500, hp_DataInsercao = 0\<rparr>], falhas = []\<rparr>
   = (Inr (Some (1, 1)),
      \<lparr>Indices = [], HistoricoPrecos = [\<lparr>hp_IdIndice = 1, hp_DataQuotacao = 1, hp_Abertura = Some 10, hp_Alta = Some 12, hp_Baixa = Some 9, hp_Fechamento = Some 11, hp_FechamentoAjustado = Some 11, hp_Volume = Some 500, hp_DataInsercao = 0\<rparr>, \<lparr>hp_IdIndice = 1, hp_DataQuotacao = 2, hp_Abertura = Some 11, hp_Alta = Some 13, hp_Baixa = Some 10, hp_Fechamento = Some 12, hp_FechamentoAjustado = Some 12, hp_Volume = Some 600, hp_DataInsercao = 0\<rparr>], falhas = []\<rparr>) \<and>
   salvar_historico_precos 1 ''AAA''
     [[''Date'' \<mapsto> CData 1, ''Open'' \<mapsto> CNum (Fin 10), ''High'' \<mapsto> CNum (Fin 12), ''Low'' \<mapsto> CNum (Fin 9), ''Close'' \<mapsto> CNum (Fin 11), ''Volume'' \<mapsto> CNum (Fin 500)],
      [''Date'' \<mapsto> CData 2, ''Open'' \<mapsto> CNum (Fin 11), ''High'' \<mapsto> CNum (Fin 13), ''Low'' \<mapsto> CNum (Fin 10), ''Close'' \<mapsto> CNum (Fin 12), ''Volume'' \<mapsto> CNum (Fin 600)]] 0
     \<lparr>Indices = [], HistoricoPrecos = [\<lparr>hp_IdIndice = 1, hp_DataQuotacao = 1, hp_Abertura = Some 10, hp_Alta = Some 12, hp_Baixa = Some 9, hp_Fechamento = Some 11, hp_FechamentoAjustado = Some 11, hp_Volume = Some 500, hp_DataInsercao = 0\<rparr>, \<lparr>hp_IdIndice = 1, hp_DataQuotacao = 2, hp_Abertura = Some 11, hp_Alta = Some 13, hp_Baixa = Some 10, hp_Fechamento = Some 12, hp_FechamentoAjustado = Some 12, hp_Volume = Some 600, hp_DataInsercao = 0\<rparr>], falhas = []\<rparr>
   = (Inr (Some (0, 2)),
      \<lparr>Indices = [], HistoricoPrecos = [\<lparr>hp_IdIndice = 1, hp_DataQuotacao = 1, hp_Abertura = Some 10, hp_Alta = Some 12, hp_Baixa = Some 9, hp_Fechamento = Some 11, hp_FechamentoAjustado = Some 11, hp_Volume = Some 500, hp_DataInsercao = 0\<rparr>, \<lparr>hp_IdIndice = 1, hp_DataQuotacao = 2, hp_Abertura = Some 11, hp_Alta = Some 13, hp_Baixa = Some 10, hp_Fechamento = Some 12, hp_FechamentoAjustado = Some 12, hp_Volume = Some 600, hp_DataInsercao = 0\<rparr>], falhas = []\<rparr>) \<and>
   (2 :: nat) \<noteq> 1"
  by (simp add: avalia)

text \<open>
  C3, as the code has it. On a store that stays reachable, a run over a non-empty frame
  returns its two counters, and a second run over the same frame, on the store the
  first one left, inserts nothing and leaves the store as it is. Its count of duplicates
  is at least the sum of the first run's inserted and duplicate counts and at most the
  number of rows; it equals that sum when no row of the first run failed. So it
  equals the first run's inserted count when that run met neither a duplicate nor a
  failing row.
\<close>

theorem salvar_duas_vezes:
  assumes "falhas b = []" and "df \<noteq> []"
  shows "\<exists>i1 d1 b1 d2.
           salvar_historico_precos idi ticker df agora b = (Inr (Some (i1, d1)), b1) \<and>
           salvar_historico_precos idi ticker df agora2 b1 = (Inr (Some (0, d2)), b1) \<and>
           i1 + d1 \<le> d2 \<and> d2 \<le> length df \<and>
           (i1 + d1 = length df \<longrightarrow> d2 = i1 + d1)"
proof -
  obtain b1 i1 d1 where l: "foldl (processa_linha idi agora) (b, 0, 0) df = (b1, i1, d1)"
    by (cases "foldl (processa_linha idi agora) (b, 0, 0) df")
  note p = laco_primeira [OF assms(1) l]
  have h1: "falhas b1 = []" using p by simp
  have cov2: "\<forall>row\<in>set df. \<forall>r. registro idi row agora2 = Inr r \<longrightarrow>
                chave r \<in> chave ` set (HistoricoPrecos b1)"
  proof (intro ballI allI impI)
    fix row r assume row: "row \<in> set df" and reg: "registro idi row agora2 = Inr r"
    from registro_agora [OF reg, of agora]
    have "registro idi row agora = Inr (r\<lparr>hp_DataInsercao := agora\<rparr>)" .
    then have "chave (r\<lparr>hp_DataInsercao := agora\<rparr>) \<in> chave ` set (HistoricoPrecos b1)"
      using p row by blast
    then show "chave r \<in> chave ` set (HistoricoPrecos b1)" by (simp add: chave_def)
  qed
  let ?d2 = "length (filter (ja_gravada b1 idi) df)"
  have r1: "salvar_historico_precos idi ticker df agora b = (Inr (Some (i1, d1)), b1)"
    using salvar_saudavel [OF assms] l by simp
  have r2: "salvar_historico_precos idi ticker df agora2 b1 = (Inr (Some (0, ?d2)), b1)"
    using salvar_saudavel [OF h1 assms(2)] laco_sem_novidade [OF h1 cov2, of 0 0] by simp
  have le: "i1 + d1 \<le> ?d2" using p by simp
  have up: "?d2 \<le> length df" by simp
  have imp: "i1 + d1 = length df \<longrightarrow> ?d2 = i1 + d1" using le up by arith
  have "salvar_historico_precos idi ticker df agora b = (Inr (Some (i1, d1)), b1) \<and>
        salvar_historico_precos idi ticker df agora2 b1 = (Inr (Some (0, ?d2)), b1) \<and>
        i1 + d1 \<le> ?d2 \<and> ?d2 \<le> length df \<and> (i1 + d1 = length df \<longrightarrow> ?d2 = i1 + d1)"
    using r1 r2 le up imp by simp
  then show ?thesis by blast
qed

text \<open>
  C3, witness: two bars on an empty table. The first run reports 2 inserted and 0
  duplicates, the second 0 inserted and 2 duplicates on an unchanged store.
\<close>

theorem salvar_duas_vezes_witness:
  "(\<exists>i1 d1 b1 d2.
      salvar_historico_precos 1 ''AAA''
        [[''Date'' \<mapsto> CData 1, ''Open'' \<mapsto> CNum (Fin 10), ''High'' \<mapsto> CNum (Fin 12), ''Low'' \<mapsto> CNum (Fin 9), ''Close'' \<mapsto> CNum (Fin 11), ''Volume'' \<mapsto> CNum (Fin 500)],
      [''Date'' \<mapsto> CData 2, ''Open'' \<mapsto> CNum (Fin 11), ''High'' \<mapsto> CNum (Fin 13), ''Low'' \<mapsto> CNum (Fin 10), ''Close'' \<mapsto> CNum (Fin 12), ''Volume'' \<mapsto> CNum (Fin 600)]] 0
        \<lparr>Indices = [], HistoricoPrecos = [], falhas = []\<rparr> = (Inr (Some (i1, d1)), b1) \<and>
      salvar_historico_precos 1 ''AAA''
        [[''Date'' \<mapsto> CData 1, ''Open'' \<mapsto> CNum (Fin 10), ''High'' \<mapsto> CNum (Fin 12), ''Low'' \<mapsto> CNum (Fin 9), ''Close'' \<mapsto> CNum (Fin 11), ''Volume'' \<mapsto> CNum (Fin 500)],
      [''Date'' \<mapsto> CData 2, ''Open'' \<mapsto> CNum (Fin 11), ''High'' \<mapsto> CNum (Fin 13), ''Low'' \<mapsto> CNum (Fin 10), ''Close'' \<mapsto> CNum (Fin 12), ''Volume'' \<mapsto> CNum (Fin 600)]] 5 b1 = (Inr (Some (0, d2)), b1) \<and>
      i1 + d1 \<le> d2 \<and> d2 \<le> 2 \<and> (i1 + d1 = 2 \<longrightarrow> d2 = i1 + d1)) \<and>
   salvar_historico_precos 1 ''AAA''
     [[''Date'' \<mapsto> CData 1, ''Open'' \<mapsto> CNum (Fin 10), ''High'' \<mapsto> CNum (Fin 12), ''Low'' \<mapsto> CNum (Fin 9), ''Close'' \<mapsto> CNum (Fin 11), ''Volume'' \<mapsto> CNum (Fin 500)],
      [''Date'' \<mapsto> CData 2, ''Open'' \<mapsto> CNum (Fin 11), ''High'' \<mapsto> CNum (Fin 13), ''Low'' \<mapsto> CNum (Fin 10), ''Close'' \<mapsto> CNum (Fin 12), ''Volume'' \<mapsto> CNum (Fin 600)]] 0
     \<lparr>Indices = [], HistoricoPrecos = [], falhas = []\<rparr> = (Inr (Some (2, 0)),
      \<lparr>Indices = [], HistoricoPrecos = [\<lparr>hp_IdIndice = 1, hp_DataQuotacao = 1, hp_Abertura = Some 10, hp_Alta = Some 12, hp_Baixa = Some 9, hp_Fechamento = Some 11, hp_FechamentoAjustado = Some 11, hp_Volume = Some 500, hp_DataInsercao = 0\<rparr>, \<lparr>hp_IdIndice = 1, hp_DataQuotacao = 2, hp_Abertura = Some 11, hp_Alta = Some 13, hp_Baixa = Some 10, hp_Fechamento = Some 12, hp_FechamentoAjustado = Some 12, hp_Volume = Some 600, hp_DataInsercao = 0\<rparr>], falhas = []\<rparr>) \<and>
   salvar_historico_precos 1 ''AAA''
     [[''Date'' \<mapsto> CData 1, ''Open'' \<mapsto> CNum (Fin 10), ''High'' \<mapsto> CNum (Fin 12), ''Low'' \<mapsto> CNum (Fin 9), ''Close'' \<mapsto> CNum (Fin 11), ''Volume'' \<mapsto> CNum (Fin 500)],
      [''Date'' \<mapsto> CData 2, ''Open'' \<mapsto> CNum (Fin 11), ''High'' \<mapsto> CNum (Fin 13), ''Low'' \<mapsto> CNum (Fin 10), ''Close'' \<mapsto> CNum (Fin 12), ''Volume'' \<mapsto> CNum (Fin 600)]] 5
     \<lparr>Indices = [], HistoricoPrecos = [\<lparr>hp_IdIndice = 1, hp_DataQuotacao = 1, hp_Abertura = Some 10, hp_Alta = Some 12, hp_Baixa = Some 9, hp_Fechamento = Some 11, hp_FechamentoAjustado = Some 11, hp_Volume = Some 500, hp_DataInsercao = 0\<rparr>, \<lparr>hp_IdIndice = 1, hp_DataQuotacao = 2, hp_Abertura = Some 11, hp_Alta = Some 13, hp_Baixa = Some 10, hp_Fechamento = Some 12, hp_FechamentoAjustado = Some 12, hp_Volume = Some 600, hp_DataInsercao = 0\<rparr>], falhas = []\<rparr> = (Inr (Some (0, 2)),
      \<lparr>Indices = [], HistoricoPrecos = [\<lparr>hp_IdIndice = 1, hp_DataQuotacao = 1, hp_Abertura = Some 10, hp_Alta = Some 12, hp_Baixa = Some 9, hp_Fechamento = Some 11, hp_FechamentoAjustado = Some 11, hp_Volume = Some 500, hp_DataInsercao = 0\<rparr>, \<lparr>hp_IdIndice = 1, hp_DataQuotacao = 2, hp_Abertura = Some 11, hp_Alta = Some 13, hp_Baixa = Some 10, hp_Fechamento = Some 12, hp_FechamentoAjustado = Some 12, hp_Volume = Some 600, hp_DataInsercao = 0\<rparr>], falhas = []\<rparr>)"
proof -
  let ?df = "[[''Date'' \<mapsto> CData 1, ''Open'' \<mapsto> CNum (Fin 10), ''High'' \<mapsto> CNum (Fin 12), ''Low'' \<mapsto> CNum (Fin 9), ''Close'' \<mapsto> CNum (Fin 11), ''Volume'' \<mapsto> CNum (Fin 500)],
      [''Date'' \<mapsto> CData 2, ''Open'' \<mapsto> CNum (Fin 11), ''High'' \<mapsto> CNum (Fin 13), ''Low'' \<mapsto> CNum (Fin 10), ''Close'' \<mapsto> CNum (Fin 12), ''Volume'' \<mapsto> CNum (Fin 600)]]"
  let ?b = "\<lparr>Indices = [], HistoricoPrecos = [], falhas = []\<rparr>"
  have h1: "falhas ?b = []" by simp
  have h2: "?df \<noteq> []" by simp
  have l: "length ?df = 2" by simp
  have a: "\<exists>i1 d1 b1 d2.
      salvar_historico_precos 1 ''AAA'' ?df 0 ?b = (Inr (Some (i1, d1)), b1) \<and>
      salvar_historico_precos 1 ''AAA'' ?df 5 b1 = (Inr (Some (0, d2)), b1) \<and>
      i1 + d1 \<le> d2 \<and> d2 \<le> 2 \<and> (i1 + d1 = 2 \<longrightarrow> d2 = i1 + d1)"
    using salvar_duas_vezes [OF h1 h2, of 1 "''AAA''" 0 5] unfolding l .
  have b: "salvar_historico_precos 1 ''AAA'' ?df 0 ?b = (Inr (Some (2, 0)),
      \<lparr>Indices = [], HistoricoPrecos = [\<lparr>hp_IdIndice = 1, hp_DataQuotacao = 1, hp_Abertura = Some 10, hp_Alta = Some 12, hp_Baixa = Some 9, hp_Fechamento = Some 11, hp_FechamentoAjustado = Some 11, hp_Volume = Some 500, hp_DataInsercao = 0\<rparr>, \<lparr>hp_IdIndice = 1, hp_DataQuotacao = 2, hp_Abertura = Some 11, hp_Alta = Some 13, hp_Baixa = Some 10, hp_Fechamento = Some 12, hp_FechamentoAjustado = Some 12, hp_Volume = Some 600, hp_DataInsercao = 0\<rparr>], falhas = []\<rparr>)"
    by (simp add: avalia)
  have c: "salvar_historico_precos 1 ''AAA'' ?df 5
      \<lparr>Indices = [], HistoricoPrecos = [\<lparr>hp_IdIndice = 1, hp_DataQuotacao = 1, hp_Abertura = Some 10, hp_Alta = Some 12, hp_Baixa = Some 9, hp_Fechamento = Some 11, hp_FechamentoAjustado = Some 11, hp_Volume = Some 500, hp_DataInsercao = 0\<rparr>, \<lparr>hp_IdIndice = 1, hp_DataQuotacao = 2, hp_Abertura = Some 11, hp_Alta = Some 13, hp_Baixa = Some 10, hp_Fechamento = Some 12, hp_FechamentoAjustado = Some 12, hp_Volume = Some 600, hp_DataInsercao = 0\<rparr>], falhas = []\<rparr> = (Inr (Some (0, 2)),
      \<lparr>Indices = [], HistoricoPrecos = [\<lparr>hp_IdIndice = 1, hp_DataQuotacao = 1, hp_Abertura = Some 10, hp_Alta = Some 12, hp_Baixa = Some 9, hp_Fechamento = Some 11, hp_FechamentoAjustado = Some 11, hp_Volume = Some 500, hp_DataInsercao = 0\<rparr>, \<lparr>hp_IdIndice = 1, hp_DataQuotacao = 2, hp_Abertura = Some 11, hp_Alta = Some 13, hp_Baixa = Some 10, hp_Fechamento = Some 12, hp_FechamentoAjustado = Some 12, hp_Volume = Some 600, hp_DataInsercao = 0\<rparr>], falhas = []\<rparr>)"
    by (simp add: avalia)
  show ?thesis using a b c by (intro conjI)
qed

text \<open>
  C4. If no two bars of the table share instrument and date, the same holds after any
  sequence of ingestion runs, by the collector (\<open>salvar_historico_precos\<close>) or by the
  loader (\<open>insere_historico_precos\<close>), whatever the store's calls do. On a reachable
  store, a row whose date is already stored for the instrument is skipped and counted
  as a duplicate: the store is unchanged.
\<close>

theorem chave_unica_preservada:
  "(chave_unica b \<longrightarrow> chave_unica (ingestoes b ops)) \<and>
   (falhas b = [] \<longrightarrow> ja_gravada b idi row \<longrightarrow>
      processa_linha idi agora (b, i, d) row = (b, i, d + 1))"
proof (intro conjI impI)
  assume "chave_unica b"
  then show "chave_unica (ingestoes b ops)" by (rule ingestoes_chave_unica)
next
  assume h: "falhas b = []" and g: "ja_gravada b idi row"
  then show "processa_linha idi agora (b, i, d) row = (b, i, d + 1)"
    by (auto simp: processa_linha_saudavel ja_gravada_def split: sum.splits)
qed

text \<open>
  C4, witness: the table holds day 1; two runs of the collector bring days 1 and 2 each.
  The table ends with exactly the two bars, and the row of day 1 is counted as a
  duplicate.
\<close>

theorem chave_unica_preservada_witness:
  "chave_unica \<lparr>Indices = [], HistoricoPrecos = [\<lparr>hp_IdIndice = 1, hp_DataQuotacao = 1, hp_Abertura = Some 10, hp_Alta = Some 12, hp_Baixa = Some 9, hp_Fechamento = Some 11, hp_FechamentoAjustado = Some 11, hp_Volume = Some 500, hp_DataInsercao = 0\<rparr>], falhas = []\<rparr> \<and>
   chave_unica (ingestoes \<lparr>Indices = [], HistoricoPrecos = [\<lparr>hp_IdIndice = 1, hp_DataQuotacao = 1, hp_Abertura = Some 10, hp_Alta = Some 12, hp_Baixa = Some 9, hp_Fechamento = Some 11, hp_FechamentoAjustado = Some 11, hp_Volume = Some 500, hp_DataInsercao = 0\<rparr>], falhas = []\<rparr>
     [Coleta 1 ''AAA'' [[''Date'' \<mapsto> CData 1, ''Open'' \<mapsto> CNum (Fin 10), ''High'' \<mapsto> CNum (Fin 12), ''Low'' \<mapsto> CNum (Fin 9), ''Close'' \<mapsto> CNum (Fin 11), ''Volume'' \<mapsto> CNum (Fin 500)],
      [''Date'' \<mapsto> CData 2, ''Open'' \<mapsto> CNum (Fin 11), ''High'' \<mapsto> CNum (Fin 13), ''Low'' \<mapsto> CNum (Fin 10), ''Close'' \<mapsto> CNum (Fin 12), ''Volume'' \<mapsto> CNum (Fin 600)]] 0,
      Coleta 1 ''AAA'' [[''Date'' \<mapsto> CData 1, ''Open'' \<mapsto> CNum (Fin 10), ''High'' \<mapsto> CNum (Fin 12), ''Low'' \<mapsto> CNum (Fin 9), ''Close'' \<mapsto> CNum (Fin 11), ''Volume'' \<mapsto> CNum (Fin 500)],
      [''Date'' \<mapsto> CData 2, ''Open'' \<mapsto> CNum (Fin 11), ''High'' \<mapsto> CNum (Fin 13), ''Low'' \<mapsto> CNum (Fin 10), ''Close'' \<mapsto> CNum (Fin 12), ''Volume'' \<mapsto> CNum (Fin 600)]] 1]) \<and>
   ingestoes \<lparr>Indices = [], HistoricoPrecos = [\<lparr>hp_IdIndice = 1, hp_DataQuotacao = 1, hp_Abertura = Some 10, hp_Alta = Some 12, hp_Baixa = Some 9, hp_Fechamento = Some 11, hp_FechamentoAjustado = Some 11, hp_Volume = Some 500, hp_DataInsercao = 0\<rparr>], falhas = []\<rparr>
     [Coleta 1 ''AAA'' [[''Date'' \<mapsto> CData 1, ''Open'' \<mapsto> CNum (Fin 10), ''High'' \<mapsto> CNum (Fin 12), ''Low'' \<mapsto> CNum (Fin 9), ''Close'' \<mapsto> CNum (Fin 11), ''Volume'' \<mapsto> CNum (Fin 500)],
      [''Date'' \<mapsto> CData 2, ''Open'' \<mapsto> CNum (Fin 11), ''High'' \<mapsto> CNum (Fin 13), ''Low'' \<mapsto> CNum (Fin 10), ''Close'' \<mapsto> CNum (Fin 12), ''Volume'' \<mapsto> CNum (Fin 600)]] 0,
      Coleta 1 ''AAA'' [[''Date'' \<mapsto> CData 1, ''Open'' \<mapsto> CNum (Fin 10), ''High'' \<mapsto> CNum (Fin 12), ''Low'' \<mapsto> CNum (Fin 9), ''Close'' \<mapsto> CNum (Fin 11), ''Volume'' \<mapsto> CNum (Fin 500)],
      [''Date'' \<mapsto> CData 2, ''Open'' \<mapsto> CNum (Fin 11), ''High'' \<mapsto> CNum (Fin 13), ''Low'' \<mapsto> CNum (Fin 10), ''Close'' \<mapsto> CNum (Fin 12), ''Volume'' \<mapsto> CNum (Fin 600)]] 1] = \<lparr>Indices = [], HistoricoPrecos = [\<lparr>hp_IdIndice = 1, hp_DataQuotacao = 1, hp_Abertura = Some 10, hp_Alta = Some 12, hp_Baixa = Some 9, hp_Fechamento = Some 11, hp_FechamentoAjustado = Some 11, hp_Volume = Some 500, hp_DataInsercao = 0\<rparr>, \<lparr>hp_IdIndice = 1, hp_DataQuotacao = 2, hp_Abertura = Some 11, hp_Alta = Some 13, hp_Baixa = Some 10, hp_Fechamento = Some 12, hp_FechamentoAjustado = Some 12, hp_Volume = Some 600, hp_DataInsercao = 0\<rparr>], falhas = []\<rparr> \<and>
   ja_gravada \<lparr>Indices = [], HistoricoPrecos = [\<lparr>hp_IdIndice = 1, hp_DataQuotacao = 1, hp_Abertura = Some 10, hp_Alta = Some 12, hp_Baixa = Some 9, hp_Fechamento = Some 11, hp_FechamentoAjustado = Some 11, hp_Volume = Some 500, hp_DataInsercao = 0\<rparr>], falhas = []\<rparr> 1
     [''Date'' \<mapsto> CData 1, ''Open'' \<mapsto> CNum (Fin 10), ''High'' \<mapsto> CNum (Fin 12), ''Low'' \<mapsto> CNum (Fin 9), ''Close'' \<mapsto> CNum (Fin 11), ''Volume'' \<mapsto> CNum (Fin 500)] \<and>
   processa_linha 1 0 (\<lparr>Indices = [], HistoricoPrecos = [\<lparr>hp_IdIndice = 1, hp_DataQuotacao = 1, hp_Abertura = Some 10, hp_Alta = Some 12, hp_Baixa = Some 9, hp_Fechamento = Some 11, hp_FechamentoAjustado = Some 11, hp_Volume = Some 500, hp_DataInsercao = 0\<rparr>], falhas = []\<rparr>, 0, 0)
     [''Date'' \<mapsto> CData 1, ''Open'' \<mapsto> CNum (Fin 10), ''High'' \<mapsto> CNum (Fin 12), ''Low'' \<mapsto> CNum (Fin 9), ''Close'' \<mapsto> CNum (Fin 11), ''Volume'' \<mapsto> CNum (Fin 500)] = (\<lparr>Indices = [], HistoricoPrecos = [\<lparr>hp_IdIndice = 1, hp_DataQuotacao = 1, hp_Abertura = Some 10, hp_Alta = Some 12, hp_Baixa = Some 9, hp_Fechamento = Some 11, hp_FechamentoAjustado = Some 11, hp_Volume = Some 500, hp_DataInsercao = 0\<rparr>], falhas = []\<rparr>, 0, 1)"
proof -
  let ?b = "\<lparr>Indices = [], HistoricoPrecos = [\<lparr>hp_IdIndice = 1, hp_DataQuotacao = 1, hp_Abertura = Some 10, hp_Alta = Some 12, hp_Baixa = Some 9, hp_Fechamento = Some 11, hp_FechamentoAjustado = Some 11, hp_Volume = Some 500, hp_DataInsercao = 0\<rparr>], falhas = []\<rparr>"
  let ?ops = "[Coleta 1 ''AAA'' [[''Date'' \<mapsto> CData 1, ''Open'' \<mapsto> CNum (Fin 10), ''High'' \<mapsto> CNum (Fin 12), ''Low'' \<mapsto> CNum (Fin 9), ''Close'' \<mapsto> CNum (Fin 11), ''Volume'' \<mapsto> CNum (Fin 500)],
      [''Date'' \<mapsto> CData 2, ''Open'' \<mapsto> CNum (Fin 11), ''High'' \<mapsto> CNum (Fin 13), ''Low'' \<mapsto> CNum (Fin 10), ''Close'' \<mapsto> CNum (Fin 12), ''Volume'' \<mapsto> CNum (Fin 600)]] 0,
      Coleta 1 ''AAA'' [[''Date'' \<mapsto> CData 1, ''Open'' \<mapsto> CNum (Fin 10), ''High'' \<mapsto> CNum (Fin 12), ''Low'' \<mapsto> CNum (Fin 9), ''Close'' \<mapsto> CNum (Fin 11), ''Volume'' \<mapsto> CNum (Fin 500)],
      [''Date'' \<mapsto> CData 2, ''Open'' \<mapsto> CNum (Fin 11), ''High'' \<mapsto> CNum (Fin 13), ''Low'' \<mapsto> CNum (Fin 10), ''Close'' \<mapsto> CNum (Fin 12), ''Volume'' \<mapsto> CNum (Fin 600)]] 1]"
  let ?row = "[''Date'' \<mapsto> CData 1, ''Open'' \<mapsto> CNum (Fin 10), ''High'' \<mapsto> CNum (Fin 12), ''Low'' \<mapsto> CNum (Fin 9), ''Close'' \<mapsto> CNum (Fin 11), ''Volume'' \<mapsto> CNum (Fin 500)]"
  have h1: "chave_unica ?b" by (simp add: chave_unica_def chave_def)
  have h2: "falhas ?b = []" by simp
  have h3: "ja_gravada ?b 1 ?row"
    by (simp add: ja_gravada_def data_da_linha_def coluna_def bind_erro_def existe_def)
  note t = chave_unica_preservada [of ?b ?ops 1 ?row 0 0 0]
  have a: "chave_unica (ingestoes ?b ?ops)" using t h1 by blast
  have b: "processa_linha 1 0 (?b, 0, 0) ?row = (?b, 0, 1)" using t h2 h3 by simp
  have c: "ingestoes ?b ?ops = \<lparr>Indices = [], HistoricoPrecos = [\<lparr>hp_IdIndice = 1, hp_DataQuotacao = 1, hp_Abertura = Some 10, hp_Alta = Some 12, hp_Baixa = Some 9, hp_Fechamento = Some 11, hp_FechamentoAjustado = Some 11, hp_Volume = Some 500, hp_DataInsercao = 0\<rparr>, \<lparr>hp_IdIndice = 1, hp_DataQuotacao = 2, hp_Abertura = Some 11, hp_Alta = Some 13, hp_Baixa = Some 10, hp_Fechamento = Some 12, hp_FechamentoAjustado = Some 12, hp_Volume = Some 600, hp_DataInsercao = 0\<rparr>], falhas = []\<rparr>"
    by (simp add: avalia)
  show ?thesis using h1 a c h3 b by (intro conjI)
qed

text \<open>
  C5, counterexample. The function keeps two counters, inserted and duplicates, and none
  for failures. A frame with one good row and the same frame followed by a row of a new
  date whose volume is infinite (\<open>int\<close> raises) give the same result, 1 inserted and 0
  duplicates: the result does not tell that a row failed. And the same bad row under a
  date that is in the table is not counted apart from the duplicates: it is counted as
  one.
\<close>

theorem linha_com_falha_sem_contagem:
  "salvar_historico_precos 1 ''AAA''
     [[''Date'' \<mapsto> CData 1, ''Open'' \<mapsto> CNum (Fin 10), ''High'' \<mapsto> CNum (Fin 12), ''Low'' \<mapsto> CNum (Fin 9), ''Close'' \<mapsto> CNum (Fin 11), ''Volume'' \<mapsto> CNum (Fin 500)]] 0
     \<lparr>Indices = [], HistoricoPrecos = [], falhas = []\<rparr> = (Inr (Some (1, 0)),
      \<lparr>Indices = [], HistoricoPrecos = [\<lparr>hp_IdIndice = 1, hp_DataQuotacao = 1, hp_Abertura = Some 10, hp_Alta = Some 12, hp_Baixa = Some 9, hp_Fechamento = Some 11, hp_FechamentoAjustado = Some 11, hp_Volume = Some 500, hp_DataInsercao = 0\<rparr>], falhas = []\<rparr>) \<and>
   salvar_historico_precos 1 ''AAA''
     [[''Date'' \<mapsto> CData 1, ''Open'' \<mapsto> CNum (Fin 10), ''High'' \<mapsto> CNum (Fin 12), ''Low'' \<mapsto> CNum (Fin 9), ''Close'' \<mapsto> CNum (Fin 11), ''Volume'' \<mapsto> CNum (Fin 500)],
      [''Date'' \<mapsto> CData 3, ''Open'' \<mapsto> CNum (Fin 10), ''High'' \<mapsto> CNum (Fin 12), ''Low'' \<mapsto> CNum (Fin 9), ''Close'' \<mapsto> CNum (Fin 11), ''Volume'' \<mapsto> CNum PInf]] 0
     \<lparr>Indices = [], HistoricoPrecos = [], falhas = []\<rparr> = (Inr (Some (1, 0)),
      \<lparr>Indices = [], HistoricoPrecos = [\<lparr>hp_IdIndice = 1, hp_DataQuotacao = 1, hp_Abertura = Some 10, hp_Alta = Some 12, hp_Baixa = Some 9, hp_Fechamento = Some 11, hp_FechamentoAjustado = Some 11, hp_Volume = Some 500, hp_DataInsercao = 0\<rparr>], falhas = []\<rparr>) \<and>
   salvar_historico_precos 1 ''AAA''
     [[''Date'' \<mapsto> CData 1, ''Open'' \<mapsto> CNum (Fin 10), ''High'' \<mapsto> CNum (Fin 12), ''Low'' \<mapsto> CNum (Fin 9), ''Close'' \<mapsto> CNum (Fin 11), ''Volume'' \<mapsto> CNum (Fin 500)],
      [''Date'' \<mapsto> CData 1, ''Open'' \<mapsto> CNum (Fin 10), ''High'' \<mapsto> CNum (Fin 12), ''Low'' \<mapsto> CNum (Fin 9), ''Close'' \<mapsto> CNum (Fin 11), ''Volume'' \<mapsto> CNum PInf]] 0
     \<lparr>Indices = [], HistoricoPrecos = [], falhas = []\<rparr> = (Inr (Some (1, 1)),
      \<lparr>Indices = [], HistoricoPrecos = [\<lparr>hp_IdIndice = 1, hp_DataQuotacao = 1, hp_Abertura = Some 10, hp_Alta = Some 12, hp_Baixa = Some 9, hp_Fechamento = Some 11, hp_FechamentoAjustado = Some 11, hp_Volume = Some 500, hp_DataInsercao = 0\<rparr>], falhas = []\<rparr>)"
  by (simp add: avalia)

text \<open>
  C5, as the code has it. On a reachable store, a row for which no bar can be built (a
  conversion raises, or the store rejects a value) neither aborts the batch nor changes
  what the other rows do: with the row or without it, the same bars are stored and
  the same number is reported as inserted. The row is counted as a duplicate exactly
  when its date can be read and is in the table when the loop reaches the row, that is,
  when the table held a bar of the instrument for that date before the run, or an
  earlier row of the batch had that date and was written. Otherwise the row is not
  counted at all.
\<close>

theorem linha_malformada_isolada:
  assumes "falhas b = []" and "registro idi row agora = Inl e" and "xs @ ys \<noteq> []"
  shows "\<exists>i d b'.
           salvar_historico_precos idi ticker (xs @ ys) agora b = (Inr (Some (i, d)), b') \<and>
           salvar_historico_precos idi ticker (xs @ row # ys) agora b =
             (Inr (Some (i, if (\<exists>dt. data_da_linha row = Inr dt \<and>
                 (0 < existe b idi dt \<or>
                  (\<exists>row'\<in>set xs. data_da_linha row' = Inr dt \<and>
                       (\<exists>r. registro idi row' agora = Inr r))))
                            then d + 1 else d)), b')"
proof -
  obtain bx ix dx where x: "foldl (processa_linha idi agora) (b, 0, 0) xs = (bx, ix, dx)"
    by (cases "foldl (processa_linha idi agora) (b, 0, 0) xs")
  have hx: "falhas bx = []" using laco_falhas [of "(b, 0, 0)" idi agora xs] assms(1) x by simp
  obtain b' i d where y: "foldl (processa_linha idi agora) (bx, ix, dx) ys = (b', i, d)"
    by (cases "foldl (processa_linha idi agora) (bx, ix, dx) ys")
  note g = ja_gravada_no_laco [OF assms(1) x, of row]
  let ?k = "if ja_gravada bx idi row then 1 else 0 :: nat"
  have sem: "foldl (processa_linha idi agora) (b, 0, 0) (xs @ ys) = (b', i, d)"
    using x y by simp
  have com: "foldl (processa_linha idi agora) (b, 0, 0) (xs @ row # ys) = (b', i, d + ?k)"
    using x y processa_linha_malformada [OF hx assms(2), of ix dx]
      laco_desloca [OF hx, of idi agora ix dx ?k ys] by simp
  have r1: "salvar_historico_precos idi ticker (xs @ ys) agora b = (Inr (Some (i, d)), b')"
    using salvar_saudavel [OF assms(1,3)] sem by simp
  have ne: "xs @ row # ys \<noteq> []" by simp
  have r2: "salvar_historico_precos idi ticker (xs @ row # ys) agora b = (Inr (Some (i, d + ?k)), b')"
    using salvar_saudavel [OF assms(1) ne] com by simp
  have r3: "salvar_historico_precos idi ticker (xs @ row # ys) agora b =
             (Inr (Some (i, if (\<exists>dt. data_da_linha row = Inr dt \<and>
                 (0 < existe b idi dt \<or>
                  (\<exists>row'\<in>set xs. data_da_linha row' = Inr dt \<and>
                       (\<exists>r. registro idi row' agora = Inr r))))
                            then d + 1 else d)), b')"
    unfolding g [symmetric] using r2 by (cases "ja_gravada bx idi row") simp_all
  show ?thesis using r1 r3 by blast
qed

text \<open>
  C5, witness: between two good rows of days 1 and 2, a row with an infinite volume. When
  it carries the new day 3 the counters are 2 and 0, as without it; when it carries day
  1, which the first row of the batch has just stored, they are 2 and 1. The two good
  rows are stored in both runs.
\<close>

theorem linha_malformada_isolada_witness:
  "salvar_historico_precos 1 ''AAA''
     ([[''Date'' \<mapsto> CData 1, ''Open'' \<mapsto> CNum (Fin 10), ''High'' \<mapsto> CNum (Fin 12), ''Low'' \<mapsto> CNum (Fin 9), ''Close'' \<mapsto> CNum (Fin 11), ''Volume'' \<mapsto> CNum (Fin 500)]] @
      [''Date'' \<mapsto> CData 3, ''Open'' \<mapsto> CNum (Fin 10), ''High'' \<mapsto> CNum (Fin 12), ''Low'' \<mapsto> CNum (Fin 9), ''Close'' \<mapsto> CNum (Fin 11), ''Volume'' \<mapsto> CNum PInf] #
      [[''Date'' \<mapsto> CData 2, ''Open'' \<mapsto> CNum (Fin 11), ''High'' \<mapsto> CNum (Fin 13), ''Low'' \<mapsto> CNum (Fin 10), ''Close'' \<mapsto> CNum (Fin 12), ''Volume'' \<mapsto> CNum (Fin 600)]]) 0
     \<lparr>Indices = [], HistoricoPrecos = [], falhas = []\<rparr> = (Inr (Some (2, 0)),
      \<lparr>Indices = [], HistoricoPrecos = [\<lparr>hp_IdIndice = 1, hp_DataQuotacao = 1, hp_Abertura = Some 10, hp_Alta = Some 12, hp_Baixa = Some 9, hp_Fechamento = Some 11, hp_FechamentoAjustado = Some 11, hp_Volume = Some 500, hp_DataInsercao = 0\<rparr>, \<lparr>hp_IdIndice = 1, hp_DataQuotacao = 2, hp_Abertura = Some 11, hp_Alta = Some 13, hp_Baixa = Some 10, hp_Fechamento = Some 12, hp_FechamentoAjustado = Some 12, hp_Volume = Some 600, hp_DataInsercao = 0\<rparr>], falhas = []\<rparr>) \<and>
   salvar_historico_precos 1 ''AAA''
     ([[''Date'' \<mapsto> CData 1, ''Open'' \<mapsto> CNum (Fin 10), ''High'' \<mapsto> CNum (Fin 12), ''Low'' \<mapsto> CNum (Fin 9), ''Close'' \<mapsto> CNum (Fin 11), ''Volume'' \<mapsto> CNum (Fin 500)]] @
      [''Date'' \<mapsto> CData 1, ''Open'' \<mapsto> CNum (Fin 10), ''High'' \<mapsto> CNum (Fin 12), ''Low'' \<mapsto> CNum (Fin 9), ''Close'' \<mapsto> CNum (Fin 11), ''Volume'' \<mapsto> CNum PInf] #
      [[''Date'' \<mapsto> CData 2, ''Open'' \<mapsto> CNum (Fin 11), ''High'' \<mapsto> CNum (Fin 13), ''Low'' \<mapsto> CNum (Fin 10), ''Close'' \<mapsto> CNum (Fin 12), ''Volume'' \<mapsto> CNum (Fin 600)]]) 0
     \<lparr>Indices = [], HistoricoPrecos = [], falhas = []\<rparr> = (Inr (Some (2, 1)),
      \<lparr>Indices = [], HistoricoPrecos = [\<lparr>hp_IdIndice = 1, hp_DataQuotacao = 1, hp_Abertura = Some 10, hp_Alta = Some 12, hp_Baixa = Some 9, hp_Fechamento = Some 11, hp_FechamentoAjustado = Some 11, hp_Volume = Some 500, hp_DataInsercao = 0\<rparr>, \<lparr>hp_IdIndice = 1, hp_DataQuotacao = 2, hp_Abertura = Some 11, hp_Alta = Some 13, hp_Baixa = Some 10, hp_Fechamento = Some 12, hp_FechamentoAjustado = Some 12, hp_Volume = Some 600, hp_DataInsercao = 0\<rparr>], falhas = []\<rparr>)"
proof -
  let ?b = "\<lparr>Indices = [], HistoricoPrecos = [], falhas = []\<rparr>"
  let ?xs = "[[''Date'' \<mapsto> CData 1, ''Open'' \<mapsto> CNum (Fin 10), ''High'' \<mapsto> CNum (Fin 12), ''Low'' \<mapsto> CNum (Fin 9), ''Close'' \<mapsto> CNum (Fin 11), ''Volume'' \<mapsto> CNum (Fin 500)]]"
  let ?ys = "[[''Date'' \<mapsto> CData 2, ''Open'' \<mapsto> CNum (Fin 11), ''High'' \<mapsto> CNum (Fin 13), ''Low'' \<mapsto> CNum (Fin 10), ''Close'' \<mapsto> CNum (Fin 12), ''Volume'' \<mapsto> CNum (Fin 600)]]"
  let ?novo = "[''Date'' \<mapsto> CData 3, ''Open'' \<mapsto> CNum (Fin 10), ''High'' \<mapsto> CNum (Fin 12), ''Low'' \<mapsto> CNum (Fin 9), ''Close'' \<mapsto> CNum (Fin 11), ''Volume'' \<mapsto> CNum PInf]"
  let ?dup = "[''Date'' \<mapsto> CData 1, ''Open'' \<mapsto> CNum (Fin 10), ''High'' \<mapsto> CNum (Fin 12), ''Low'' \<mapsto> CNum (Fin 9), ''Close'' \<mapsto> CNum (Fin 11), ''Volume'' \<mapsto> CNum PInf]"
  let ?fim = "\<lparr>Indices = [], HistoricoPrecos = [\<lparr>hp_IdIndice = 1, hp_DataQuotacao = 1, hp_Abertura = Some 10, hp_Alta = Some 12, hp_Baixa = Some 9, hp_Fechamento = Some 11, hp_FechamentoAjustado = Some 11, hp_Volume = Some 500, hp_DataInsercao = 0\<rparr>, \<lparr>hp_IdIndice = 1, hp_DataQuotacao = 2, hp_Abertura = Some 11, hp_Alta = Some 13, hp_Baixa = Some 10, hp_Fechamento = Some 12, hp_FechamentoAjustado = Some 12, hp_Volume = Some 600, hp_DataInsercao = 0\<rparr>], falhas = []\<rparr>"
  have h1: "falhas ?b = []" by simp
  have h2n: "registro 1 ?novo 0 = Inl OverflowError"
    by (simp add: registro_def monta_parametros_def data_da_linha_def coluna_def bind_erro_def
        float_ou_none_def int_ou_zero_def)
  have h2d: "registro 1 ?dup 0 = Inl OverflowError"
    by (simp add: registro_def monta_parametros_def data_da_linha_def coluna_def bind_erro_def
        float_ou_none_def int_ou_zero_def)
  have h3: "?xs @ ?ys \<noteq> []" by simp
  have s: "salvar_historico_precos 1 ''AAA'' (?xs @ ?ys) 0 ?b = (Inr (Some (2, 0)), ?fim)"
    by (simp add: avalia)
  have cn: "\<not> (\<exists>dt. data_da_linha ?novo = Inr dt \<and>
          (0 < existe ?b 1 dt \<or>
           (\<exists>row'\<in>set ?xs. data_da_linha row' = Inr dt \<and>
                (\<exists>r. registro 1 row' 0 = Inr r))))"
    by (simp add: data_da_linha_def coluna_def bind_erro_def existe_def)
  have cd: "(\<exists>dt. data_da_linha ?dup = Inr dt \<and>
          (0 < existe ?b 1 dt \<or>
           (\<exists>row'\<in>set ?xs. data_da_linha row' = Inr dt \<and>
                (\<exists>r. registro 1 row' 0 = Inr r))))"
    by (simp add: data_da_linha_def coluna_def bind_erro_def existe_def registro_def
        monta_parametros_def float_ou_none_def int_ou_zero_def insert_preco_def bigint_def)
  from linha_malformada_isolada [OF h1 h2n h3, of "''AAA''"] obtain i d b' where
    a1: "salvar_historico_precos 1 ''AAA'' (?xs @ ?ys) 0 ?b = (Inr (Some (i, d)), b')" and
    a2: "salvar_historico_precos 1 ''AAA'' (?xs @ ?novo # ?ys) 0 ?b =
           (Inr (Some (i, if (\<exists>dt. data_da_linha ?novo = Inr dt \<and>
          (0 < existe ?b 1 dt \<or>
           (\<exists>row'\<in>set ?xs. data_da_linha row' = Inr dt \<and>
                (\<exists>r. registro 1 row' 0 = Inr r))))
                          then d + 1 else d)), b')"
    by blast
  have e1: "i = 2 \<and> d = 0 \<and> b' = ?fim" using a1 unfolding s by simp
  have n: "salvar_historico_precos 1 ''AAA'' (?xs @ ?novo # ?ys) 0 ?b = (Inr (Some (2, 0)), ?fim)"
    using a2 e1 unfolding if_not_P [OF cn] by simp
  from linha_malformada_isolada [OF h1 h2d h3, of "''AAA''"] obtain j c b'' where
    c1: "salvar_historico_precos 1 ''AAA'' (?xs @ ?ys) 0 ?b = (Inr (Some (j, c)), b'')" and
    c2: "salvar_historico_precos 1 ''AAA'' (?xs @ ?dup # ?ys) 0 ?b =
           (Inr (Some (j, if (\<exists>dt. data_da_linha ?dup = Inr dt \<and>
          (0 < existe ?b 1 dt \<or>
           (\<exists>row'\<in>set ?xs. data_da_linha row' = Inr dt \<and>
                (\<exists>r. registro 1 row' 0 = Inr r))))
                          then c + 1 else c)), b'')"
    by blast
  have e2: "j = 2 \<and> c = 0 \<and> b'' = ?fim" using c1 unfolding s by simp
  have m: "salvar_historico_precos 1 ''AAA'' (?xs @ ?dup # ?ys) 0 ?b = (Inr (Some (2, 1)), ?fim)"
    using c2 e2 unfolding if_P [OF cd] by simp
  show ?thesis using n m by (intro conjI)
qed

text \<open>
  C6, counterexample. First, the store fails at the commit of a one-row batch: the saving
  function raises. Second, the same failure under the full-collection entry point (two
  calls for the instrument come first): \<open>coletar_indice_completo\<close> returns normally,
  so its caller does not see the error. Third, the store fails on the INSERT of the
  first of two rows only: the row handler takes the error, the second row is stored,
  the commit succeeds and the function reports 1 inserted, 0 duplicates.
\<close>

theorem erro_do_banco_engolido_na_coleta:
  "salvar_historico_precos 1 ''AAA''
     [[''Date'' \<mapsto> CData 1, ''Open'' \<mapsto> CNum (Fin 10), ''High'' \<mapsto> CNum (Fin 12), ''Low'' \<mapsto> CNum (Fin 9), ''Close'' \<mapsto> CNum (Fin 11), ''Volume'' \<mapsto> CNum (Fin 500)]] 0
     \<lparr>Indices = [\<lparr>i_IdIndice = 1, i_Ticker = ''AAA'', i_Descricao = ''Alpha'', i_Pais = ''Brasil'', i_DataCriacao = 0, i_Ativo = True\<rparr>], HistoricoPrecos = [], falhas = [False, False, False, True]\<rparr>
   = (Inl ErroBanco, \<lparr>Indices = [\<lparr>i_IdIndice = 1, i_Ticker = ''AAA'', i_Descricao = ''Alpha'', i_Pais = ''Brasil'', i_DataCriacao = 0, i_Ativo = True\<rparr>], HistoricoPrecos = [], falhas = []\<rparr>) \<and>
   coletar_indice_completo ''AAA'' ''Alpha'' ''Brasil''
     [[''Date'' \<mapsto> CData 1, ''Open'' \<mapsto> CNum (Fin 10), ''High'' \<mapsto> CNum (Fin 12), ''Low'' \<mapsto> CNum (Fin 9), ''Close'' \<mapsto> CNum (Fin 11), ''Volume'' \<mapsto> CNum (Fin 500)]] 0
     \<lparr>Indices = [\<lparr>i_IdIndice = 1, i_Ticker = ''AAA'', i_Descricao = ''Alpha'', i_Pais = ''Brasil'', i_DataCriacao = 0, i_Ativo = True\<rparr>], HistoricoPrecos = [], falhas = [False, False, False, False, False, True]\<rparr>
   = (Inr (), \<lparr>Indices = [\<lparr>i_IdIndice = 1, i_Ticker = ''AAA'', i_Descricao = ''Alpha'', i_Pais = ''Brasil'', i_DataCriacao = 0, i_Ativo = True\<rparr>], HistoricoPrecos = [], falhas = []\<rparr>) \<and>
   salvar_historico_precos 1 ''AAA''
     [[''Date'' \<mapsto> CData 1, ''Open'' \<mapsto> CNum (Fin 10), ''High'' \<mapsto> CNum (Fin 12), ''Low'' \<mapsto> CNum (Fin 9), ''Close'' \<mapsto> CNum (Fin 11), ''Volume'' \<mapsto> CNum (Fin 500)],
      [''Date'' \<mapsto> CData 2, ''Open'' \<mapsto> CNum (Fin 11), ''High'' \<mapsto> CNum (Fin 13), ''Low'' \<mapsto> CNum (Fin 10), ''Close'' \<mapsto> CNum (Fin 12), ''Volume'' \<mapsto> CNum (Fin 600)]] 0
     \<lparr>Indices = [\<lparr>i_IdIndice = 1, i_Ticker = ''AAA'', i_Descricao = ''Alpha'', i_Pais = ''Brasil'', i_DataCriacao = 0, i_Ativo = True\<rparr>], HistoricoPrecos = [], falhas = [False, False, True]\<rparr>
   = (Inr (Some (1, 0)), \<lparr>Indices = [\<lparr>i_IdIndice = 1, i_Ticker = ''AAA'', i_Descricao = ''Alpha'', i_Pais = ''Brasil'', i_DataCriacao = 0, i_Ativo = True\<rparr>], HistoricoPrecos = [\<lparr>hp_IdIndice = 1, hp_DataQuotacao = 2, hp_Abertura = Some 11, hp_Alta = Some 13, hp_Baixa = Some 10, hp_Fechamento = Some 12, hp_FechamentoAjustado = Some 12, hp_Volume = Some 600, hp_DataInsercao = 0\<rparr>], falhas = []\<rparr>)"
  by (simp add: avalia coletar_indice_completo_def adicionar_indice_def)

text \<open>
  C6, as the code has it. The full-collection entry point never raises: when
  \<open>adicionar_indice\<close> or \<open>salvar_historico_precos\<close> raises, it logs the error and returns
  normally, with the store as the failed call left it. The saving function itself
  raises only a store error, and then none of its rows is stored. It raises when the
  store cannot be reached at the start of a non-empty batch, and when the commit after
  the loop fails: then the rows that the loop wrote are lost with the transaction. When
  both calls go through it returns its counters, whatever happened on the rows. A store
  error on a row's own statement, the check query or the INSERT, is taken by the row's
  handler: the row is skipped, the counters stay, and the loop goes on.
\<close>

theorem erro_do_banco_ao_salvar:
  "fst (coletar_indice_completo ticker descr pais df agora b) = Inr () \<and>
   (\<forall>e. fst (salvar_historico_precos idi ticker df agora b) = Inl e \<longrightarrow>
        e = ErroBanco \<and>
        HistoricoPrecos (snd (salvar_historico_precos idi ticker df agora b)) = HistoricoPrecos b \<and>
        Indices (snd (salvar_historico_precos idi ticker df agora b)) = Indices b) \<and>
   (df \<noteq> [] \<longrightarrow> falhas b = True # fs \<longrightarrow>
        salvar_historico_precos idi ticker df agora b = (Inl ErroBanco, b\<lparr>falhas := fs\<rparr>)) \<and>
   (df \<noteq> [] \<longrightarrow> chamada b = (True, b1) \<longrightarrow>
        foldl (processa_linha idi agora) (b1, 0, 0) df = (b2, ins, dup) \<longrightarrow>
        chamada b2 = (ok, b3) \<longrightarrow>
        salvar_historico_precos idi ticker df agora b =
          (if ok then (Inr (Some (ins, dup)), b3)
           else (Inl ErroBanco, b3\<lparr>HistoricoPrecos := HistoricoPrecos b\<rparr>))) \<and>
   (falhas b = True # fs \<longrightarrow> data_da_linha row = Inr dt \<longrightarrow>
        processa_linha idi agora (b, i, d) row = (b\<lparr>falhas := fs\<rparr>, i, d)) \<and>
   (falhas b = False # True # fs \<longrightarrow> data_da_linha row = Inr dt \<longrightarrow>
        existe b idi dt = 0 \<longrightarrow> monta_parametros idi row agora = Inr p \<longrightarrow>
        processa_linha idi agora (b, i, d) row = (b\<lparr>falhas := fs\<rparr>, i, d)) \<and>
   (adicionar_indice ticker descr pais agora b = (Inl e1, ba) \<longrightarrow>
        coletar_indice_completo ticker descr pais df agora b = (Inr (), ba)) \<and>
   (df \<noteq> [] \<longrightarrow> adicionar_indice ticker descr pais agora b = (Inr idi, ba) \<longrightarrow>
        salvar_historico_precos idi ticker df agora ba = (Inl e2, bs) \<longrightarrow>
        coletar_indice_completo ticker descr pais df agora b = (Inr (), bs))"
proof -
  have p1: "fst (coletar_indice_completo ticker descr pais df agora b) = Inr ()"
    by (simp add: coletar_indice_completo_def split: prod.splits sum.splits)
  have p2: "e = ErroBanco \<and>
        HistoricoPrecos (snd (salvar_historico_precos idi ticker df agora b)) = HistoricoPrecos b \<and>
        Indices (snd (salvar_historico_precos idi ticker df agora b)) = Indices b"
    if e: "fst (salvar_historico_precos idi ticker df agora b) = Inl e" for e
  proof -
    have ne: "df \<noteq> []" using e by (auto simp: salvar_historico_precos_def)
    obtain ok b1 where c1: "chamada b = (ok, b1)" by (cases "chamada b")
    note t1 = chamada_tabelas [OF c1]
    obtain b2 i2 d2 where l: "foldl (processa_linha idi agora) (b1, 0, 0) df = (b2, i2, d2)"
      by (cases "foldl (processa_linha idi agora) (b1, 0, 0) df")
    obtain ok3 b3 where c3: "chamada b2 = (ok3, b3)" by (cases "chamada b2")
    note t3 = chamada_tabelas [OF c3]
    have ind: "Indices b2 = Indices b1" using laco_indices [of idi agora "(b1, 0, 0)" df] l by simp
    show ?thesis
    proof (cases ok)
      case False
      then have "salvar_historico_precos idi ticker df agora b = (Inl ErroBanco, b1)"
        using ne c1 by (simp add: salvar_historico_precos_def)
      then show ?thesis using e t1 by simp
    next
      case ok: True
      show ?thesis
      proof (cases ok3)
        case False
        then have "salvar_historico_precos idi ticker df agora b =
                     (Inl ErroBanco, b3\<lparr>HistoricoPrecos := HistoricoPrecos b\<rparr>)"
          using ne c1 ok l c3 by (simp add: salvar_historico_precos_def)
        then show ?thesis using e t1 t3 ind by simp
      next
        case True
        then have "salvar_historico_precos idi ticker df agora b = (Inr (Some (i2, d2)), b3)"
          using ne c1 ok l c3 by (simp add: salvar_historico_precos_def)
        then show ?thesis using e by simp
      qed
    qed
  qed
  have p3: "salvar_historico_precos idi ticker df agora b = (Inl ErroBanco, b\<lparr>falhas := fs\<rparr>)"
    if "df \<noteq> []" and "falhas b = True # fs"
    using that by (simp add: salvar_historico_precos_def chamada_def)
  have p4: "salvar_historico_precos idi ticker df agora b =
          (if ok then (Inr (Some (ins, dup)), b3)
           else (Inl ErroBanco, b3\<lparr>HistoricoPrecos := HistoricoPrecos b\<rparr>))"
    if "df \<noteq> []" and "chamada b = (True, b1)"
      and "foldl (processa_linha idi agora) (b1, 0, 0) df = (b2, ins, dup)"
      and "chamada b2 = (ok, b3)"
    using that by (simp add: salvar_historico_precos_def)
  have p5: "processa_linha idi agora (b, i, d) row = (b\<lparr>falhas := fs\<rparr>, i, d)"
    if "falhas b = True # fs" and "data_da_linha row = Inr dt"
    using that by (simp add: processa_linha_def chamada_def)
  have p6: "processa_linha idi agora (b, i, d) row = (b\<lparr>falhas := fs\<rparr>, i, d)"
    if "falhas b = False # True # fs" and "data_da_linha row = Inr dt"
      and "existe b idi dt = 0" and "monta_parametros idi row agora = Inr p"
    using that by (simp add: processa_linha_def chamada_def existe_def)
  have p7: "coletar_indice_completo ticker descr pais df agora b = (Inr (), ba)"
    if "adicionar_indice ticker descr pais agora b = (Inl e1, ba)"
    using that by (simp add: coletar_indice_completo_def)
  have p8: "coletar_indice_completo ticker descr pais df agora b = (Inr (), bs)"
    if "df \<noteq> []" and "adicionar_indice ticker descr pais agora b = (Inr idi, ba)"
      and "salvar_historico_precos idi ticker df agora ba = (Inl e2, bs)"
    using that by (simp add: coletar_indice_completo_def)
  show ?thesis
    apply (intro conjI impI allI)
    subgoal by (rule p1)
    subgoal using p2 by simp
    subgoal using p2 by simp
    subgoal using p2 by simp
    subgoal using p3 by simp
    subgoal using p4 by simp
    subgoal using p5 by simp
    subgoal using p6 by simp
    subgoal using p7 by simp
    subgoal using p8 by simp
    done
qed

text \<open>
  C6, witness, on a store that holds the instrument AAA and no bar, with a one-row frame.
  When the first call fails, the saving function raises the store error and the entry
  point returns normally. When the fourth call, the commit, fails, the saving function
  raises and the bar that the loop wrote is not in the table. A failure of the check
  query or of the INSERT leaves the row out and the counters at 0. And when the commit
  fails under the entry point (its sixth call), the entry point returns normally.
\<close>

theorem erro_do_banco_ao_salvar_witness:
  "fst (coletar_indice_completo ''AAA'' ''Alpha'' ''Brasil''
          [[''Date'' \<mapsto> CData 1, ''Open'' \<mapsto> CNum (Fin 10), ''High'' \<mapsto> CNum (Fin 12), ''Low'' \<mapsto> CNum (Fin 9), ''Close'' \<mapsto> CNum (Fin 11), ''Volume'' \<mapsto> CNum (Fin 500)]] 0
          \<lparr>Indices = [\<lparr>i_IdIndice = 1, i_Ticker = ''AAA'', i_Descricao = ''Alpha'', i_Pais = ''Brasil'', i_DataCriacao = 0, i_Ativo = True\<rparr>], HistoricoPrecos = [], falhas = [True]\<rparr>) = Inr () \<and>
   salvar_historico_precos 1 ''AAA''
     [[''Date'' \<mapsto> CData 1, ''Open'' \<mapsto> CNum (Fin 10), ''High'' \<mapsto> CNum (Fin 12), ''Low'' \<mapsto> CNum (Fin 9), ''Close'' \<mapsto> CNum (Fin 11), ''Volume'' \<mapsto> CNum (Fin 500)]] 0
     \<lparr>Indices = [\<lparr>i_IdIndice = 1, i_Ticker = ''AAA'', i_Descricao = ''Alpha'', i_Pais = ''Brasil'', i_DataCriacao = 0, i_Ativo = True\<rparr>], HistoricoPrecos = [], falhas = [True]\<rparr>
   = (Inl ErroBanco, \<lparr>Indices = [\<lparr>i_IdIndice = 1, i_Ticker = ''AAA'', i_Descricao = ''Alpha'', i_Pais = ''Brasil'', i_DataCriacao = 0, i_Ativo = True\<rparr>], HistoricoPrecos = [], falhas = []\<rparr>) \<and>
   salvar_historico_precos 1 ''AAA''
     [[''Date'' \<mapsto> CData 1, ''Open'' \<mapsto> CNum (Fin 10), ''High'' \<mapsto> CNum (Fin 12), ''Low'' \<mapsto> CNum (Fin 9), ''Close'' \<mapsto> CNum (Fin 11), ''Volume'' \<mapsto> CNum (Fin 500)]] 0
     \<lparr>Indices = [\<lparr>i_IdIndice = 1, i_Ticker = ''AAA'', i_Descricao = ''Alpha'', i_Pais = ''Brasil'', i_DataCriacao = 0, i_Ativo = True\<rparr>], HistoricoPrecos = [], falhas = [False, False, False, True]\<rparr>
   = (Inl ErroBanco, \<lparr>Indices = [\<lparr>i_IdIndice = 1, i_Ticker = ''AAA'', i_Descricao = ''Alpha'', i_Pais = ''Brasil'', i_DataCriacao = 0, i_Ativo = True\<rparr>], HistoricoPrecos = [], falhas = []\<rparr>) \<and>
   processa_linha 1 0 (\<lparr>Indices = [\<lparr>i_IdIndice = 1, i_Ticker = ''AAA'', i_Descricao = ''Alpha'', i_Pais = ''Brasil'', i_DataCriacao = 0, i_Ativo = True\<rparr>], HistoricoPrecos = [], falhas = [True]\<rparr>, 0, 0)
     [''Date'' \<mapsto> CData 1, ''Open'' \<mapsto> CNum (Fin 10), ''High'' \<mapsto> CNum (Fin 12), ''Low'' \<mapsto> CNum (Fin 9), ''Close'' \<mapsto> CNum (Fin 11), ''Volume'' \<mapsto> CNum (Fin 500)] = (\<lparr>Indices = [\<lparr>i_IdIndice = 1, i_Ticker = ''AAA'', i_Descricao = ''Alpha'', i_Pais = ''Brasil'', i_DataCriacao = 0, i_Ativo = True\<rparr>], HistoricoPrecos = [], falhas = []\<rparr>, 0, 0) \<and>
   processa_linha 1 0 (\<lparr>Indices = [\<lparr>i_IdIndice = 1, i_Ticker = ''AAA'', i_Descricao = ''Alpha'', i_Pais = ''Brasil'', i_DataCriacao = 0, i_Ativo = True\<rparr>], HistoricoPrecos = [], falhas = [False, True]\<rparr>, 0, 0)
     [''Date'' \<mapsto> CData 1, ''Open'' \<mapsto> CNum (Fin 10), ''High'' \<mapsto> CNum (Fin 12), ''Low'' \<mapsto> CNum (Fin 9), ''Close'' \<mapsto> CNum (Fin 11), ''Volume'' \<mapsto> CNum (Fin 500)] = (\<lparr>Indices = [\<lparr>i_IdIndice = 1, i_Ticker = ''AAA'', i_Descricao = ''Alpha'', i_Pais = ''Brasil'', i_DataCriacao = 0, i_Ativo = True\<rparr>], HistoricoPrecos = [], falhas = []\<rparr>, 0, 0) \<and>
   coletar_indice_completo ''AAA'' ''Alpha'' ''Brasil''
     [[''Date'' \<mapsto> CData 1, ''Open'' \<mapsto> CNum (Fin 10), ''High'' \<mapsto> CNum (Fin 12), ''Low'' \<mapsto> CNum (Fin 9), ''Close'' \<mapsto> CNum (Fin 11), ''Volume'' \<mapsto> CNum (Fin 500)]] 0
     \<lparr>Indices = [\<lparr>i_IdIndice = 1, i_Ticker = ''AAA'', i_Descricao = ''Alpha'', i_Pais = ''Brasil'', i_DataCriacao = 0, i_Ativo = True\<rparr>], HistoricoPrecos = [], falhas = [False, False, False, False, False, True]\<rparr>
   = (Inr (), \<lparr>Indices = [\<lparr>i_IdIndice = 1, i_Ticker = ''AAA'', i_Descricao = ''Alpha'', i_Pais = ''Brasil'', i_DataCriacao = 0, i_Ativo = True\<rparr>], HistoricoPrecos = [], falhas = []\<rparr>)"
proof -
  let ?row = "[''Date'' \<mapsto> CData 1, ''Open'' \<mapsto> CNum (Fin 10), ''High'' \<mapsto> CNum (Fin 12), ''Low'' \<mapsto> CNum (Fin 9), ''Close'' \<mapsto> CNum (Fin 11), ''Volume'' \<mapsto> CNum (Fin 500)]"
  let ?bar = "\<lparr>hp_IdIndice = 1, hp_DataQuotacao = 1, hp_Abertura = Some 10, hp_Alta = Some 12, hp_Baixa = Some 9, hp_Fechamento = Some 11, hp_FechamentoAjustado = Some 11, hp_Volume = Some 500, hp_DataInsercao = 0\<rparr>"
  let ?p = "\<lparr>id_indice = 1, data_quotacao = 1, abertura = Some (Fin 10), alta = Some (Fin 12), baixa = Some (Fin 9), fechamento = Some (Fin 11), fechamento_ajustado = Some (Fin 11), volume = 500, data_insercao = 0\<rparr>"
  let ?fim = "\<lparr>Indices = [\<lparr>i_IdIndice = 1, i_Ticker = ''AAA'', i_Descricao = ''Alpha'', i_Pais = ''Brasil'', i_DataCriacao = 0, i_Ativo = True\<rparr>], HistoricoPrecos = [], falhas = []\<rparr>"
  let ?bT = "\<lparr>Indices = [\<lparr>i_IdIndice = 1, i_Ticker = ''AAA'', i_Descricao = ''Alpha'', i_Pais = ''Brasil'', i_DataCriacao = 0, i_Ativo = True\<rparr>], HistoricoPrecos = [], falhas = [True]\<rparr>"
  let ?bC = "\<lparr>Indices = [\<lparr>i_IdIndice = 1, i_Ticker = ''AAA'', i_Descricao = ''Alpha'', i_Pais = ''Brasil'', i_DataCriacao = 0, i_Ativo = True\<rparr>], HistoricoPrecos = [], falhas = [False, False, False, True]\<rparr>"
  let ?bI = "\<lparr>Indices = [\<lparr>i_IdIndice = 1, i_Ticker = ''AAA'', i_Descricao = ''Alpha'', i_Pais = ''Brasil'', i_DataCriacao = 0, i_Ativo = True\<rparr>], HistoricoPrecos = [], falhas = [False, True]\<rparr>"
  let ?bS = "\<lparr>Indices = [\<lparr>i_IdIndice = 1, i_Ticker = ''AAA'', i_Descricao = ''Alpha'', i_Pais = ''Brasil'', i_DataCriacao = 0, i_Ativo = True\<rparr>], HistoricoPrecos = [], falhas = [False, False, False, False, False, True]\<rparr>"
  have ne: "[?row] \<noteq> []" by simp
  have dl: "data_da_linha ?row = Inr 1"
    by (simp add: data_da_linha_def coluna_def bind_erro_def)
  have a: "fst (coletar_indice_completo ''AAA'' ''Alpha'' ''Brasil'' [?row] 0 ?bT) = Inr ()"
    using erro_do_banco_ao_salvar
      [where ticker = "''AAA''" and descr = "''Alpha''" and pais = "''Brasil''"
         and df = "[?row]" and agora = 0 and b = ?bT]
    by blast
  have fT: "falhas ?bT = True # []" by simp
  have b: "salvar_historico_precos 1 ''AAA'' [?row] 0 ?bT = (Inl ErroBanco, ?bT\<lparr>falhas := []\<rparr>)"
    using erro_do_banco_ao_salvar
      [where df = "[?row]" and b = ?bT and fs = "[]" and idi = 1 and ticker = "''AAA''"
         and agora = 0] ne fT
    by blast
  have c1: "chamada ?bC = (True, \<lparr>Indices = [\<lparr>i_IdIndice = 1, i_Ticker = ''AAA'', i_Descricao = ''Alpha'', i_Pais = ''Brasil'', i_DataCriacao = 0, i_Ativo = True\<rparr>], HistoricoPrecos = [], falhas = [False, False, True]\<rparr>)"
    by (simp add: chamada_def)
  have c2: "foldl (processa_linha 1 0) (\<lparr>Indices = [\<lparr>i_IdIndice = 1, i_Ticker = ''AAA'', i_Descricao = ''Alpha'', i_Pais = ''Brasil'', i_DataCriacao = 0, i_Ativo = True\<rparr>], HistoricoPrecos = [], falhas = [False, False, True]\<rparr>, 0, 0) [?row]
              = (\<lparr>Indices = [\<lparr>i_IdIndice = 1, i_Ticker = ''AAA'', i_Descricao = ''Alpha'', i_Pais = ''Brasil'', i_DataCriacao = 0, i_Ativo = True\<rparr>], HistoricoPrecos = [?bar], falhas = [True]\<rparr>, 1, 0)"
    by (simp add: avalia)
  have c3: "chamada \<lparr>Indices = [\<lparr>i_IdIndice = 1, i_Ticker = ''AAA'', i_Descricao = ''Alpha'', i_Pais = ''Brasil'', i_DataCriacao = 0, i_Ativo = True\<rparr>], HistoricoPrecos = [?bar], falhas = [True]\<rparr> = (False, \<lparr>Indices = [\<lparr>i_IdIndice = 1, i_Ticker = ''AAA'', i_Descricao = ''Alpha'', i_Pais = ''Brasil'', i_DataCriacao = 0, i_Ativo = True\<rparr>], HistoricoPrecos = [?bar], falhas = []\<rparr>)"
    by (simp add: chamada_def)
  have c: "salvar_historico_precos 1 ''AAA'' [?row] 0 ?bC =
             (Inl ErroBanco, \<lparr>Indices = [\<lparr>i_IdIndice = 1, i_Ticker = ''AAA'', i_Descricao = ''Alpha'', i_Pais = ''Brasil'', i_DataCriacao = 0, i_Ativo = True\<rparr>], HistoricoPrecos = [?bar], falhas = []\<rparr>\<lparr>HistoricoPrecos := HistoricoPrecos ?bC\<rparr>)"
    using erro_do_banco_ao_salvar
      [where df = "[?row]" and b = ?bC and idi = 1 and ticker = "''AAA''" and agora = 0
         and ?b1.0 = "\<lparr>Indices = [\<lparr>i_IdIndice = 1, i_Ticker = ''AAA'', i_Descricao = ''Alpha'', i_Pais = ''Brasil'', i_DataCriacao = 0, i_Ativo = True\<rparr>], HistoricoPrecos = [], falhas = [False, False, True]\<rparr>" and ?b2.0 = "\<lparr>Indices = [\<lparr>i_IdIndice = 1, i_Ticker = ''AAA'', i_Descricao = ''Alpha'', i_Pais = ''Brasil'', i_DataCriacao = 0, i_Ativo = True\<rparr>], HistoricoPrecos = [?bar], falhas = [True]\<rparr>"
         and ins = 1 and dup = 0 and ok = False and ?b3.0 = "\<lparr>Indices = [\<lparr>i_IdIndice = 1, i_Ticker = ''AAA'', i_Descricao = ''Alpha'', i_Pais = ''Brasil'', i_DataCriacao = 0, i_Ativo = True\<rparr>], HistoricoPrecos = [?bar], falhas = []\<rparr>"]
      ne c1 c2 c3
    by simp
  have d: "processa_linha 1 0 (?bT, 0, 0) ?row = (?bT\<lparr>falhas := []\<rparr>, 0, 0)"
    using erro_do_banco_ao_salvar
      [where b = ?bT and fs = "[]" and row = ?row and dt = 1 and idi = 1 and agora = 0
         and i = 0 and d = 0] fT dl
    by blast
  have fI: "falhas ?bI = False # True # []" by simp
  have ex: "existe ?bI 1 1 = 0" by (simp add: existe_def)
  have mp: "monta_parametros 1 ?row 0 = Inr ?p"
    by (simp add: monta_parametros_def data_da_linha_def coluna_def bind_erro_def
        float_ou_none_def int_ou_zero_def)
  have e: "processa_linha 1 0 (?bI, 0, 0) ?row = (?bI\<lparr>falhas := []\<rparr>, 0, 0)"
    using erro_do_banco_ao_salvar
      [where b = ?bI and fs = "[]" and row = ?row and dt = 1 and idi = 1 and agora = 0
         and i = 0 and d = 0 and p = ?p] fI dl ex mp
    by blast
  have ad: "adicionar_indice ''AAA'' ''Alpha'' ''Brasil'' 0 ?bS = (Inr 1, ?bC)"
    by (simp add: adicionar_indice_def chamada_def)
  have sv: "salvar_historico_precos 1 ''AAA'' [?row] 0 ?bC = (Inl ErroBanco, ?fim)"
    using c by simp
  have f: "coletar_indice_completo ''AAA'' ''Alpha'' ''Brasil'' [?row] 0 ?bS = (Inr (), ?fim)"
    using erro_do_banco_ao_salvar
      [where ticker = "''AAA''" and descr = "''Alpha''" and pais = "''Brasil''"
         and df = "[?row]" and agora = 0 and b = ?bS and idi = 1 and ba = ?bC
         and ?e2.0 = ErroBanco and bs = ?fim] ne ad sv
    by blast
  show ?thesis using a b sv d e f by simp
qed

text \<open>
  C7, counterexample. A fetched bar with close 11 and an \<open>Adj Close\<close> of 7 is stored by
  the collector with the adjusted close 11. And for the loader, a download with the
  columns Date, Open, High, Low, Close, Volume, Dividends, Stock Splits has no adjusted
  close under any spelling: the selection of the kept columns raises \<open>KeyError\<close>, with
  no fallback to the close.
\<close>

theorem fechamento_ajustado_ignorado:
  "salvar_historico_precos 1 ''AAA''
     [[''Date'' \<mapsto> CData 1, ''Open'' \<mapsto> CNum (Fin 10), ''High'' \<mapsto> CNum (Fin 12), ''Low'' \<mapsto> CNum (Fin 9), ''Close'' \<mapsto> CNum (Fin 11), ''Volume'' \<mapsto> CNum (Fin 500), ''Adj Close'' \<mapsto> CNum (Fin 7)]] 0
     \<lparr>Indices = [], HistoricoPrecos = [], falhas = []\<rparr> = (Inr (Some (1, 0)),
      \<lparr>Indices = [], HistoricoPrecos = [\<lparr>hp_IdIndice = 1, hp_DataQuotacao = 1, hp_Abertura = Some 10, hp_Alta = Some 12, hp_Baixa = Some 9, hp_Fechamento = Some 11, hp_FechamentoAjustado = Some 11, hp_Volume = Some 500, hp_DataInsercao = 0\<rparr>], falhas = []\<rparr>) \<and>
   colunas_carga [''Date'', ''Open'', ''High'', ''Low'', ''Close'', ''Volume'', ''Dividends'', ''Stock Splits''] = Inl KeyError"
  by (simp add: avalia colunas_carga_def renomeia_adj_close_def atribui_coluna_def nome_sql_def
      colunas_mantidas_def parece_adj_close_def lower_def minuscula_def Let_def)

text \<open>
  C7, as the code has it. Every bar the collector writes has the row's \<open>Close\<close> both as
  close and as adjusted close, and a column of any other name than the six it reads
  (an adjusted close under any spelling) changes nothing. In the loader, a frame with a
  column \<open>Adj Close\<close> keeps its column names. Without one, the first column whose
  lower-cased name contains both \<open>adj\<close> and \<open>close\<close> is renamed to \<open>Adj Close\<close>, and
  only that name: a later column of such a name keeps its name. With no such column the
  names stay, and when the download has no column called \<open>FechamentoAjustado\<close> either,
  the frame is refused with \<open>KeyError\<close>: the close is not used in its place.
\<close>

theorem fechamento_ajustado_gravado:
  "(registro idi row agora = Inr r \<longrightarrow>
      hp_FechamentoAjustado r = hp_Fechamento r \<and>
      (\<exists>x. float_ou_none row ''Close'' = Inr x \<and> numerico x = Inr (hp_Fechamento r))) \<and>
   (c \<notin> {''Date'', ''Open'', ''High'', ''Low'', ''Close'', ''Volume''} \<longrightarrow>
      registro idi (row(c \<mapsto> v)) agora = registro idi row agora) \<and>
   (''Adj Close'' \<in> set cols \<longrightarrow> renomeia_adj_close cols = cols) \<and>
   (''Adj Close'' \<notin> set cols \<longrightarrow> cols = pre @ col # post \<longrightarrow>
      (\<forall>c\<in>set pre. \<not> parece_adj_close c) \<longrightarrow> parece_adj_close col \<longrightarrow>
      renomeia_adj_close cols = map (\<lambda>c. if c = col then ''Adj Close'' else c) cols) \<and>
   (''Adj Close'' \<notin> set cols \<longrightarrow> (\<forall>c\<in>set cols. \<not> parece_adj_close c) \<longrightarrow>
      renomeia_adj_close cols = cols \<and>
      (''FechamentoAjustado'' \<notin> set cols \<longrightarrow> colunas_carga cols = Inl KeyError))"
proof -
  have p1: "hp_FechamentoAjustado r = hp_Fechamento r \<and>
      (\<exists>x. float_ou_none row ''Close'' = Inr x \<and> numerico x = Inr (hp_Fechamento r))"
    if "registro idi row agora = Inr r"
    using that by (rule registro_fechamento)
  have p2: "registro idi (row(c \<mapsto> v)) agora = registro idi row agora"
    if "c \<notin> {''Date'', ''Open'', ''High'', ''Low'', ''Close'', ''Volume''}"
    using that by (rule registro_outra_coluna)
  have p3: "renomeia_adj_close cols = cols" if "''Adj Close'' \<in> set cols"
    using that by (simp add: renomeia_adj_close_def)
  have p4: "renomeia_adj_close cols = map (\<lambda>c. if c = col then ''Adj Close'' else c) cols"
    if "''Adj Close'' \<notin> set cols" and "cols = pre @ col # post"
      and "\<forall>c\<in>set pre. \<not> parece_adj_close c" and "parece_adj_close col"
    using that by (rule renomeia_adj_close_primeira)
  have p5: "renomeia_adj_close cols = cols"
    if "''Adj Close'' \<notin> set cols" and "\<forall>c\<in>set cols. \<not> parece_adj_close c"
    using that by (rule renomeia_adj_close_sem)
  have p6: "colunas_carga cols = Inl KeyError"
    if "''Adj Close'' \<notin> set cols" and "\<forall>c\<in>set cols. \<not> parece_adj_close c"
      and "''FechamentoAjustado'' \<notin> set cols"
    using that(1,3,2) by (rule colunas_carga_sem_ajustado)
  show ?thesis
    apply (intro conjI impI)
    subgoal using p1 by simp
    subgoal using p1 by simp
    subgoal using p2 by simp
    subgoal using p3 by simp
    subgoal using p4 by simp
    subgoal using p5 by simp
    subgoal using p6 by simp
    done
qed

text \<open>
  C7, witness: the bar written for a row is the same with and without an \<open>Adj Close\<close>
  of 7. In the loader, of the two columns \<open>adjclose\<close> and \<open>Adj_Close\<close> the first is
  renamed and the second keeps its name; the columns of a download without adjusted
  close are left as they are and refused.
\<close>

theorem fechamento_ajustado_gravado_witness:
  "registro 1 [''Date'' \<mapsto> CData 1, ''Open'' \<mapsto> CNum (Fin 10), ''High'' \<mapsto> CNum (Fin 12), ''Low'' \<mapsto> CNum (Fin 9), ''Close'' \<mapsto> CNum (Fin 11), ''Volume'' \<mapsto> CNum (Fin 500)] 0 = Inr \<lparr>hp_IdIndice = 1, hp_DataQuotacao = 1, hp_Abertura = Some 10, hp_Alta = Some 12, hp_Baixa = Some 9, hp_Fechamento = Some 11, hp_FechamentoAjustado = Some 11, hp_Volume = Some 500, hp_DataInsercao = 0\<rparr> \<and>
   registro 1 ([''Date'' \<mapsto> CData 1, ''Open'' \<mapsto> CNum (Fin 10), ''High'' \<mapsto> CNum (Fin 12), ''Low'' \<mapsto> CNum (Fin 9), ''Close'' \<mapsto> CNum (Fin 11), ''Volume'' \<mapsto> CNum (Fin 500)](''Adj Close'' \<mapsto> CNum (Fin 7))) 0 = Inr \<lparr>hp_IdIndice = 1, hp_DataQuotacao = 1, hp_Abertura = Some 10, hp_Alta = Some 12, hp_Baixa = Some 9, hp_Fechamento = Some 11, hp_FechamentoAjustado = Some 11, hp_Volume = Some 500, hp_DataInsercao = 0\<rparr> \<and>
   renomeia_adj_close [''Date'', ''Open'', ''High'', ''Low'', ''Close'', ''adjclose'', ''Adj_Close'', ''Volume''] =
     [''Date'', ''Open'', ''High'', ''Low'', ''Close'', ''Adj Close'', ''Adj_Close'', ''Volume''] \<and>
   renomeia_adj_close [''Date'', ''Open'', ''High'', ''Low'', ''Close'', ''Volume'', ''Dividends'', ''Stock Splits''] =
     [''Date'', ''Open'', ''High'', ''Low'', ''Close'', ''Volume'', ''Dividends'', ''Stock Splits''] \<and>
   colunas_carga [''Date'', ''Open'', ''High'', ''Low'', ''Close'', ''Volume'', ''Dividends'', ''Stock Splits''] = Inl KeyError"
proof -
  let ?row = "[''Date'' \<mapsto> CData 1, ''Open'' \<mapsto> CNum (Fin 10), ''High'' \<mapsto> CNum (Fin 12), ''Low'' \<mapsto> CNum (Fin 9), ''Close'' \<mapsto> CNum (Fin 11), ''Volume'' \<mapsto> CNum (Fin 500)]"
  let ?r = "\<lparr>hp_IdIndice = 1, hp_DataQuotacao = 1, hp_Abertura = Some 10, hp_Alta = Some 12, hp_Baixa = Some 9, hp_Fechamento = Some 11, hp_FechamentoAjustado = Some 11, hp_Volume = Some 500, hp_DataInsercao = 0\<rparr>"
  let ?sem = "[''Date'', ''Open'', ''High'', ''Low'', ''Close'', ''Volume'', ''Dividends'', ''Stock Splits'']"
  let ?dois = "[''Date'', ''Open'', ''High'', ''Low'', ''Close'', ''adjclose'', ''Adj_Close'', ''Volume'']"
  let ?pre = "[''Date'', ''Open'', ''High'', ''Low'', ''Close'']"
  let ?post = "[''Adj_Close'', ''Volume'']"
  have a: "registro 1 ?row 0 = Inr ?r"
    by (simp add: registro_def monta_parametros_def data_da_linha_def coluna_def bind_erro_def
        float_ou_none_def int_ou_zero_def insert_preco_def bigint_def)
  have h1: "''Adj Close'' \<notin> {''Date'', ''Open'', ''High'', ''Low'', ''Close'', ''Volume''}" by simp
  have b: "registro 1 (?row(''Adj Close'' \<mapsto> CNum (Fin 7))) 0 = registro 1 ?row 0"
    by (rule fechamento_ajustado_gravado
      [where c = "''Adj Close''" and idi = 1 and row = ?row and v = "CNum (Fin 7)" and agora = 0,
        THEN conjunct2, THEN conjunct1, THEN mp, OF h1])
  have d1: "''Adj Close'' \<notin> set ?dois" by simp
  have d2: "?dois = ?pre @ ''adjclose'' # ?post" by simp
  have d3: "\<forall>c\<in>set ?pre. \<not> parece_adj_close c"
    by (simp add: parece_adj_close_def lower_def minuscula_def)
  have d4: "parece_adj_close ''adjclose''"
    by (simp add: parece_adj_close_def lower_def minuscula_def)
  have "renomeia_adj_close ?dois = map (\<lambda>c. if c = ''adjclose'' then ''Adj Close'' else c) ?dois"
    by (rule fechamento_ajustado_gravado
      [where cols = ?dois and pre = ?pre and col = "''adjclose''" and post = ?post,
        THEN conjunct2, THEN conjunct2, THEN conjunct2, THEN conjunct1,
        THEN mp, THEN mp, THEN mp, THEN mp, OF d1 d2 d3 d4])
  then have c: "renomeia_adj_close ?dois = [''Date'', ''Open'', ''High'', ''Low'', ''Close'', ''Adj Close'', ''Adj_Close'', ''Volume'']"
    by simp
  have s1: "''Adj Close'' \<notin> set ?sem" by simp
  have s2: "\<forall>c\<in>set ?sem. \<not> parece_adj_close c"
    by (simp add: parece_adj_close_def lower_def minuscula_def)
  have s3: "''FechamentoAjustado'' \<notin> set ?sem" by simp
  have d0: "renomeia_adj_close ?sem = ?sem \<and>
      (''FechamentoAjustado'' \<notin> set ?sem \<longrightarrow> colunas_carga ?sem = Inl KeyError)"
    by (rule fechamento_ajustado_gravado
      [where cols = ?sem, THEN conjunct2, THEN conjunct2, THEN conjunct2, THEN conjunct2,
        THEN mp, THEN mp, OF s1 s2])
  have d: "renomeia_adj_close ?sem = ?sem \<and> colunas_carga ?sem = Inl KeyError"
    by (rule conjI [OF conjunct1 [OF d0] mp [OF conjunct2 [OF d0] s3]])
  have b': "registro 1 (?row(''Adj Close'' \<mapsto> CNum (Fin 7))) 0 = Inr ?r"
    by (rule trans [OF b a])
  show ?thesis
    by (intro conjI) (rule a, rule b', rule c, rule conjunct1 [OF d], rule conjunct2 [OF d])
qed

text \<open>
  C9. On a reachable store: when the ticker is in the table, \<open>adicionar_indice\<close> returns
  the id of a record with that ticker and the store is unchanged, whatever description
  and country are passed; when it is not, one record with the ticker, the description
  and the country is added, active, under a new id that no record had, and that id is
  returned.
\<close>

theorem adicionar_indice_primeiro_vence:
  assumes "falhas b = []"
  shows "(ticker \<in> i_Ticker ` set (Indices b) \<longrightarrow>
            (\<exists>i\<in>set (Indices b). i_Ticker i = ticker \<and>
               adicionar_indice ticker descr pais agora b = (Inr (i_IdIndice i), b))) \<and>
         (ticker \<notin> i_Ticker ` set (Indices b) \<longrightarrow>
            adicionar_indice ticker descr pais agora b =
              (Inr (proximo_id (Indices b)),
               b\<lparr>Indices := Indices b @
                    [\<lparr>i_IdIndice = proximo_id (Indices b), i_Ticker = ticker, i_Descricao = descr,
                      i_Pais = pais, i_DataCriacao = agora, i_Ativo = True\<rparr>]\<rparr>) \<and>
            proximo_id (Indices b) \<notin> i_IdIndice ` set (Indices b))"
proof (intro conjI impI)
  assume "ticker \<in> i_Ticker ` set (Indices b)"
  then have "filter (\<lambda>i. i_Ticker i = ticker) (Indices b) \<noteq> []"
    by (auto simp: filter_empty_conv)
  then obtain i rest where f: "filter (\<lambda>i. i_Ticker i = ticker) (Indices b) = i # rest"
    by (cases "filter (\<lambda>i. i_Ticker i = ticker) (Indices b)") auto
  then have "i \<in> set (filter (\<lambda>i. i_Ticker i = ticker) (Indices b))" by simp
  then have m: "i \<in> set (Indices b)" "i_Ticker i = ticker" by simp_all
  have "adicionar_indice ticker descr pais agora b = (Inr (i_IdIndice i), b)"
    using chamada_saudavel [OF assms] f by (simp add: adicionar_indice_def)
  then show "\<exists>i\<in>set (Indices b). i_Ticker i = ticker \<and>
               adicionar_indice ticker descr pais agora b = (Inr (i_IdIndice i), b)"
    using m by blast
next
  assume "ticker \<notin> i_Ticker ` set (Indices b)"
  then have f: "filter (\<lambda>i. i_Ticker i = ticker) (Indices b) = []"
    by (auto simp: filter_empty_conv)
  show "adicionar_indice ticker descr pais agora b =
              (Inr (proximo_id (Indices b)),
               b\<lparr>Indices := Indices b @
                    [\<lparr>i_IdIndice = proximo_id (Indices b), i_Ticker = ticker, i_Descricao = descr,
                      i_Pais = pais, i_DataCriacao = agora, i_Ativo = True\<rparr>]\<rparr>)"
    using chamada_saudavel [OF assms] f by (simp add: adicionar_indice_def Let_def)
next
  show "proximo_id (Indices b) \<notin> i_IdIndice ` set (Indices b)" by (rule proximo_id_novo)
qed

text \<open>
  C9, witness: AAA is stored under id 1. Adding AAA again under another name and country
  returns 1 and changes nothing; adding BBB appends it under id 2.
\<close>

theorem adicionar_indice_primeiro_vence_witness:
  "adicionar_indice ''AAA'' ''Outro nome'' ''EUA'' 5
     \<lparr>Indices = [\<lparr>i_IdIndice = 1, i_Ticker = ''AAA'', i_Descricao = ''Alpha'', i_Pais = ''Brasil'', i_DataCriacao = 0, i_Ativo = True\<rparr>], HistoricoPrecos = [], falhas = []\<rparr> = (Inr 1, \<lparr>Indices = [\<lparr>i_IdIndice = 1, i_Ticker = ''AAA'', i_Descricao = ''Alpha'', i_Pais = ''Brasil'', i_DataCriacao = 0, i_Ativo = True\<rparr>], HistoricoPrecos = [], falhas = []\<rparr>) \<and>
   adicionar_indice ''BBB'' ''Beta'' ''EUA'' 5
     \<lparr>Indices = [\<lparr>i_IdIndice = 1, i_Ticker = ''AAA'', i_Descricao = ''Alpha'', i_Pais = ''Brasil'', i_DataCriacao = 0, i_Ativo = True\<rparr>], HistoricoPrecos = [], falhas = []\<rparr> = (Inr 2, \<lparr>Indices = [\<lparr>i_IdIndice = 1, i_Ticker = ''AAA'', i_Descricao = ''Alpha'', i_Pais = ''Brasil'', i_DataCriacao = 0, i_Ativo = True\<rparr>, \<lparr>i_IdIndice = 2, i_Ticker = ''BBB'', i_Descricao = ''Beta'', i_Pais = ''EUA'', i_DataCriacao = 5, i_Ativo = True\<rparr>], HistoricoPrecos = [], falhas = []\<rparr>)"
proof -
  let ?b = "\<lparr>Indices = [\<lparr>i_IdIndice = 1, i_Ticker = ''AAA'', i_Descricao = ''Alpha'', i_Pais = ''Brasil'', i_DataCriacao = 0, i_Ativo = True\<rparr>], HistoricoPrecos = [], falhas = []\<rparr>"
  have h: "falhas ?b = []" by simp
  have a: "adicionar_indice ''AAA'' ''Outro nome'' ''EUA'' 5 ?b = (Inr 1, ?b)"
    using adicionar_indice_primeiro_vence [OF h, of "''AAA''" "''Outro nome''" "''EUA''" 5] by simp
  have b: "adicionar_indice ''BBB'' ''Beta'' ''EUA'' 5 ?b = (Inr 2, \<lparr>Indices = [\<lparr>i_IdIndice = 1, i_Ticker = ''AAA'', i_Descricao = ''Alpha'', i_Pais = ''Brasil'', i_DataCriacao = 0, i_Ativo = True\<rparr>, \<lparr>i_IdIndice = 2, i_Ticker = ''BBB'', i_Descricao = ''Beta'', i_Pais = ''EUA'', i_DataCriacao = 5, i_Ativo = True\<rparr>], HistoricoPrecos = [], falhas = []\<rparr>)"
    using adicionar_indice_primeiro_vence [OF h, of "''BBB''" "''Beta''" "''EUA''" 5]
    by (simp add: proximo_id_def)
  show ?thesis using a b by (intro conjI)
qed

text \<open>
  C10. Every bar in the table after a run of the collector either was there before or was
  written for a row of the frame, and then its volume is not NULL, and is 0 when the
  row's volume is NaN. Such a row is written: on a reachable store that holds no bar
  of the instrument for its date, a row with finite prices and a NaN volume is appended
  with the volume 0 and counted as inserted. The total volume of a segment whose rows
  all have a volume, as the bars of the collector do, is the sum of the volumes in
  64-bit integer arithmetic: the exact sum when that is a 64-bit integer, so that the
  zeros add nothing, and the sum wrapped around otherwise.
\<close>

theorem volume_gravado_nunca_nulo:
  "(\<forall>p\<in>set (HistoricoPrecos (snd (salvar_historico_precos idi ticker df agora b))).
      p \<in> set (HistoricoPrecos b) \<or>
      (\<exists>lin\<in>set df. registro idi lin agora = Inr p \<and> hp_Volume p \<noteq> None \<and>
          (lin ''Volume'' = Some (CNum NaN) \<longrightarrow> hp_Volume p = Some 0))) \<and>
   (row ''Date'' = Some (CData dt) \<longrightarrow> row ''Open'' = Some (CNum (Fin ab)) \<longrightarrow>
    row ''High'' = Some (CNum (Fin al)) \<longrightarrow> row ''Low'' = Some (CNum (Fin ba)) \<longrightarrow>
    row ''Close'' = Some (CNum (Fin fe)) \<longrightarrow> row ''Volume'' = Some (CNum NaN) \<longrightarrow>
    falhas b = [] \<longrightarrow> existe b idi dt = 0 \<longrightarrow>
      processa_linha idi agora (b, i, d) row =
        (b\<lparr>HistoricoPrecos := HistoricoPrecos b @
             [\<lparr>hp_IdIndice = idi, hp_DataQuotacao = dt, hp_Abertura = Some ab,
                hp_Alta = Some al, hp_Baixa = Some ba, hp_Fechamento = Some fe,
                hp_FechamentoAjustado = Some fe, hp_Volume = Some 0,
                hp_DataInsercao = agora\<rparr>]\<rparr>,
         i + 1, d)) \<and>
   (dados \<noteq> [] \<longrightarrow> (\<forall>q\<in>set dados. q_Volume q \<noteq> None) \<longrightarrow>
      (\<exists>m. calcular_metricas_segmento dados = Some m \<and>
           VolumeTotal m =
             Inteiro (wrap64 (sum_list (map (\<lambda>q. volume_ou_zero (q_Volume q)) dados))))) \<and>
   (- (2 ^ 63) \<le> x \<longrightarrow> x < 2 ^ 63 \<longrightarrow> wrap64 x = x)"
proof (intro conjI ballI impI)
  fix p assume "p \<in> set (HistoricoPrecos (snd (salvar_historico_precos idi ticker df agora b)))"
  then consider "p \<in> set (HistoricoPrecos b)"
    | lin where "lin \<in> set df" "registro idi lin agora = Inr p"
    using salvar_novos [of idi ticker df agora b] by blast
  then show "p \<in> set (HistoricoPrecos b) \<or>
      (\<exists>lin\<in>set df. registro idi lin agora = Inr p \<and> hp_Volume p \<noteq> None \<and>
          (lin ''Volume'' = Some (CNum NaN) \<longrightarrow> hp_Volume p = Some 0))"
  proof cases
    case 1
    then show ?thesis by simp
  next
    case 2
    from registro_volume [OF 2(2)] obtain v where
      v: "hp_Volume p = Some v" "int_ou_zero lin ''Volume'' = Inr v" by blast
    have "lin ''Volume'' = Some (CNum NaN) \<longrightarrow> v = 0"
      using v(2) by (auto simp: int_ou_zero_def coluna_def)
    then show ?thesis using 2 v by auto
  qed
next
  assume a: "row ''Date'' = Some (CData dt)" "row ''Open'' = Some (CNum (Fin ab))"
    "row ''High'' = Some (CNum (Fin al))" "row ''Low'' = Some (CNum (Fin ba))"
    "row ''Close'' = Some (CNum (Fin fe))" "row ''Volume'' = Some (CNum NaN)"
    and f: "falhas b = []" and e: "existe b idi dt = 0"
  note r = registro_volume_ausente(1) [OF a, of idi agora] registro_volume_ausente(2) [OF a]
  show "processa_linha idi agora (b, i, d) row =
        (b\<lparr>HistoricoPrecos := HistoricoPrecos b @
             [\<lparr>hp_IdIndice = idi, hp_DataQuotacao = dt, hp_Abertura = Some ab,
                hp_Alta = Some al, hp_Baixa = Some ba, hp_Fechamento = Some fe,
                hp_FechamentoAjustado = Some fe, hp_Volume = Some 0,
                hp_DataInsercao = agora\<rparr>]\<rparr>,
         i + 1, d)"
    using e by (simp add: processa_linha_saudavel [OF f] r)
next
  assume d: "dados \<noteq> []" and n: "\<forall>q\<in>set dados. q_Volume q \<noteq> None"
  from calcular_Some [OF d] obtain m where
    m: "calcular_metricas_segmento dados = Some m"
       "VolumeTotal m = soma_volume (map q_Volume dados)"
    by blast
  have "\<forall>v\<in>set (map q_Volume dados). v \<noteq> None" using n by simp
  then have "soma_volume (map q_Volume dados) =
               Inteiro (wrap64 (sum_list (map volume_ou_zero (map q_Volume dados))))"
    by (rule soma_volume_inteiros)
  then have "VolumeTotal m =
               Inteiro (wrap64 (sum_list (map (\<lambda>q. volume_ou_zero (q_Volume q)) dados)))"
    using m(2) by (simp add: comp_def)
  then show "\<exists>m. calcular_metricas_segmento dados = Some m \<and>
           VolumeTotal m =
             Inteiro (wrap64 (sum_list (map (\<lambda>q. volume_ou_zero (q_Volume q)) dados)))"
    using m(1) by blast
next
  assume "- (2 ^ 63) \<le> x" and "x < 2 ^ 63"
  then show "wrap64 x = x" by (rule wrap64_dentro)
qed

text \<open>
  C10, witness: a row with a NaN volume is appended to the empty table with volume 0 and
  counted as inserted. A segment with the volumes 0 and 600 has the total volume 600,
  and one with two volumes of \<open>2^62\<close> has the total volume \<open>- 2^63\<close>.
\<close>

theorem volume_gravado_nunca_nulo_witness:
  "processa_linha 1 0 (\<lparr>Indices = [], HistoricoPrecos = [], falhas = []\<rparr>, 0, 0)
     [''Date'' \<mapsto> CData 1, ''Open'' \<mapsto> CNum (Fin 10), ''High'' \<mapsto> CNum (Fin 12), ''Low'' \<mapsto> CNum (Fin 9), ''Close'' \<mapsto> CNum (Fin 11), ''Volume'' \<mapsto> CNum NaN] =
     (\<lparr>Indices = [], HistoricoPrecos = [\<lparr>hp_IdIndice = 1, hp_DataQuotacao = 1, hp_Abertura = Some 10, hp_Alta = Some 12, hp_Baixa = Some 9, hp_Fechamento = Some 11, hp_FechamentoAjustado = Some 11, hp_Volume = Some 0, hp_DataInsercao = 0\<rparr>], falhas = []\<rparr>, 1, 0) \<and>
   HistoricoPrecos (snd (salvar_historico_precos 1 ''AAA''
      [[''Date'' \<mapsto> CData 1, ''Open'' \<mapsto> CNum (Fin 10), ''High'' \<mapsto> CNum (Fin 12), ''Low'' \<mapsto> CNum (Fin 9), ''Close'' \<mapsto> CNum (Fin 11), ''Volume'' \<mapsto> CNum NaN]] 0
      \<lparr>Indices = [], HistoricoPrecos = [], falhas = []\<rparr>)) = [\<lparr>hp_IdIndice = 1, hp_DataQuotacao = 1, hp_Abertura = Some 10, hp_Alta = Some 12, hp_Baixa = Some 9, hp_Fechamento = Some 11, hp_FechamentoAjustado = Some 11, hp_Volume = Some 0, hp_DataInsercao = 0\<rparr>] \<and>
   hp_Volume \<lparr>hp_IdIndice = 1, hp_DataQuotacao = 1, hp_Abertura = Some 10, hp_Alta = Some 12, hp_Baixa = Some 9, hp_Fechamento = Some 11, hp_FechamentoAjustado = Some 11, hp_Volume = Some 0, hp_DataInsercao = 0\<rparr> = Some 0 \<and>
   (\<exists>m. calcular_metricas_segmento
      [\<lparr>q_Ticker = ''AAA'', q_Descricao = ''A'', q_DataQuotacao = 1, q_Fechamento = Some 11, q_FechamentoAjustado = Some 11, q_Volume = Some 0, q_Alta = Some 11, q_Baixa = Some 11\<rparr>,
      \<lparr>q_Ticker = ''AAA'', q_Descricao = ''A'', q_DataQuotacao = 2, q_Fechamento = Some 12, q_FechamentoAjustado = Some 12, q_Volume = Some 600, q_Alta = Some 12, q_Baixa = Some 12\<rparr>] = Some m \<and> VolumeTotal m = Inteiro 600) \<and>
   (\<exists>m. calcular_metricas_segmento
      [\<lparr>q_Ticker = ''AAA'', q_Descricao = ''A'', q_DataQuotacao = 1, q_Fechamento = Some 11, q_FechamentoAjustado = Some 11, q_Volume = Some 4611686018427387904, q_Alta = Some 11, q_Baixa = Some 11\<rparr>,
      \<lparr>q_Ticker = ''AAA'', q_Descricao = ''A'', q_DataQuotacao = 2, q_Fechamento = Some 12, q_FechamentoAjustado = Some 12, q_Volume = Some 4611686018427387904, q_Alta = Some 12, q_Baixa = Some 12\<rparr>] = Some m \<and> VolumeTotal m = Inteiro (- 9223372036854775808))"
proof -
  let ?row = "[''Date'' \<mapsto> CData 1, ''Open'' \<mapsto> CNum (Fin 10), ''High'' \<mapsto> CNum (Fin 12), ''Low'' \<mapsto> CNum (Fin 9), ''Close'' \<mapsto> CNum (Fin 11), ''Volume'' \<mapsto> CNum NaN]"
  let ?b = "\<lparr>Indices = [], HistoricoPrecos = [], falhas = []\<rparr>"
  let ?p = "\<lparr>hp_IdIndice = 1, hp_DataQuotacao = 1, hp_Abertura = Some 10, hp_Alta = Some 12, hp_Baixa = Some 9, hp_Fechamento = Some 11, hp_FechamentoAjustado = Some 11, hp_Volume = Some 0, hp_DataInsercao = 0\<rparr>"
  let ?d1 = "[\<lparr>q_Ticker = ''AAA'', q_Descricao = ''A'', q_DataQuotacao = 1, q_Fechamento = Some 11, q_FechamentoAjustado = Some 11, q_Volume = Some 0, q_Alta = Some 11, q_Baixa = Some 11\<rparr>,
      \<lparr>q_Ticker = ''AAA'', q_Descricao = ''A'', q_DataQuotacao = 2, q_Fechamento = Some 12, q_FechamentoAjustado = Some 12, q_Volume = Some 600, q_Alta = Some 12, q_Baixa = Some 12\<rparr>]"
  let ?d2 = "[\<lparr>q_Ticker = ''AAA'', q_Descricao = ''A'', q_DataQuotacao = 1, q_Fechamento = Some 11, q_FechamentoAjustado = Some 11, q_Volume = Some 4611686018427387904, q_Alta = Some 11, q_Baixa = Some 11\<rparr>,
      \<lparr>q_Ticker = ''AAA'', q_Descricao = ''A'', q_DataQuotacao = 2, q_Fechamento = Some 12, q_FechamentoAjustado = Some 12, q_Volume = Some 4611686018427387904, q_Alta = Some 12, q_Baixa = Some 12\<rparr>]"
  note t1 = volume_gravado_nunca_nulo
    [where idi = 1 and ticker = "''AAA''" and df = "[?row]" and agora = 0 and b = ?b
       and row = ?row and dt = 1 and ab = 10 and al = 12 and ba = 9 and fe = 11
       and i = 0 and d = 0 and dados = ?d1 and x = 600]
  note t2 = volume_gravado_nunca_nulo
    [where idi = 1 and ticker = "''AAA''" and df = "[?row]" and agora = 0 and b = ?b
       and row = ?row and dt = 1 and ab = 10 and al = 12 and ba = 9 and fe = 11
       and i = 0 and d = 0 and dados = ?d2 and x = 600]
  have r1: "?row ''Date'' = Some (CData 1)" by simp
  have r2: "?row ''Open'' = Some (CNum (Fin 10))" by simp
  have r3: "?row ''High'' = Some (CNum (Fin 12))" by simp
  have r4: "?row ''Low'' = Some (CNum (Fin 9))" by simp
  have r5: "?row ''Close'' = Some (CNum (Fin 11))" by simp
  have r6: "?row ''Volume'' = Some (CNum NaN)" by simp
  have f: "falhas ?b = []" by simp
  have e: "existe ?b 1 1 = 0" by (simp add: existe_def)
  have "processa_linha 1 0 (?b, 0, 0) ?row =
        (?b\<lparr>HistoricoPrecos := HistoricoPrecos ?b @
             [\<lparr>hp_IdIndice = 1, hp_DataQuotacao = 1, hp_Abertura = Some 10,
                hp_Alta = Some 12, hp_Baixa = Some 9, hp_Fechamento = Some 11,
                hp_FechamentoAjustado = Some 11, hp_Volume = Some 0,
                hp_DataInsercao = 0\<rparr>]\<rparr>,
         0 + 1, 0)"
    by (rule t1 [THEN conjunct2, THEN conjunct1, THEN mp, THEN mp, THEN mp, THEN mp, THEN mp,
          THEN mp, THEN mp, THEN mp, OF r1 r2 r3 r4 r5 r6 f e])
  then have a: "processa_linha 1 0 (?b, 0, 0) ?row = (\<lparr>Indices = [], HistoricoPrecos = [\<lparr>hp_IdIndice = 1, hp_DataQuotacao = 1, hp_Abertura = Some 10, hp_Alta = Some 12, hp_Baixa = Some 9, hp_Fechamento = Some 11, hp_FechamentoAjustado = Some 11, hp_Volume = Some 0, hp_DataInsercao = 0\<rparr>], falhas = []\<rparr>, 1, 0)"
    by simp
  have s: "HistoricoPrecos (snd (salvar_historico_precos 1 ''AAA'' [?row] 0 ?b)) = [?p]"
    by (simp add: avalia)
  have "?p \<in> set (HistoricoPrecos (snd (salvar_historico_precos 1 ''AAA'' [?row] 0 ?b)))"
    unfolding s by simp
  then have "?p \<in> set (HistoricoPrecos ?b) \<or>
      (\<exists>lin\<in>set [?row]. registro 1 lin 0 = Inr ?p \<and> hp_Volume ?p \<noteq> None \<and>
          (lin ''Volume'' = Some (CNum NaN) \<longrightarrow> hp_Volume ?p = Some 0))"
    by (rule t1 [THEN conjunct1, THEN bspec])
  then have b: "hp_Volume ?p = Some 0" by simp
  have h1: "?d1 \<noteq> []" by simp
  have n1: "\<forall>q\<in>set ?d1. q_Volume q \<noteq> None" by simp
  have w1: "wrap64 600 = 600"
    by (rule t1 [THEN conjunct2, THEN conjunct2, THEN conjunct2, THEN mp, THEN mp]) simp_all
  have "\<exists>m. calcular_metricas_segmento ?d1 = Some m \<and>
           VolumeTotal m =
             Inteiro (wrap64 (sum_list (map (\<lambda>q. volume_ou_zero (q_Volume q)) ?d1)))"
    by (rule t1 [THEN conjunct2, THEN conjunct2, THEN conjunct1, THEN mp, THEN mp, OF h1 n1])
  then have c: "\<exists>m. calcular_metricas_segmento ?d1 = Some m \<and> VolumeTotal m = Inteiro 600"
    using w1 by (simp add: volume_ou_zero_def)
  have h2: "?d2 \<noteq> []" by simp
  have n2: "\<forall>q\<in>set ?d2. q_Volume q \<noteq> None" by simp
  have "\<exists>m. calcular_metricas_segmento ?d2 = Some m \<and>
           VolumeTotal m =
             Inteiro (wrap64 (sum_list (map (\<lambda>q. volume_ou_zero (q_Volume q)) ?d2)))"
    by (rule t2 [THEN conjunct2, THEN conjunct2, THEN conjunct1, THEN mp, THEN mp, OF h2 n2])
  then have d: "\<exists>m. calcular_metricas_segmento ?d2 = Some m \<and>
                   VolumeTotal m = Inteiro (- 9223372036854775808)"
    by (simp add: volume_ou_zero_def wrap64_def)
  show ?thesis by (intro conjI) (rule a, rule s, rule b, rule c, rule d)
qed


end
